theory Spec2Isabelle
  imports Complex_Main "HOL-Library.Multiset"
begin

section \<open>Modelling conventions\<close>

text \<open>
  The engine of \<^verbatim>\<open>convex/optimization.ts\<close> computes with JavaScript numbers.
  They are modelled as real numbers: \<^verbatim>\<open>Math.sqrt\<close> is \<open>sqrt\<close>,
  \<^verbatim>\<open>Math.pow(x, 3)\<close> is \<open>x ^ 3\<close>, \<^verbatim>\<open>Math.ceil\<close> and
  \<^verbatim>\<open>Math.floor\<close> are \<open>ceiling\<close> and \<open>floor\<close>. Rounding of binary
  floating point is not part of the model. A division whose divisor can be zero where the source
  can reach it is written out with the value JavaScript gives (\<open>NaN\<close> or an infinity).
  Every definition carries the name of the source variable or function it transcribes;
  a prefix (\<open>fp_\<close>, \<open>ow_\<close>, \<open>tw_\<close>) names the search function whose body the
  variable is local to.
\<close>

section \<open>Stress-fiber formulas\<close>

text \<open>
  The search writes the same two expressions at every stress check
  (optimization.ts lines 226/228, 257/259, 581/582, 587/588, 647/648, 653/654, 895/896,
  901/902, 981/982, 987/988): top fiber \<^verbatim>\<open>-P/A + P*e/St - M/St\<close>, bottom fiber
  \<^verbatim>\<open>-P/A - P*e/Sb + M/Sb\<close>.
\<close>

definition search_top :: "real \<Rightarrow> real \<Rightarrow> real \<Rightarrow> real \<Rightarrow> real \<Rightarrow> real" where
  "search_top P A e St M = - P / A + P * e / St - M / St"

definition search_bot :: "real \<Rightarrow> real \<Rightarrow> real \<Rightarrow> real \<Rightarrow> real \<Rightarrow> real" where
  "search_bot P A e Sb M = - P / A - P * e / Sb + M / Sb"

text \<open>analyze\_stresses.js, lines 33 and 34.\<close>

definition f_top :: "real \<Rightarrow> real \<Rightarrow> real \<Rightarrow> real \<Rightarrow> real \<Rightarrow> real" where
  "f_top P A e St M = - P / A - P * e / St + M / St"

definition f_bot :: "real \<Rightarrow> real \<Rightarrow> real \<Rightarrow> real \<Rightarrow> real \<Rightarrow> real" where
  "f_bot P A e Sb M = - P / A + P * e / Sb - M / Sb"

section \<open>Material, section and cost helpers\<close>

definition getConcreteBaseCost :: "real \<Rightarrow> real" where
  "getConcreteBaseCost fc =
     (let baseCost = 220 in
      if fc \<le> 5000 then baseCost
      else
        let strengthOver5000 = min (fc - 5000) 7000;
            premiumTo12000 = (strengthOver5000 / 1000) * 15;
            premiumAbove12000 = (if fc > 12000 then ((fc - 12000) / 1000) * 26 else 0)
        in baseCost + premiumTo12000 + premiumAbove12000)"

record mildSteelReq =
  tempShrinkage :: real
  bonded :: real
  twoWay :: real
  governing :: real
  governingCase :: string

definition calculateTotalMildSteel ::
  "real \<Rightarrow> real \<Rightarrow> real \<Rightarrow> real \<Rightarrow> real \<Rightarrow> real \<Rightarrow> real \<Rightarrow> mildSteelReq" where
  "calculateTotalMildSteel thk spn fc fy serviceStress Mcr d =
     (let minRatio = 0.0018;
          tempShrinkage = minRatio * thk * 12;
          bonded = Mcr / (1.2 * fy * d);
          l2 = spn * 12;
          As_neg = 0.00075 * thk * l2;
          additionalAs =
            (if serviceStress > 2 * sqrt fc
             then (serviceStress * thk * 12) / (0.5 * fy) else 0);
          twoWay = max (As_neg + additionalAs) tempShrinkage;
          governing = max (max tempShrinkage bonded) twoWay;
          governingCase =
            (if bonded > tempShrinkage \<and> bonded > twoWay then ''minimum bonded (ACI 8.6.1)''
             else if twoWay > tempShrinkage \<and> twoWay > bonded
             then ''two-way PT slab (ACI 24.4.3)''
             else ''temperature/shrinkage'')
      in \<lparr> tempShrinkage = tempShrinkage, bonded = bonded, twoWay = twoWay,
           governing = governing, governingCase = governingCase \<rparr>)"

text \<open>
  The frontend module \<^verbatim>\<open>src/components/ResultsDisplay.tsx\<close> holds a second
  implementation of the same computation. Its minimum bonded reinforcement (lines 670 to 683,
  on the area of \<^verbatim>\<open>calculateTemperatureShrinkageSteel\<close>, lines 636 to 656) is floored
  at the temperature and shrinkage area.
\<close>

definition rd_temperatureShrinkageArea :: "real \<Rightarrow> real \<Rightarrow> real" where
  "rd_temperatureShrinkageArea thk fy =
     (let minRatio =
            (if fy = 40000 \<or> fy = 50000 then 0.0020
             else if fy = 60000 then 0.0018
             else if fy \<ge> 75000 then 0.0018 * 60000 / fy
             else 0.0018 * 60000 / fy)
      in minRatio * thk * 12)"

definition rd_calculateMinimumBondedReinforcement :: "real \<Rightarrow> real \<Rightarrow> real \<Rightarrow> real" where
  "rd_calculateMinimumBondedReinforcement Mcr fy d =
     (let As_min = Mcr / (1.2 * fy * d)
      in max As_min (rd_temperatureShrinkageArea (d + 1.5) fy))"

definition getConcreteModulus :: "real \<Rightarrow> real" where
  "getConcreteModulus fc = 57000 * sqrt fc"

definition getCoverRequirement :: "real \<Rightarrow> real" where
  "getCoverRequirement fc = (if fc \<ge> 5000 then 1.5 else if fc \<ge> 4000 then 1.75 else 2.0)"

record stressLimits =
  fci_comp :: real
  fci_tens :: real
  fc_comp_sust :: real
  fc_comp_total :: real
  fc_tens :: real

definition getStressLimits :: "real \<Rightarrow> real \<Rightarrow> stressLimits" where
  "getStressLimits fc fci =
     \<lparr> fci_comp = 0.60 * fci, fci_tens = 3 * sqrt fci, fc_comp_sust = 0.45 * fc,
       fc_comp_total = 0.60 * fc, fc_tens = 6 * sqrt fc \<rparr>"

record sectionProperties =
  sec_A :: real
  sec_I :: real
  sec_St :: real
  sec_Sb :: real
  sec_r2 :: real

definition getSectionProperties :: "real \<Rightarrow> sectionProperties" where
  "getSectionProperties thk =
     (let A = thk * 12;
          I = (12 * thk ^ 3) / 12;
          St = I / (thk / 2);
          Sb = St;
          r2 = I / A
      in \<lparr> sec_A = A, sec_I = I, sec_St = St, sec_Sb = Sb, sec_r2 = r2 \<rparr>)"

text \<open>
  \<^verbatim>\<open>calculateTendonStress\<close>. Every caller passes a strength of the list
  \<open>concreteStrengths\<close> (so \<open>fc > 0\<close>) and \<open>b * d > 0\<close>; with a zero steel ratio the
  quotient \<^verbatim>\<open>fc / (100 * rho_p)\<close> is \<open>+Infinity\<close> and the minimum is the cap.
\<close>

definition calculateTendonStress :: "real \<Rightarrow> real \<Rightarrow> real \<Rightarrow> real \<Rightarrow> real \<Rightarrow> real" where
  "calculateTendonStress fpe fc Aps b d =
     (let fpu = 270000;
          fpy = 0.9 * fpu;
          rho_p = Aps / (b * d);
          stressTerm = (if 100 * rho_p = 0 then 30000 else min (fc / (100 * rho_p)) 30000);
          fps = fpe + 10000 + stressTerm
      in min (min fps fpy) (fpe + 60000))"

definition adjustSlabCostForStrength :: "real \<Rightarrow> real \<Rightarrow> real \<Rightarrow> real" where
  "adjustSlabCostForStrength baseCost thk fc =
     (let volumePerSf = thk / 12 / 27;
          baseConcreteCost = getConcreteBaseCost 5000;
          actualConcreteCost = getConcreteBaseCost fc;
          costDifference = actualConcreteCost - baseConcreteCost
      in baseCost + (volumePerSf * costDifference))"

definition lossRatio :: "real \<Rightarrow> real" where
  "lossRatio fc =
     (if fc \<le> 5000 then 0.80 else if fc \<le> 7000 then 0.82 else if fc \<le> 10000 then 0.84
      else 0.85)"

section \<open>Flat plate: the checks of one grid point\<close>

text \<open>
  One iteration of the innermost loop of \<^verbatim>\<open>optimizeFlatPlate\<close> is determined by the
  span and the four loop variables. The \<^verbatim>\<open>debugCounts\<close> counters only feed the log;
  the model keeps the reason of each \<^verbatim>\<open>continue\<close> instead.
\<close>

record trial =
  tr_bayLength :: real
  tr_fc :: real
  tr_thickness :: real
  tr_balanceRatio :: real
  tr_eRatio :: real

datatype reject =
    StressTransferFailed | StressServiceFailed | MinPrestressFailed | TensionControlFailed
  | MomentCapacityFailed | DeflectionFailed | VibrationFailed | PunchingShearFailed
  | MinPrestressRecheck

definition loads_dead :: "real \<Rightarrow> real" where
  "loads_dead thk = 12.5 * thk"

definition loads_live :: real where
  "loads_live = 40"

definition fp_fci :: "trial \<Rightarrow> real" where
  "fp_fci tr = 0.7 * tr_fc tr"

definition fp_Ec :: "trial \<Rightarrow> real" where
  "fp_Ec tr = getConcreteModulus (tr_fc tr)"

definition fp_limits :: "trial \<Rightarrow> stressLimits" where
  "fp_limits tr = getStressLimits (tr_fc tr) (fp_fci tr)"

definition fp_minThickness :: "real \<Rightarrow> real" where
  "fp_minThickness bayLength = max 5 (of_int \<lceil>(bayLength * 12) / 50\<rceil>)"

definition fp_props :: "trial \<Rightarrow> sectionProperties" where
  "fp_props tr = getSectionProperties (tr_thickness tr)"

definition fp_Md :: "trial \<Rightarrow> real" where
  "fp_Md tr = loads_dead (tr_thickness tr) * tr_bayLength tr * tr_bayLength tr * 12 / 10"

definition fp_Ml :: "trial \<Rightarrow> real" where
  "fp_Ml tr = loads_live * tr_bayLength tr * tr_bayLength tr * 12 / 10"

definition fp_Mt :: "trial \<Rightarrow> real" where
  "fp_Mt tr = fp_Md tr + fp_Ml tr"

definition fp_Mt_service :: "trial \<Rightarrow> real" where
  "fp_Mt_service tr = fp_Md tr + 0.3 * fp_Ml tr"

definition fp_emax :: "trial \<Rightarrow> real" where
  "fp_emax tr =
     (let cover = getCoverRequirement (tr_fc tr); strandDiameter = 0.5
      in tr_thickness tr / 2 - cover - strandDiameter / 2)"

definition fp_M_balance :: "trial \<Rightarrow> real" where
  "fp_M_balance tr = tr_balanceRatio tr * fp_Md tr"

definition fp_e :: "trial \<Rightarrow> real" where
  "fp_e tr = tr_eRatio tr * fp_emax tr"

definition fp_P_balance :: "trial \<Rightarrow> real" where
  "fp_P_balance tr = fp_M_balance tr / fp_e tr"

definition fp_Pi :: "trial \<Rightarrow> real" where
  "fp_Pi tr = fp_P_balance tr / lossRatio (tr_fc tr)"

definition fp_Pe :: "trial \<Rightarrow> real" where
  "fp_Pe tr = fp_P_balance tr"

definition fp_fti_top :: "trial \<Rightarrow> real" where
  "fp_fti_top tr =
     search_top (fp_Pi tr) (sec_A (fp_props tr)) (fp_e tr) (sec_St (fp_props tr)) (fp_Md tr)"

definition fp_fti_bot :: "trial \<Rightarrow> real" where
  "fp_fti_bot tr =
     search_bot (fp_Pi tr) (sec_A (fp_props tr)) (fp_e tr) (sec_Sb (fp_props tr)) (fp_Md tr)"

definition fp_fs_top :: "trial \<Rightarrow> real" where
  "fp_fs_top tr =
     search_top (fp_Pe tr) (sec_A (fp_props tr)) (fp_e tr) (sec_St (fp_props tr))
       (fp_Mt_service tr)"

definition fp_fs_bot :: "trial \<Rightarrow> real" where
  "fp_fs_bot tr =
     search_bot (fp_Pe tr) (sec_A (fp_props tr)) (fp_e tr) (sec_Sb (fp_props tr))
       (fp_Mt_service tr)"

text \<open>Lines 235 to 253: the four transfer comparisons, in the source's order.\<close>

definition fp_transfer_check :: "trial \<Rightarrow> reject option" where
  "fp_transfer_check tr =
     (if fp_fti_top tr < - fci_comp (fp_limits tr) then Some StressTransferFailed
      else if fp_fti_top tr > fci_tens (fp_limits tr) then Some StressTransferFailed
      else if fp_fti_bot tr < - fci_comp (fp_limits tr) then Some StressTransferFailed
      else if fp_fti_bot tr > fci_tens (fp_limits tr) then Some StressTransferFailed
      else None)"

text \<open>Lines 261 to 279: the four service comparisons.\<close>

definition fp_service_check :: "trial \<Rightarrow> reject option" where
  "fp_service_check tr =
     (if fp_fs_top tr < - fc_comp_total (fp_limits tr) then Some StressServiceFailed
      else if fp_fs_top tr > fc_tens (fp_limits tr) then Some StressServiceFailed
      else if fp_fs_bot tr < - fc_comp_total (fp_limits tr) then Some StressServiceFailed
      else if fp_fs_bot tr > fc_tens (fp_limits tr) then Some StressServiceFailed
      else None)"

definition fp_avgPrestress :: "trial \<Rightarrow> real" where
  "fp_avgPrestress tr = fp_Pe tr / sec_A (fp_props tr)"

definition fp_prestress_check :: "trial \<Rightarrow> reject option" where
  "fp_prestress_check tr = (if fp_avgPrestress tr < 175 then Some MinPrestressFailed else None)"

subsection \<open>Moment capacity (lines 288 to 323)\<close>

definition fp_d :: "trial \<Rightarrow> real" where
  "fp_d tr = tr_thickness tr - 1.5"

definition fp_fpe :: "trial \<Rightarrow> real" where
  "fp_fpe tr = 0.74 * 270000 * lossRatio (tr_fc tr)"

definition fp_Aps :: "trial \<Rightarrow> real" where
  "fp_Aps tr = fp_Pe tr / fp_fpe tr"

definition fp_fps :: "trial \<Rightarrow> real" where
  "fp_fps tr = calculateTendonStress (fp_fpe tr) (tr_fc tr) (fp_Aps tr) 12 (fp_d tr)"

definition fp_beta1 :: "trial \<Rightarrow> real" where
  "fp_beta1 tr =
     (if tr_fc tr \<le> 4000 then 0.85 else max 0.65 (0.85 - 0.05 * (tr_fc tr - 4000) / 1000))"

definition fp_a :: "trial \<Rightarrow> real" where
  "fp_a tr = (fp_Aps tr * fp_fps tr) / (0.85 * tr_fc tr * 12)"

definition fp_c :: "trial \<Rightarrow> real" where
  "fp_c tr = fp_a tr / fp_beta1 tr"

text \<open>
  The strain at the tension face. The check is reached only after the minimum-prestress check,
  so the force and with it the neutral-axis depth \<open>c\<close> are positive there.
\<close>

definition fp_epsilon_t :: "trial \<Rightarrow> real" where
  "fp_epsilon_t tr = 0.003 * (fp_d tr - fp_c tr) / fp_c tr"

text \<open>The resistance factor; \<open>None\<close> is the compression-controlled \<^verbatim>\<open>continue\<close>.\<close>

definition fp_phi :: "trial \<Rightarrow> real option" where
  "fp_phi tr =
     (if fp_epsilon_t tr \<ge> 0.005 then Some 0.9
      else if fp_epsilon_t tr \<ge> 0.002
      then Some (0.65 + (fp_epsilon_t tr - 0.002) * (0.9 - 0.65) / (0.005 - 0.002))
      else None)"

definition fp_Mn :: "trial \<Rightarrow> real" where
  "fp_Mn tr = fp_Aps tr * fp_fps tr * (fp_d tr - fp_a tr / 2)"

definition fp_moment_check :: "trial \<Rightarrow> reject option" where
  "fp_moment_check tr =
     (case fp_phi tr of
        None \<Rightarrow> Some TensionControlFailed
      | Some phi \<Rightarrow>
          (let phiMn = phi * fp_Mn tr
           in if fp_Mt tr > phiMn then Some MomentCapacityFailed else None))"

subsection \<open>Deflection and vibration (lines 325 to 369)\<close>

definition fp_Mcr :: "trial \<Rightarrow> real" where
  "fp_Mcr tr =
     (let fr = 7.5 * sqrt (tr_fc tr); yt = tr_thickness tr / 2
      in (fr * sec_I (fp_props tr)) / yt)"

definition fp_M_service :: "trial \<Rightarrow> real" where
  "fp_M_service tr = (loads_live * tr_bayLength tr * tr_bayLength tr / 10) * 12"

definition fp_Ie :: "trial \<Rightarrow> real" where
  "fp_Ie tr =
     (if fp_M_service tr \<le> (2 / 3) * fp_Mcr tr then sec_I (fp_props tr)
      else
        let Icr = 0.35 * sec_I (fp_props tr)
        in Icr + (fp_Mcr tr / fp_M_service tr) ^ 3 * (sec_I (fp_props tr) - Icr))"

definition fp_delta_L :: "trial \<Rightarrow> real" where
  "fp_delta_L tr =
     (let w_live = loads_live / 1000
      in (5 * w_live * (tr_bayLength tr * 12) ^ 4) / (384 * fp_Ec tr * fp_Ie tr / 1000))"

definition fp_camber :: "trial \<Rightarrow> real" where
  "fp_camber tr =
     (fp_Pe tr * fp_e tr * (tr_bayLength tr * 12) ^ 2) / (8 * fp_Ec tr * fp_Ie tr / 1000)"

definition fp_deflection_check :: "trial \<Rightarrow> reject option" where
  "fp_deflection_check tr =
     (let netDeflection = fp_delta_L tr - 0.8 * fp_camber tr;
          deflectionLimit = (tr_bayLength tr * 12) / 480
      in if netDeflection > deflectionLimit then Some DeflectionFailed else None)"

text \<open>
  \<^verbatim>\<open>0.18 * Math.sqrt(386.4 / delta_L) * factor < limit\<close>: a zero deflection gives
  \<open>+Infinity\<close> and a negative one \<open>NaN\<close>, and neither is below the limit.
\<close>

definition frequency_below :: "real \<Rightarrow> real \<Rightarrow> real \<Rightarrow> bool" where
  "frequency_below factor delta_L limit =
     (delta_L > 0 \<and> 0.18 * sqrt (386.4 / delta_L) * factor < limit)"

definition fp_vibration_check :: "trial \<Rightarrow> reject option" where
  "fp_vibration_check tr =
     (if frequency_below 1 (fp_delta_L tr) 5.0 then Some VibrationFailed else None)"

subsection \<open>Punching shear (lines 371 to 397)\<close>

definition fp_bo :: "trial \<Rightarrow> real" where
  "fp_bo tr = 4 * (fp_d tr + 4.5)"

definition fp_vcNominal :: "trial \<Rightarrow> real" where
  "fp_vcNominal tr =
     (let lambda_s = min (sqrt (2 / (1 + 0.004 * fp_d tr))) 1.0;
          beta = 1.0;
          alpha_s = 40;
          vc1 = (2 + 4 / beta) * lambda_s * sqrt (tr_fc tr);
          vc2 = (alpha_s * fp_d tr / fp_bo tr + 2) * lambda_s * sqrt (tr_fc tr);
          vc3 = 4 * lambda_s * sqrt (tr_fc tr)
      in min (min vc1 vc2) vc3 + 0.3 * fp_avgPrestress tr)"

definition fp_punching_check :: "trial \<Rightarrow> reject option" where
  "fp_punching_check tr =
     (let phiShear = 0.75;
          vcDesign = phiShear * fp_vcNominal tr;
          vu = 3000 / (fp_bo tr * fp_d tr)
      in if vu > vcDesign then Some PunchingShearFailed
         else if fp_avgPrestress tr < 175 then Some MinPrestressRecheck
         else None)"

subsection \<open>The checks in sequence\<close>

fun first_reject :: "reject option list \<Rightarrow> reject option" where
  "first_reject [] = None"
| "first_reject (Some r # rs) = Some r"
| "first_reject (None # rs) = first_reject rs"

definition fp_stress_screen :: "trial \<Rightarrow> reject option" where
  "fp_stress_screen tr = first_reject [fp_transfer_check tr, fp_service_check tr]"

definition fp_checks :: "trial \<Rightarrow> reject option" where
  "fp_checks tr =
     first_reject
       [fp_transfer_check tr, fp_service_check tr, fp_prestress_check tr, fp_moment_check tr,
        fp_deflection_check tr, fp_vibration_check tr, fp_punching_check tr]"

section \<open>Cost parameters and the slab cost table\<close>

text \<open>
  The fields of \<^verbatim>\<open>costParams\<close> that the searches read. The steel unit cost is
  optional in the stored record (\<^verbatim>\<open>v.optional(v.number())\<close>).
\<close>

record ptSlabCost =
  thickness :: real
  costPerSf :: real

record costParameters =
  ptSlabCosts :: "ptSlabCost list"
  ptFormworkCostPerSf :: real
  beamFormingCostPerCf :: real
  beamPouringCostPerCf :: real
  ptStrandCostPerLb :: real
  mildSteelCostPerLb :: "real option"

text \<open>
  A JavaScript number that may have left the reals, and the one exception the searches can
  raise: reading \<^verbatim>\<open>sortedCosts[0].thickness\<close> of an empty array.
\<close>

datatype jsnum = Num real | PosInf | NegInf | NaN

datatype jsError = TypeError

text \<open>\<^verbatim>\<open>x || d\<close> on an optional number: \<open>undefined\<close> and \<open>0\<close> are falsy.\<close>

definition js_or :: "real option \<Rightarrow> real \<Rightarrow> real" where
  "js_or x d = (case x of None \<Rightarrow> d | Some v \<Rightarrow> if v = 0 then d else v)"

text \<open>
  \<^verbatim>\<open>costParams.ptSlabCosts.sort((a, b) => a.thickness - b.thickness)\<close> sorts the
  array of the caller's record in place (the sort is stable) and returns that same array.
\<close>

definition sortCosts :: "costParameters \<Rightarrow> costParameters" where
  "sortCosts cp = cp\<lparr> ptSlabCosts := sort_key thickness (ptSlabCosts cp) \<rparr>"

text \<open>
  The interpolation loop (lines 406 to 416): the first pair of neighbours that brackets the
  thickness. With equal neighbours the quotient is \<open>0 / 0\<close>.
\<close>

fun bracketCost :: "real \<Rightarrow> ptSlabCost list \<Rightarrow> jsnum option" where
  "bracketCost x (p # q # rest) =
     (if x \<ge> thickness p \<and> x \<le> thickness q
      then (let t1 = thickness p; t2 = thickness q; c1 = costPerSf p; c2 = costPerSf q
            in Some (if t2 - t1 = 0 then NaN else Num (c1 + (c2 - c1) * (x - t1) / (t2 - t1))))
      else bracketCost x (q # rest))"
| "bracketCost x [p] = None"
| "bracketCost x [] = None"

text \<open>
  Lines 403 to 422, after the sort: the default, the loop, then the two clamps. This is the
  spec's \<open>interpolatedSlabCost\<close>.
\<close>

definition interpolateBaseCost :: "real \<Rightarrow> real \<Rightarrow> ptSlabCost list \<Rightarrow> jsError + jsnum" where
  "interpolateBaseCost dflt x sortedCosts =
     (let baseCost = (case bracketCost x sortedCosts of None \<Rightarrow> Num dflt | Some v \<Rightarrow> v)
      in case sortedCosts of
           [] \<Rightarrow> Inl TypeError
         | p # rest \<Rightarrow>
             Inr (if x \<le> thickness p then Num (costPerSf p)
                  else if x \<ge> thickness (last sortedCosts)
                  then Num (costPerSf (last sortedCosts))
                  else baseCost))"

section \<open>Results and the search state\<close>

record checks =
  moment :: bool
  deflection :: bool
  vibration :: bool
  punchingShear :: bool
  camber :: bool

record mildSteelDetails =
  md_governingCase :: string
  md_ratio :: real
  md_weightPerSf :: real
  md_costPerSf :: real

record costBreakdown =
  concrete :: real
  formwork :: real
  beamForming :: "real option"
  beamPouring :: "real option"
  ptStrand :: real
  mildSteel :: real

text \<open>
  The object literal assigned to \<^verbatim>\<open>bestDesign\<close>. The three searches build objects
  with different field sets; a field a search does not set is \<open>None\<close>.
\<close>

record designResult =
  slabThickness :: real
  beamWidth :: "real option"
  beamDepth :: "real option"
  concreteStrength :: real
  ptForce :: real
  beamPtForce :: "real option"
  aspectRatio :: "jsnum option"
  mildSteelRatio :: "real option"
  mildSteelDetails :: "mildSteelDetails option"
  totalCost :: real
  costBreakdown :: costBreakdown
  weightPerSf :: jsnum
  prestressForce :: "real option"
  eccentricity :: "real option"
  balanceRatio :: "real option"
  numStrands :: "int option"
  checks :: checks

text \<open>
  The mutable state of a search: \<^verbatim>\<open>bestDesign\<close>, \<^verbatim>\<open>minCost\<close>
  (\<open>None\<close> is the initial \<open>Infinity\<close>) and the caller's cost record, which the sort
  mutates.
\<close>

record searchState =
  bestDesign :: "designResult option"
  minCost :: "real option"
  costParams :: costParameters

definition initialState :: "costParameters \<Rightarrow> searchState" where
  "initialState cp = \<lparr> bestDesign = None, minCost = None, costParams = cp \<rparr>"

text \<open>\<^verbatim>\<open>totalCost < minCost\<close>.\<close>

definition belowMinCost :: "real \<Rightarrow> real option \<Rightarrow> bool" where
  "belowMinCost c m = (case m of None \<Rightarrow> True | Some v \<Rightarrow> c < v)"

definition allChecksTrue :: checks where
  "allChecksTrue =
     \<lparr> moment = True, deflection = True, vibration = True, punchingShear = True,
       camber = True \<rparr>"

text \<open>Running the loop body over the grid points in order; an exception ends the search.\<close>

fun run_trials ::
  "(searchState \<Rightarrow> 'a \<Rightarrow> jsError + searchState) \<Rightarrow> searchState \<Rightarrow> 'a list
   \<Rightarrow> jsError + searchState" where
  "run_trials step st [] = Inr st"
| "run_trials step st (x # xs) =
     (case step st x of Inl err \<Rightarrow> Inl err | Inr st' \<Rightarrow> run_trials step st' xs)"

text \<open>
  \<^verbatim>\<open>for (let x = lo; x <= hi; x += d)\<close> with a positive literal step: the values
  the loop variable takes.
\<close>

function frange :: "real \<Rightarrow> real \<Rightarrow> real \<Rightarrow> real list" where
  "frange x hi d = (if 0 < d \<and> x \<le> hi then x # frange (x + d) hi d else [])"
  by pat_completeness auto
termination
proof (relation "measure (\<lambda>(x, hi, d). nat (\<lfloor>(hi - x) / d\<rfloor> + 1))")
  show "wf (measure (\<lambda>(x, hi, d). nat (\<lfloor>(hi - x) / d\<rfloor> + 1)))" by simp
next
  fix x hi d :: real
  assume "0 < d \<and> x \<le> hi"
  then have d: "0 < d" and x: "x \<le> hi" by simp_all
  have "(hi - (x + d)) / d = (hi - x) / d - 1"
    using d by (simp add: field_simps)
  then have "\<lfloor>(hi - (x + d)) / d\<rfloor> = \<lfloor>(hi - x) / d\<rfloor> - 1" by simp
  moreover have "0 \<le> \<lfloor>(hi - x) / d\<rfloor>" using d x by simp
  ultimately show "((x + d, hi, d), (x, hi, d))
      \<in> measure (\<lambda>(x, hi, d). nat (\<lfloor>(hi - x) / d\<rfloor> + 1))"
    by simp
qed

declare frange.simps [simp del]

definition concreteStrengths :: "real list" where
  "concreteStrengths = [5000, 7000, 10000, 12000, 15000]"

text \<open>The two \<^verbatim>\<open>continue\<close> statements at the head of every strength loop.\<close>

definition strengthSkipped :: "real \<Rightarrow> real \<Rightarrow> bool" where
  "strengthSkipped fc bayLength = ((fc > 10000 \<and> bayLength < 30) \<or> (fc > 12000 \<and> bayLength < 40))"

section \<open>Flat plate: cost and search\<close>

text \<open>Lines 427 to 448: the rebar requirement of a grid point that passed every check.\<close>

definition fp_steel :: "trial \<Rightarrow> mildSteelReq" where
  "fp_steel tr =
     (let fy = 60000;
          fr_rebar = 7.5 * sqrt (tr_fc tr);
          Mcr_rebar = (fr_rebar * sec_I (fp_props tr)) / (tr_thickness tr / 2);
          maxTensileStress = max (fp_fs_bot tr) 0
      in calculateTotalMildSteel (tr_thickness tr) (tr_bayLength tr) (tr_fc tr) fy
           maxTensileStress Mcr_rebar (fp_d tr))"

definition fp_rebarWeightPerSf :: "trial \<Rightarrow> real" where
  "fp_rebarWeightPerSf tr =
     (let barsPerFoot = governing (fp_steel tr) / 0.20;
          rebarWeightPerFt = barsPerFoot * 0.668
      in rebarWeightPerFt / 1)"

text \<open>Lines 450 to 463: the strand count and weight.\<close>

definition fp_numStrands :: "trial \<Rightarrow> real \<Rightarrow> int" where
  "fp_numStrands tr bayWidth =
     (let totalPtForce = fp_Pe tr * bayWidth;
          strandArea = 0.153;
          forcePerStrand = fp_fpe tr * strandArea
      in \<lceil>totalPtForce / forcePerStrand\<rceil>)"

definition fp_strandWeight :: "trial \<Rightarrow> real \<Rightarrow> real" where
  "fp_strandWeight tr bayWidth =
     (let drapeHeight = 2 * fp_e tr / 12;
          strandLength =
            sqrt (tr_bayLength tr * tr_bayLength tr + drapeHeight * drapeHeight) * 1.02
      in of_int (fp_numStrands tr bayWidth) * 0.52 * strandLength)"

definition fp_rebarCostPerSf :: "trial \<Rightarrow> costParameters \<Rightarrow> real" where
  "fp_rebarCostPerSf tr cp = fp_rebarWeightPerSf tr * js_or (mildSteelCostPerLb cp) 1.20"

text \<open>Lines 465 to 471, for the interpolated base cost of the thickness.\<close>

definition fp_totalCost :: "trial \<Rightarrow> real \<Rightarrow> costParameters \<Rightarrow> real \<Rightarrow> real" where
  "fp_totalCost tr bayWidth cp baseCost =
     (let area = tr_bayLength tr * bayWidth;
          slabCost = adjustSlabCostForStrength baseCost (tr_thickness tr) (tr_fc tr);
          concreteCost = area * slabCost;
          formworkCost = area * ptFormworkCostPerSf cp;
          ptCost = fp_strandWeight tr bayWidth * ptStrandCostPerLb cp
      in concreteCost + formworkCost + ptCost + area * fp_rebarCostPerSf tr cp)"

text \<open>Lines 475 to 505: the object stored in \<^verbatim>\<open>bestDesign\<close>.\<close>

definition fp_design :: "trial \<Rightarrow> real \<Rightarrow> costParameters \<Rightarrow> real \<Rightarrow> designResult" where
  "fp_design tr bayWidth cp baseCost =
     (let area = tr_bayLength tr * bayWidth;
          slabCost = adjustSlabCostForStrength baseCost (tr_thickness tr) (tr_fc tr)
      in \<lparr> slabThickness = tr_thickness tr,
           beamWidth = None,
           beamDepth = None,
           concreteStrength = tr_fc tr,
           ptForce = fp_avgPrestress tr,
           beamPtForce = None,
           aspectRatio = None,
           mildSteelRatio = Some (governing (fp_steel tr) / (12 * fp_d tr)),
           mildSteelDetails = Some
             \<lparr> md_governingCase = governingCase (fp_steel tr),
               md_ratio = governing (fp_steel tr) / (12 * fp_d tr),
               md_weightPerSf = fp_rebarWeightPerSf tr,
               md_costPerSf = fp_rebarCostPerSf tr cp \<rparr>,
           totalCost = fp_totalCost tr bayWidth cp baseCost,
           costBreakdown =
             \<lparr> concrete = area * slabCost,
               formwork = area * ptFormworkCostPerSf cp,
               beamForming = None,
               beamPouring = None,
               ptStrand = fp_strandWeight tr bayWidth * ptStrandCostPerLb cp,
               mildSteel = area * fp_rebarCostPerSf tr cp \<rparr>,
           weightPerSf = Num ((tr_thickness tr / 12) * 150 + fp_rebarWeightPerSf tr),
           prestressForce = Some (fp_Pe tr),
           eccentricity = Some (fp_e tr),
           balanceRatio = Some (tr_balanceRatio tr),
           numStrands = Some (fp_numStrands tr bayWidth),
           checks = allChecksTrue \<rparr>)"

text \<open>
  What one cost evaluation does to the state, shared by the three searches (the three bodies
  differ in the default cost and in the cost and design they compute): sort the caller's
  table in place, interpolate, and replace the best design when the total is below
  \<^verbatim>\<open>minCost\<close>. A \<open>NaN\<close> base cost makes the total \<open>NaN\<close>, and
  \<^verbatim>\<open>NaN < minCost\<close> is false.
\<close>

definition costStep ::
  "real \<Rightarrow> real \<Rightarrow> (costParameters \<Rightarrow> real \<Rightarrow> real) \<Rightarrow> (costParameters \<Rightarrow> real \<Rightarrow> designResult)
   \<Rightarrow> searchState \<Rightarrow> jsError + searchState" where
  "costStep dflt thk totalOf designOf st =
     (let cp = sortCosts (costParams st);
          st1 = st\<lparr> costParams := cp \<rparr>
      in case interpolateBaseCost dflt thk (ptSlabCosts cp) of
           Inl err \<Rightarrow> Inl err
         | Inr (Num baseCost) \<Rightarrow>
             Inr (if belowMinCost (totalOf cp baseCost) (minCost st1)
                  then st1\<lparr> minCost := Some (totalOf cp baseCost),
                            bestDesign := Some (designOf cp baseCost) \<rparr>
                  else st1)
         | Inr other \<Rightarrow> Inr st1)"

definition fp_step :: "real \<Rightarrow> searchState \<Rightarrow> trial \<Rightarrow> jsError + searchState" where
  "fp_step bayWidth st tr =
     (case fp_checks tr of
        Some r \<Rightarrow> Inr st
      | None \<Rightarrow>
          costStep 20 (tr_thickness tr) (fp_totalCost tr bayWidth) (fp_design tr bayWidth) st)"

text \<open>
  The four nested loops, in iteration order; a thickness whose maximum eccentricity is below
  one inch is skipped before the inner loops.
\<close>

definition fp_grid :: "real \<Rightarrow> trial list" where
  "fp_grid bayLength =
     [\<lparr> tr_bayLength = bayLength, tr_fc = fc, tr_thickness = thk, tr_balanceRatio = br,
        tr_eRatio = er \<rparr>.
      fc \<leftarrow> concreteStrengths, \<not> strengthSkipped fc bayLength,
      thk \<leftarrow> frange (fp_minThickness bayLength) 16 0.5,
      \<not> (thk / 2 - getCoverRequirement fc - 0.5 / 2 < 1.0),
      br \<leftarrow> frange 0.6 1.1 0.05,
      er \<leftarrow> frange 0.6 0.95 0.05]"

text \<open>
  \<^verbatim>\<open>optimizeFlatPlate\<close>: the returned \<^verbatim>\<open>bestDesign\<close>, with the caller's
  cost record as the call leaves it.
\<close>

definition optimizeFlatPlate ::
  "real \<Rightarrow> real \<Rightarrow> costParameters \<Rightarrow> jsError + (designResult option \<times> costParameters)" where
  "optimizeFlatPlate bayLength bayWidth cp =
     (case run_trials (fp_step bayWidth) (initialState cp) (fp_grid bayLength) of
        Inl err \<Rightarrow> Inl err
      | Inr st \<Rightarrow> Inr (bestDesign st, costParams st))"

section \<open>One-way beam and slab\<close>

text \<open>
  A configuration of the beam searches: the spans and the loop variables of the four outer
  loops. The parameter \<^verbatim>\<open>userBeamDepth\<close> is never read.
\<close>

record beamConfig =
  bc_bayLength :: real
  bc_bayWidth :: real
  bc_fc :: real
  bc_beamDepth :: real
  bc_beamWidth :: real
  bc_slabThickness :: real

record slabPrestress =
  sp_Pe :: real
  sp_e :: real
  sp_avgPrestress :: real
  sp_balanceRatio :: real

record beamPrestress =
  bp_Pe :: real
  bp_e :: real

text \<open>
  The pattern of the two prestress loops: two nested loops that stop at the first pair of
  values passing the checks.
\<close>

fun first_some :: "('a \<Rightarrow> 'b option) \<Rightarrow> 'a list \<Rightarrow> 'b option" where
  "first_some f [] = None"
| "first_some f (x # xs) = (case f x of Some y \<Rightarrow> Some y | None \<Rightarrow> first_some f xs)"

definition bc_limits :: "beamConfig \<Rightarrow> stressLimits" where
  "bc_limits c = getStressLimits (bc_fc c) (0.7 * bc_fc c)"

definition bc_Ec :: "beamConfig \<Rightarrow> real" where
  "bc_Ec c = getConcreteModulus (bc_fc c)"

definition bc_slabProps :: "beamConfig \<Rightarrow> sectionProperties" where
  "bc_slabProps c = getSectionProperties (bc_slabThickness c)"

definition bc_minBeamDepth :: "real \<Rightarrow> real" where
  "bc_minBeamDepth spn = max 12 (of_int \<lfloor>spn * 12 / 20\<rfloor>)"

definition bc_maxBeamDepth :: "real \<Rightarrow> real" where
  "bc_maxBeamDepth spn = min 48 (of_int \<lceil>spn * 12 / 12\<rceil>)"

definition bc_emax_slab :: "beamConfig \<Rightarrow> real" where
  "bc_emax_slab c =
     (let slabCover = getCoverRequirement (bc_fc c); strandDiameter = 0.375
      in bc_slabThickness c / 2 - slabCover - strandDiameter / 2)"

definition bc_totalDepth :: "beamConfig \<Rightarrow> real" where
  "bc_totalDepth c = bc_beamDepth c + bc_slabThickness c"

definition bc_beamA :: "beamConfig \<Rightarrow> real" where
  "bc_beamA c = bc_beamWidth c * bc_totalDepth c"

definition bc_beamSt :: "beamConfig \<Rightarrow> real" where
  "bc_beamSt c =
     (let beamI = (bc_beamWidth c * bc_totalDepth c ^ 3) / 12
      in beamI / (bc_totalDepth c / 2))"

definition bc_emax_beam :: "beamConfig \<Rightarrow> real" where
  "bc_emax_beam c =
     (let beamCover = getCoverRequirement (bc_fc c) + 0.5
      in bc_totalDepth c / 2 - beamCover - 1.0)"

definition bc_beamWeight :: "beamConfig \<Rightarrow> real" where
  "bc_beamWeight c = (bc_beamWidth c * bc_totalDepth c / 144) * 150"

text \<open>
  The body of the inner slab loop of both beam searches (lines 573 to 598 and 887 to 912) for
  the dead-load moment \<open>Md\<close> and the service moment \<open>Ms\<close> of the search.
\<close>

definition slab_try :: "beamConfig \<Rightarrow> real \<Rightarrow> real \<Rightarrow> real \<times> real \<Rightarrow> slabPrestress option" where
  "slab_try c Md Ms p =
     (let balanceRatio = fst p; eRatio = snd p;
          M_balance = balanceRatio * Md;
          e = eRatio * bc_emax_slab c;
          P_balance = M_balance / e;
          Pi = P_balance / lossRatio (bc_fc c);
          Pe = P_balance;
          A = sec_A (bc_slabProps c); St = sec_St (bc_slabProps c); Sb = sec_Sb (bc_slabProps c);
          fti_top = search_top Pi A e St Md;
          fti_bot = search_bot Pi A e Sb Md;
          fs_top = search_top Pe A e St Ms;
          fs_bot = search_bot Pe A e Sb Ms;
          avgPrestress = Pe / A
      in if fti_top < - fci_comp (bc_limits c) \<or> fti_top > fci_tens (bc_limits c) then None
         else if fti_bot < - fci_comp (bc_limits c) \<or> fti_bot > fci_tens (bc_limits c) then None
         else if fs_top < - fc_comp_total (bc_limits c) \<or> fs_top > fc_tens (bc_limits c) then None
         else if fs_bot < - fc_comp_total (bc_limits c) \<or> fs_bot > fc_tens (bc_limits c) then None
         else if avgPrestress < 175 then None
         else Some \<lparr> sp_Pe = Pe, sp_e = e, sp_avgPrestress = avgPrestress,
                     sp_balanceRatio = balanceRatio \<rparr>)"

text \<open>The body of the inner beam loop (lines 639 to 661 and 973 to 995).\<close>

definition beam_try :: "beamConfig \<Rightarrow> real \<Rightarrow> real \<Rightarrow> real \<times> real \<Rightarrow> beamPrestress option" where
  "beam_try c Md Ms p =
     (let balanceRatio = fst p; eRatio = snd p;
          M_balance = balanceRatio * Md;
          e = eRatio * bc_emax_beam c;
          P_balance = M_balance / e;
          Pi = P_balance / lossRatio (bc_fc c);
          Pe = P_balance;
          fti_top = search_top Pi (bc_beamA c) e (bc_beamSt c) Md;
          fti_bot = search_bot Pi (bc_beamA c) e (bc_beamSt c) Md;
          fs_top = search_top Pe (bc_beamA c) e (bc_beamSt c) Ms;
          fs_bot = search_bot Pe (bc_beamA c) e (bc_beamSt c) Ms
      in if fti_top < - fci_comp (bc_limits c) \<or> fti_top > fci_tens (bc_limits c) then None
         else if fti_bot < - fci_comp (bc_limits c) \<or> fti_bot > fci_tens (bc_limits c) then None
         else if fs_top < - fc_comp_total (bc_limits c) \<or> fs_top > fc_tens (bc_limits c) then None
         else if fs_bot < - fc_comp_total (bc_limits c) \<or> fs_bot > fc_tens (bc_limits c) then None
         else Some \<lparr> bp_Pe = Pe, bp_e = e \<rparr>)"

definition ratioPairs :: "real \<Rightarrow> real \<Rightarrow> real \<Rightarrow> real \<Rightarrow> real \<Rightarrow> real \<Rightarrow> (real \<times> real) list" where
  "ratioPairs b0 b1 bd e0 e1 ed = [(br, er). br \<leftarrow> frange b0 b1 bd, er \<leftarrow> frange e0 e1 ed]"

text \<open>The cracking moment and the deflection figures of the slab (lines 672 to 690).\<close>

definition bc_Mcr :: "beamConfig \<Rightarrow> real" where
  "bc_Mcr c =
     (let fr = 7.5 * sqrt (bc_fc c); yt = bc_slabThickness c / 2
      in (fr * sec_I (bc_slabProps c)) / yt)"

definition bc_Ie :: "beamConfig \<Rightarrow> real \<Rightarrow> real \<Rightarrow> real" where
  "bc_Ie c crackedFraction M_service =
     (if M_service \<le> (2 / 3) * bc_Mcr c then sec_I (bc_slabProps c)
      else
        let Icr = crackedFraction * sec_I (bc_slabProps c)
        in Icr + (bc_Mcr c / M_service) ^ 3 * (sec_I (bc_slabProps c) - Icr))"

subsection \<open>\<^verbatim>\<open>optimizeOneWayBeam\<close>\<close>

definition ow_clearSpan :: "beamConfig \<Rightarrow> real" where
  "ow_clearSpan c = bc_bayWidth c - bc_beamWidth c / 12"

definition ow_minSlabThickness :: "real \<Rightarrow> real \<Rightarrow> real" where
  "ow_minSlabThickness bayWidth bw =
     (let clearSpan = bayWidth - bw / 12
      in max 4 (of_int \<lceil>(clearSpan * 12) / 180\<rceil>))"

definition ow_Md_slab :: "beamConfig \<Rightarrow> real" where
  "ow_Md_slab c = loads_dead (bc_slabThickness c) * ow_clearSpan c * ow_clearSpan c * 12 / 10"

definition ow_Ml_slab :: "beamConfig \<Rightarrow> real" where
  "ow_Ml_slab c = loads_live * ow_clearSpan c * ow_clearSpan c * 12 / 10"

definition ow_Mt_slab :: "beamConfig \<Rightarrow> real" where
  "ow_Mt_slab c = ow_Md_slab c + ow_Ml_slab c"

definition ow_Mt_slab_service :: "beamConfig \<Rightarrow> real" where
  "ow_Mt_slab_service c = ow_Md_slab c + 0.3 * ow_Ml_slab c"

definition ow_slabPrestress :: "beamConfig \<Rightarrow> slabPrestress option" where
  "ow_slabPrestress c =
     first_some (slab_try c (ow_Md_slab c) (ow_Mt_slab_service c))
       (ratioPairs 0.6 1.1 0.1 0.6 0.95 0.05)"

definition ow_Md_beam :: "beamConfig \<Rightarrow> real" where
  "ow_Md_beam c =
     (let slabDead = loads_dead (bc_slabThickness c) * bc_bayWidth c;
          totalDead = slabDead + bc_beamWeight c
      in totalDead * bc_bayLength c * bc_bayLength c * 12 / 10)"

definition ow_Ml_beam :: "beamConfig \<Rightarrow> real" where
  "ow_Ml_beam c =
     (let slabLive = loads_live * bc_bayWidth c;
          totalLive = slabLive
      in totalLive * bc_bayLength c * bc_bayLength c * 12 / 10)"

definition ow_Mt_beam_service :: "beamConfig \<Rightarrow> real" where
  "ow_Mt_beam_service c = ow_Md_beam c + 0.3 * ow_Ml_beam c"

definition ow_beamPrestress :: "beamConfig \<Rightarrow> beamPrestress option" where
  "ow_beamPrestress c =
     first_some (beam_try c (ow_Md_beam c) (ow_Mt_beam_service c))
       (ratioPairs 0.7 1.1 0.1 0.7 0.95 0.05)"

definition ow_M_service :: "beamConfig \<Rightarrow> real" where
  "ow_M_service c = (loads_live * ow_clearSpan c * ow_clearSpan c / 10) * 12"

definition ow_delta_L :: "beamConfig \<Rightarrow> real" where
  "ow_delta_L c =
     (let w_live = loads_live / 1000
      in (5 * w_live * (ow_clearSpan c * 12) ^ 4)
           / (384 * bc_Ec c * bc_Ie c 0.35 (ow_M_service c) / 1000))"

definition ow_camber :: "beamConfig \<Rightarrow> slabPrestress \<Rightarrow> real" where
  "ow_camber c sp =
     (sp_Pe sp * sp_e sp * (ow_clearSpan c * 12) ^ 2)
       / (8 * bc_Ec c * bc_Ie c 0.35 (ow_M_service c) / 1000)"

definition ow_deflection_fails :: "beamConfig \<Rightarrow> slabPrestress \<Rightarrow> bool" where
  "ow_deflection_fails c sp =
     (let netDeflection = ow_delta_L c - 0.8 * ow_camber c sp;
          deflectionLimit = (ow_clearSpan c * 12) / 480
      in netDeflection > deflectionLimit)"

text \<open>Lines 697 to 763: areas, steel and strand weights.\<close>

definition ow_slabArea :: "beamConfig \<Rightarrow> real" where
  "ow_slabArea c = bc_bayLength c * bc_bayWidth c"

definition ow_beamVolume :: "beamConfig \<Rightarrow> real" where
  "ow_beamVolume c = (bc_bayLength c * bc_beamWidth c * bc_totalDepth c) / 1728"

definition ow_slabSteel :: "beamConfig \<Rightarrow> slabPrestress \<Rightarrow> mildSteelReq" where
  "ow_slabSteel c sp =
     (let fy = 60000;
          d_slab = bc_slabThickness c - 1.5;
          fs_bot_slab =
            search_bot (sp_Pe sp) (sec_A (bc_slabProps c)) (sp_e sp) (sec_Sb (bc_slabProps c))
              (ow_Mt_slab c);
          maxTensileStress = max fs_bot_slab 0
      in calculateTotalMildSteel (bc_slabThickness c) (ow_clearSpan c) (bc_fc c) fy
           maxTensileStress (bc_Mcr c) d_slab)"

definition beam_forcePerStrand :: real where
  "beam_forcePerStrand = (let fpe = 0.74 * 270000 * 0.82; strandArea = 0.153 in fpe * strandArea)"

text \<open>
  The quotient \<^verbatim>\<open>bayLength / clearSpan\<close> is evaluated only after a slab design was
  found, which needs a non-zero slab moment and so a non-zero clear span.
\<close>

definition ow_totalStrandWeight :: "beamConfig \<Rightarrow> slabPrestress \<Rightarrow> beamPrestress \<Rightarrow> real" where
  "ow_totalStrandWeight c sp bp =
     (let slabPtForce = sp_Pe sp * bc_bayLength c;
          beamPtForce = bp_Pe bp;
          slabStrands = \<lceil>slabPtForce / beam_forcePerStrand\<rceil>;
          beamStrands = \<lceil>beamPtForce / beam_forcePerStrand\<rceil>;
          slabStrandLength =
            sqrt (ow_clearSpan c * ow_clearSpan c + (2 * sp_e sp / 12) ^ 2) * 1.02;
          beamStrandLength =
            sqrt (bc_bayLength c * bc_bayLength c + (2 * bp_e bp / 12) ^ 2) * 1.02;
          slabStrandWeight =
            of_int slabStrands * 0.52 * slabStrandLength * (bc_bayLength c / ow_clearSpan c);
          beamStrandWeight = of_int beamStrands * 0.52 * beamStrandLength
      in slabStrandWeight + beamStrandWeight)"

definition ow_totalRebarWeight :: "beamConfig \<Rightarrow> slabPrestress \<Rightarrow> real" where
  "ow_totalRebarWeight c sp =
     (let slabRebarWeight = governing (ow_slabSteel c sp) * 0.668 / 0.20 * ow_slabArea c;
          beamRebarArea = 0.0018 * bc_beamA c / 144;
          beamRebarWeight = beamRebarArea * 490 * ow_beamVolume c
      in slabRebarWeight + beamRebarWeight)"

definition ow_rebarCost :: "beamConfig \<Rightarrow> slabPrestress \<Rightarrow> costParameters \<Rightarrow> real" where
  "ow_rebarCost c sp cp = ow_totalRebarWeight c sp * js_or (mildSteelCostPerLb cp) 1.20"

definition ow_totalCost ::
  "beamConfig \<Rightarrow> slabPrestress \<Rightarrow> beamPrestress \<Rightarrow> costParameters \<Rightarrow> real \<Rightarrow> real" where
  "ow_totalCost c sp bp cp baseCost =
     (let slabCost = adjustSlabCostForStrength baseCost (bc_slabThickness c) (bc_fc c);
          concreteCost = ow_slabArea c * slabCost;
          formworkCost = ow_slabArea c * ptFormworkCostPerSf cp;
          beamFormCost = ow_beamVolume c * beamFormingCostPerCf cp;
          beamPourCost = ow_beamVolume c * beamPouringCostPerCf cp;
          ptCost = ow_totalStrandWeight c sp bp * ptStrandCostPerLb cp;
          rebarCost = ow_rebarCost c sp cp
      in concreteCost + formworkCost + beamFormCost + beamPourCost + ptCost + rebarCost)"

text \<open>\<^verbatim>\<open>x / y\<close> of two finite numbers (signed zeros are not distinguished).\<close>

definition js_div :: "real \<Rightarrow> real \<Rightarrow> jsnum" where
  "js_div x y =
     (if y = 0 then (if x > 0 then PosInf else if x < 0 then NegInf else NaN) else Num (x / y))"

text \<open>\<^verbatim>\<open>a + b + c\<close> for a finite \<open>a\<close> and two quotients.\<close>

definition js_add3 :: "real \<Rightarrow> jsnum \<Rightarrow> jsnum \<Rightarrow> jsnum" where
  "js_add3 a b c =
     (case (b, c) of
        (Num x, Num y) \<Rightarrow> Num (a + x + y)
      | (NaN, _) \<Rightarrow> NaN
      | (_, NaN) \<Rightarrow> NaN
      | (PosInf, NegInf) \<Rightarrow> NaN
      | (NegInf, PosInf) \<Rightarrow> NaN
      | (PosInf, _) \<Rightarrow> PosInf
      | (_, PosInf) \<Rightarrow> PosInf
      | (NegInf, _) \<Rightarrow> NegInf
      | (_, NegInf) \<Rightarrow> NegInf)"

definition ow_design ::
  "beamConfig \<Rightarrow> slabPrestress \<Rightarrow> beamPrestress \<Rightarrow> costParameters \<Rightarrow> real \<Rightarrow> designResult" where
  "ow_design c sp bp cp baseCost =
     (let slabCost = adjustSlabCostForStrength baseCost (bc_slabThickness c) (bc_fc c)
      in \<lparr> slabThickness = bc_slabThickness c,
           beamWidth = Some (bc_beamWidth c),
           beamDepth = Some (bc_totalDepth c),
           concreteStrength = bc_fc c,
           ptForce = sp_avgPrestress sp,
           beamPtForce = Some (bp_Pe bp / bc_beamA c),
           aspectRatio = None,
           mildSteelRatio = None,
           mildSteelDetails = None,
           totalCost = ow_totalCost c sp bp cp baseCost,
           costBreakdown =
             \<lparr> concrete = ow_slabArea c * slabCost,
               formwork = ow_slabArea c * ptFormworkCostPerSf cp,
               beamForming = Some (ow_beamVolume c * beamFormingCostPerCf cp),
               beamPouring = Some (ow_beamVolume c * beamPouringCostPerCf cp),
               ptStrand = ow_totalStrandWeight c sp bp * ptStrandCostPerLb cp,
               mildSteel = ow_rebarCost c sp cp \<rparr>,
           weightPerSf =
             js_add3 ((bc_slabThickness c / 12) * 150)
               (js_div (ow_beamVolume c * 150) (ow_slabArea c))
               (js_div (ow_totalRebarWeight c sp) (ow_slabArea c)),
           prestressForce = None,
           eccentricity = None,
           balanceRatio = None,
           numStrands = None,
           checks = allChecksTrue \<rparr>)"

text \<open>The body of the slab-thickness loop, lines 546 to 802.\<close>

definition ow_step :: "searchState \<Rightarrow> beamConfig \<Rightarrow> jsError + searchState" where
  "ow_step st c =
     (if bc_emax_slab c < 0.5 then Inr st
      else case ow_slabPrestress c of
        None \<Rightarrow> Inr st
      | Some sp \<Rightarrow>
          (case ow_beamPrestress c of
             None \<Rightarrow> Inr st
           | Some bp \<Rightarrow>
               if ow_deflection_fails c sp then Inr st
               else if frequency_below 1 (ow_delta_L c) 5.0 then Inr st
               else costStep 15 (bc_slabThickness c) (ow_totalCost c sp bp)
                      (ow_design c sp bp) st))"

definition ow_grid :: "real \<Rightarrow> real \<Rightarrow> beamConfig list" where
  "ow_grid bayLength bayWidth =
     [\<lparr> bc_bayLength = bayLength, bc_bayWidth = bayWidth, bc_fc = fc, bc_beamDepth = depth,
        bc_beamWidth = bw, bc_slabThickness = thk \<rparr>.
      fc \<leftarrow> concreteStrengths, \<not> strengthSkipped fc bayLength,
      depth \<leftarrow> frange (bc_minBeamDepth bayLength) (bc_maxBeamDepth bayLength) 2,
      bw \<leftarrow> frange 12 24 2,
      thk \<leftarrow> frange (ow_minSlabThickness bayWidth bw) 8 0.5]"

definition optimizeOneWayBeam ::
  "real \<Rightarrow> real \<Rightarrow> costParameters \<Rightarrow> jsError + (designResult option \<times> costParameters)" where
  "optimizeOneWayBeam bayLength bayWidth cp =
     (case run_trials ow_step (initialState cp) (ow_grid bayLength bayWidth) of
        Inl err \<Rightarrow> Inl err
      | Inr st \<Rightarrow> Inr (bestDesign st, costParams st))"

subsection \<open>\<^verbatim>\<open>optimizeTwoWayBeam\<close>\<close>

definition tw_clearSpanL :: "beamConfig \<Rightarrow> real" where
  "tw_clearSpanL c = bc_bayLength c - bc_beamWidth c / 12"

definition tw_clearSpanW :: "beamConfig \<Rightarrow> real" where
  "tw_clearSpanW c = bc_bayWidth c - bc_beamWidth c / 12"

definition tw_shortSpan :: "beamConfig \<Rightarrow> real" where
  "tw_shortSpan c = min (tw_clearSpanL c) (tw_clearSpanW c)"

definition tw_longSpan :: "beamConfig \<Rightarrow> real" where
  "tw_longSpan c = max (tw_clearSpanL c) (tw_clearSpanW c)"

definition tw_minSlabThickness :: "real \<Rightarrow> real \<Rightarrow> real \<Rightarrow> real" where
  "tw_minSlabThickness bayLength bayWidth bw =
     (let shortSpan = min (bayLength - bw / 12) (bayWidth - bw / 12)
      in max 3 (of_int \<lceil>(shortSpan * 12) / 200\<rceil>))"

definition tw_aspectRatio :: "beamConfig \<Rightarrow> jsnum" where
  "tw_aspectRatio c = js_div (tw_longSpan c) (tw_shortSpan c)"

text \<open>
  The two-way coefficients. \<^verbatim>\<open>Math.pow(Infinity, -2)\<close> is \<open>0\<close>. A \<open>NaN\<close> ratio
  needs both clear spans to be zero, that is both bay dimensions below two feet; the depth
  loop is empty then (lemma \<open>tw_grid_aspect\<close> below), so the value given here for
  \<open>NaN\<close> is never used.
\<close>

definition tw_alphaShort :: "beamConfig \<Rightarrow> real" where
  "tw_alphaShort c =
     (case tw_aspectRatio c of
        Num r \<Rightarrow> (if r \<le> 1.0 then 0.125 else 0.125 * (1 / r ^ 2))
      | PosInf \<Rightarrow> 0
      | NegInf \<Rightarrow> 0.125
      | NaN \<Rightarrow> 0)"

definition tw_alphaLong :: "beamConfig \<Rightarrow> real" where
  "tw_alphaLong c =
     (case tw_aspectRatio c of
        Num r \<Rightarrow> (if r \<le> 1.0 then 0.125 else 0.125 - tw_alphaShort c)
      | PosInf \<Rightarrow> 0.125 - tw_alphaShort c
      | NegInf \<Rightarrow> 0.125
      | NaN \<Rightarrow> 0)"

definition tw_Md_short :: "beamConfig \<Rightarrow> real" where
  "tw_Md_short c =
     tw_alphaShort c * loads_dead (bc_slabThickness c) * tw_shortSpan c * tw_shortSpan c * 12"

definition tw_Ml_short :: "beamConfig \<Rightarrow> real" where
  "tw_Ml_short c = tw_alphaShort c * loads_live * tw_shortSpan c * tw_shortSpan c * 12"

definition tw_Mt_short :: "beamConfig \<Rightarrow> real" where
  "tw_Mt_short c = tw_Md_short c + tw_Ml_short c"

definition tw_Md_long :: "beamConfig \<Rightarrow> real" where
  "tw_Md_long c =
     tw_alphaLong c * loads_dead (bc_slabThickness c) * tw_longSpan c * tw_longSpan c * 12"

definition tw_Ml_long :: "beamConfig \<Rightarrow> real" where
  "tw_Ml_long c = tw_alphaLong c * loads_live * tw_longSpan c * tw_longSpan c * 12"

definition tw_Mt_long :: "beamConfig \<Rightarrow> real" where
  "tw_Mt_long c = tw_Md_long c + tw_Ml_long c"

definition tw_Mt_critical :: "beamConfig \<Rightarrow> real" where
  "tw_Mt_critical c = max (tw_Mt_short c) (tw_Mt_long c)"

definition tw_Md_critical :: "beamConfig \<Rightarrow> real" where
  "tw_Md_critical c = (if tw_Mt_critical c > tw_Mt_short c then tw_Md_long c else tw_Md_short c)"

definition tw_Ml_critical :: "beamConfig \<Rightarrow> real" where
  "tw_Ml_critical c = (if tw_Mt_critical c > tw_Mt_short c then tw_Ml_long c else tw_Ml_short c)"

definition tw_Mt_critical_service :: "beamConfig \<Rightarrow> real" where
  "tw_Mt_critical_service c = tw_Md_critical c + 0.3 * tw_Ml_critical c"

definition tw_slabPrestress :: "beamConfig \<Rightarrow> slabPrestress option" where
  "tw_slabPrestress c =
     first_some (slab_try c (tw_Md_critical c) (tw_Mt_critical_service c))
       (ratioPairs 0.7 1.1 0.1 0.6 0.95 0.05)"

text \<open>Lines 919 to 954: the beams of the two directions and the critical one.\<close>

definition tw_Md_beamL :: "beamConfig \<Rightarrow> real" where
  "tw_Md_beamL c =
     (let slabDead = loads_dead (bc_slabThickness c) * tw_clearSpanW c / 2;
          totalDeadL = slabDead + bc_beamWeight c
      in totalDeadL * bc_bayLength c * bc_bayLength c * 12 / 10)"

definition tw_Ml_beamL :: "beamConfig \<Rightarrow> real" where
  "tw_Ml_beamL c =
     (let slabLive = loads_live * tw_clearSpanW c / 2;
          totalLiveL = slabLive
      in totalLiveL * bc_bayLength c * bc_bayLength c * 12 / 10)"

definition tw_Mt_beamL :: "beamConfig \<Rightarrow> real" where
  "tw_Mt_beamL c = tw_Md_beamL c + tw_Ml_beamL c"

definition tw_Md_beamW :: "beamConfig \<Rightarrow> real" where
  "tw_Md_beamW c =
     (let slabDead = loads_dead (bc_slabThickness c) * tw_clearSpanL c / 2;
          totalDeadW = slabDead + bc_beamWeight c
      in totalDeadW * bc_bayWidth c * bc_bayWidth c * 12 / 10)"

definition tw_Ml_beamW :: "beamConfig \<Rightarrow> real" where
  "tw_Ml_beamW c =
     (let slabLive = loads_live * tw_clearSpanL c / 2;
          totalLiveW = slabLive
      in totalLiveW * bc_bayWidth c * bc_bayWidth c * 12 / 10)"

definition tw_Mt_beamW :: "beamConfig \<Rightarrow> real" where
  "tw_Mt_beamW c = tw_Md_beamW c + tw_Ml_beamW c"

definition tw_Mt_beam :: "beamConfig \<Rightarrow> real" where
  "tw_Mt_beam c = max (tw_Mt_beamL c) (tw_Mt_beamW c)"

definition tw_Md_beam :: "beamConfig \<Rightarrow> real" where
  "tw_Md_beam c = (if tw_Mt_beam c > tw_Mt_beamL c then tw_Md_beamW c else tw_Md_beamL c)"

definition tw_Ml_beam :: "beamConfig \<Rightarrow> real" where
  "tw_Ml_beam c = (if tw_Mt_beam c > tw_Mt_beamL c then tw_Ml_beamW c else tw_Ml_beamL c)"

definition tw_Mt_beam_service :: "beamConfig \<Rightarrow> real" where
  "tw_Mt_beam_service c = tw_Md_beam c + 0.3 * tw_Ml_beam c"

definition tw_beamPrestress :: "beamConfig \<Rightarrow> beamPrestress option" where
  "tw_beamPrestress c =
     first_some (beam_try c (tw_Md_beam c) (tw_Mt_beam_service c))
       (ratioPairs 0.8 1.1 0.1 0.7 0.95 0.05)"

text \<open>Lines 1002 to 1029: deflection and vibration, on the short span.\<close>

definition tw_M_service :: "beamConfig \<Rightarrow> real" where
  "tw_M_service c = tw_alphaShort c * loads_live * tw_shortSpan c * tw_shortSpan c * 12"

definition tw_delta_L :: "beamConfig \<Rightarrow> real" where
  "tw_delta_L c =
     (let w_live = loads_live / 1000
      in (tw_alphaShort c * 5 * w_live * (tw_shortSpan c * 12) ^ 4)
           / (384 * bc_Ec c * bc_Ie c 0.45 (tw_M_service c) / 1000))"

definition tw_camber :: "beamConfig \<Rightarrow> slabPrestress \<Rightarrow> real" where
  "tw_camber c sp =
     (sp_Pe sp * sp_e sp * (tw_shortSpan c * 12) ^ 2)
       / (8 * bc_Ec c * bc_Ie c 0.45 (tw_M_service c) / 1000)"

definition tw_deflection_fails :: "beamConfig \<Rightarrow> slabPrestress \<Rightarrow> bool" where
  "tw_deflection_fails c sp =
     (let netDeflection = tw_delta_L c - 0.8 * tw_camber c sp;
          deflectionLimit = (tw_shortSpan c * 12) / 480
      in netDeflection > deflectionLimit)"

text \<open>Lines 1031 to 1104: areas, steel and strand weights.\<close>

definition tw_slabArea :: "beamConfig \<Rightarrow> real" where
  "tw_slabArea c = bc_bayLength c * bc_bayWidth c"

definition tw_totalBeamVolume :: "beamConfig \<Rightarrow> real" where
  "tw_totalBeamVolume c =
     (let beamVolumeL = (bc_bayLength c * bc_beamWidth c * bc_totalDepth c) / 1728;
          beamVolumeW = (bc_bayWidth c * bc_beamWidth c * bc_totalDepth c) / 1728
      in beamVolumeL + beamVolumeW)"

definition tw_slabSteel :: "beamConfig \<Rightarrow> slabPrestress \<Rightarrow> mildSteelReq" where
  "tw_slabSteel c sp =
     (let fy = 60000;
          d_slab = bc_slabThickness c - 1.0;
          fs_bot_slab =
            search_bot (sp_Pe sp) (sec_A (bc_slabProps c)) (sp_e sp) (sec_Sb (bc_slabProps c))
              (tw_Mt_critical c);
          maxTensileStress = max fs_bot_slab 0
      in calculateTotalMildSteel (bc_slabThickness c) (tw_shortSpan c) (bc_fc c) fy
           maxTensileStress (bc_Mcr c) d_slab)"

definition tw_totalStrandWeight :: "beamConfig \<Rightarrow> slabPrestress \<Rightarrow> beamPrestress \<Rightarrow> real" where
  "tw_totalStrandWeight c sp bp =
     (let slabPtForceShort = sp_Pe sp * tw_longSpan c;
          slabPtForceLong = sp_Pe sp * tw_shortSpan c * 0.8;
          beamPtForceL = (if tw_Mt_beamL c > tw_Mt_beamW c then bp_Pe bp else bp_Pe bp * 0.8);
          beamPtForceW = (if tw_Mt_beamW c > tw_Mt_beamL c then bp_Pe bp else bp_Pe bp * 0.8);
          slabStrandsShort = \<lceil>slabPtForceShort / beam_forcePerStrand\<rceil>;
          slabStrandsLong = \<lceil>slabPtForceLong / beam_forcePerStrand\<rceil>;
          beamStrandsL = \<lceil>beamPtForceL / beam_forcePerStrand\<rceil>;
          beamStrandsW = \<lceil>beamPtForceW / beam_forcePerStrand\<rceil>;
          slabStrandWeightShort = of_int slabStrandsShort * 0.52 * tw_shortSpan c * 1.02;
          slabStrandWeightLong = of_int slabStrandsLong * 0.52 * tw_longSpan c * 1.02;
          beamStrandWeightL = of_int beamStrandsL * 0.52 * bc_bayLength c * 1.02;
          beamStrandWeightW = of_int beamStrandsW * 0.52 * bc_bayWidth c * 1.02
      in slabStrandWeightShort + slabStrandWeightLong + beamStrandWeightL + beamStrandWeightW)"

definition tw_totalRebarWeight :: "beamConfig \<Rightarrow> slabPrestress \<Rightarrow> real" where
  "tw_totalRebarWeight c sp =
     (let slabRebarWeight =
            governing (tw_slabSteel c sp) * 0.668 / 0.20 * tw_slabArea c * 1.2;
          beamRebarArea = 0.0020 * bc_beamA c / 144;
          beamRebarWeight = beamRebarArea * 490 * tw_totalBeamVolume c
      in slabRebarWeight + beamRebarWeight)"

definition tw_rebarCost :: "beamConfig \<Rightarrow> slabPrestress \<Rightarrow> costParameters \<Rightarrow> real" where
  "tw_rebarCost c sp cp = tw_totalRebarWeight c sp * js_or (mildSteelCostPerLb cp) 1.20"

definition tw_totalCost ::
  "beamConfig \<Rightarrow> slabPrestress \<Rightarrow> beamPrestress \<Rightarrow> costParameters \<Rightarrow> real \<Rightarrow> real" where
  "tw_totalCost c sp bp cp baseCost =
     (let slabCost = adjustSlabCostForStrength baseCost (bc_slabThickness c) (bc_fc c);
          concreteCost = tw_slabArea c * slabCost;
          formworkCost = tw_slabArea c * ptFormworkCostPerSf cp;
          beamFormCost = tw_totalBeamVolume c * beamFormingCostPerCf cp;
          beamPourCost = tw_totalBeamVolume c * beamPouringCostPerCf cp;
          ptCost = tw_totalStrandWeight c sp bp * ptStrandCostPerLb cp;
          rebarCost = tw_rebarCost c sp cp
      in concreteCost + formworkCost + beamFormCost + beamPourCost + ptCost + rebarCost)"

definition tw_design ::
  "beamConfig \<Rightarrow> slabPrestress \<Rightarrow> beamPrestress \<Rightarrow> costParameters \<Rightarrow> real \<Rightarrow> designResult" where
  "tw_design c sp bp cp baseCost =
     (let slabCost = adjustSlabCostForStrength baseCost (bc_slabThickness c) (bc_fc c)
      in \<lparr> slabThickness = bc_slabThickness c,
           beamWidth = Some (bc_beamWidth c),
           beamDepth = Some (bc_totalDepth c),
           concreteStrength = bc_fc c,
           ptForce = sp_avgPrestress sp,
           beamPtForce = Some (bp_Pe bp / bc_beamA c),
           aspectRatio = Some (tw_aspectRatio c),
           mildSteelRatio = None,
           mildSteelDetails = None,
           totalCost = tw_totalCost c sp bp cp baseCost,
           costBreakdown =
             \<lparr> concrete = tw_slabArea c * slabCost,
               formwork = tw_slabArea c * ptFormworkCostPerSf cp,
               beamForming = Some (tw_totalBeamVolume c * beamFormingCostPerCf cp),
               beamPouring = Some (tw_totalBeamVolume c * beamPouringCostPerCf cp),
               ptStrand = tw_totalStrandWeight c sp bp * ptStrandCostPerLb cp,
               mildSteel = tw_rebarCost c sp cp \<rparr>,
           weightPerSf =
             js_add3 ((bc_slabThickness c / 12) * 150)
               (js_div (tw_totalBeamVolume c * 150) (tw_slabArea c))
               (js_div (tw_totalRebarWeight c sp) (tw_slabArea c)),
           prestressForce = None,
           eccentricity = None,
           balanceRatio = None,
           numStrands = None,
           checks = allChecksTrue \<rparr>)"

text \<open>The body of the slab-thickness loop, lines 845 to 1144.\<close>

definition tw_step :: "searchState \<Rightarrow> beamConfig \<Rightarrow> jsError + searchState" where
  "tw_step st c =
     (if bc_emax_slab c < 0.5 then Inr st
      else case tw_slabPrestress c of
        None \<Rightarrow> Inr st
      | Some sp \<Rightarrow>
          (case tw_beamPrestress c of
             None \<Rightarrow> Inr st
           | Some bp \<Rightarrow>
               if tw_deflection_fails c sp then Inr st
               else if frequency_below 1.2 (tw_delta_L c) 5.0 then Inr st
               else costStep 12 (bc_slabThickness c) (tw_totalCost c sp bp)
                      (tw_design c sp bp) st))"

definition tw_grid :: "real \<Rightarrow> real \<Rightarrow> beamConfig list" where
  "tw_grid bayLength bayWidth =
     (let criticalSpan = max bayLength bayWidth
      in [\<lparr> bc_bayLength = bayLength, bc_bayWidth = bayWidth, bc_fc = fc,
            bc_beamDepth = depth, bc_beamWidth = bw, bc_slabThickness = thk \<rparr>.
          fc \<leftarrow> concreteStrengths, \<not> strengthSkipped fc bayLength,
          depth \<leftarrow> frange (bc_minBeamDepth criticalSpan) (bc_maxBeamDepth criticalSpan) 2,
          bw \<leftarrow> frange 12 20 2,
          thk \<leftarrow> frange (tw_minSlabThickness bayLength bayWidth bw) 6 0.5])"

definition optimizeTwoWayBeam ::
  "real \<Rightarrow> real \<Rightarrow> costParameters \<Rightarrow> jsError + (designResult option \<times> costParameters)" where
  "optimizeTwoWayBeam bayLength bayWidth cp =
     (case run_trials tw_step (initialState cp) (tw_grid bayLength bayWidth) of
        Inl err \<Rightarrow> Inl err
      | Inr st \<Rightarrow> Inr (bestDesign st, costParams st))"

section \<open>The comparison table of \<^verbatim>\<open>optimize\<close>\<close>

text \<open>
  Lines 1197 to 1210. The handler has already run the three searches for the requested span
  on the same cost record (lines 1174 to 1176), so the table is computed on the record as
  those calls left it; each call in the table passes the record on to the next.
\<close>

record comparison =
  cmp_span :: real
  flatPlateCost :: jsnum
  oneWayBeamCost :: jsnum
  twoWayBeamCost :: jsnum

text \<open>\<^verbatim>\<open>r ? r.totalCost / (span * bayWidth) : 999\<close>; an object is truthy.\<close>

definition unitCost :: "designResult option \<Rightarrow> real \<Rightarrow> real \<Rightarrow> jsnum" where
  "unitCost r spn bayWidth =
     (case r of None \<Rightarrow> Num 999 | Some d \<Rightarrow> js_div (totalCost d) (spn * bayWidth))"

definition comparisonSpans :: "real list" where
  "comparisonSpans = [18, 24, 27, 30, 36, 40, 45, 49, 54, 60]"

definition compareAt ::
  "real \<Rightarrow> costParameters \<Rightarrow> real \<Rightarrow> jsError + (comparison \<times> costParameters)" where
  "compareAt bayWidth cp spn =
     (case optimizeFlatPlate spn bayWidth cp of
        Inl err \<Rightarrow> Inl err
      | Inr (fpCost, cp1) \<Rightarrow>
          (case optimizeOneWayBeam spn bayWidth cp1 of
             Inl err \<Rightarrow> Inl err
           | Inr (owCost, cp2) \<Rightarrow>
               (case optimizeTwoWayBeam spn bayWidth cp2 of
                  Inl err \<Rightarrow> Inl err
                | Inr (twCost, cp3) \<Rightarrow>
                    Inr (\<lparr> cmp_span = spn,
                           flatPlateCost = unitCost fpCost spn bayWidth,
                           oneWayBeamCost = unitCost owCost spn bayWidth,
                           twoWayBeamCost = unitCost twCost spn bayWidth \<rparr>, cp3))))"

fun comparisons ::
  "real \<Rightarrow> costParameters \<Rightarrow> real list \<Rightarrow> jsError + (comparison list \<times> costParameters)" where
  "comparisons bayWidth cp [] = Inr ([], cp)"
| "comparisons bayWidth cp (spn # spans) =
     (case compareAt bayWidth cp spn of
        Inl err \<Rightarrow> Inl err
      | Inr (row, cp1) \<Rightarrow>
          (case comparisons bayWidth cp1 spans of
             Inl err \<Rightarrow> Inl err
           | Inr (rows, cp2) \<Rightarrow> Inr (row # rows, cp2)))"

section \<open>Reference inputs and proof devices\<close>

text \<open>
  Three grid points of a 12 ft bay in 5000 psi concrete with a 5.5 in slab. The first is the
  first point the flat-plate search evaluates for that bay (balance ratio 0.6, eccentricity
  ratio 0.6); the other two carry a larger force.
\<close>

definition tr0 :: trial where
  "tr0 = \<lparr> tr_bayLength = 12, tr_fc = 5000, tr_thickness = 5.5, tr_balanceRatio = 0.6, tr_eRatio = 0.6 \<rparr>"

definition tr4 :: trial where
  "tr4 = \<lparr> tr_bayLength = 12, tr_fc = 5000, tr_thickness = 5.5, tr_balanceRatio = 4, tr_eRatio = 0.6 \<rparr>"

definition tr6 :: trial where
  "tr6 = \<lparr> tr_bayLength = 12, tr_fc = 5000, tr_thickness = 5.5, tr_balanceRatio = 6, tr_eRatio = 0.6 \<rparr>"

text \<open>
  The piecewise-linear curve through the points of a table, clamped at both ends: what the
  interpolation computes on a table with strictly ascending thicknesses.
\<close>

fun slabCostCurve :: "ptSlabCost list \<Rightarrow> real \<Rightarrow> real" where
  "slabCostCurve (p # q # rest) x =
     (if x \<le> thickness p then costPerSf p
      else if x \<le> thickness q
      then costPerSf p + (costPerSf q - costPerSf p) * (x - thickness p) / (thickness q - thickness p)
      else slabCostCurve (q # rest) x)"
| "slabCostCurve [p] x = costPerSf p"
| "slabCostCurve [] x = 0"

definition ascendingThickness :: "ptSlabCost list \<Rightarrow> bool" where
  "ascendingThickness tbl = sorted_wrt (\<lambda>p q. thickness p < thickness q) tbl"

definition nondecreasingCost :: "ptSlabCost list \<Rightarrow> bool" where
  "nondecreasingCost tbl = sorted_wrt (\<lambda>p q. costPerSf p \<le> costPerSf q) tbl"

text \<open>The finite value of an interpolation result (zero where there is none).\<close>

definition numOf :: "jsError + jsnum \<Rightarrow> real" where
  "numOf r = (case r of Inr (Num v) \<Rightarrow> v | _ \<Rightarrow> 0)"

text \<open>The invariant of a search started on the record \<open>cp\<close>.\<close>

definition searchInv :: "costParameters \<Rightarrow> searchState \<Rightarrow> bool" where
  "searchInv cp st =
     ((costParams st = cp \<or> costParams st = sortCosts cp)
      \<and> ((bestDesign st = None) = (minCost st = None))
      \<and> (case bestDesign st of None \<Rightarrow> True | Some d \<Rightarrow> checks d = allChecksTrue))"

text \<open>
  A cost record for the worked examples: the unit costs of the cost form's defaults, two points
  of its slab table given thicker first, and a mild-steel unit cost of zero.
\<close>

definition refCosts :: costParameters where
  "refCosts =
     \<lparr> ptSlabCosts =
         [\<lparr> thickness = 10, costPerSf = 17 \<rparr>, \<lparr> thickness = 5, costPerSf = 11.5 \<rparr>],
       ptFormworkCostPerSf = 4.5,
       beamFormingCostPerCf = 22,
       beamPouringCostPerCf = 22,
       ptStrandCostPerLb = 1.15,
       mildSteelCostPerLb = Some 0 \<rparr>"

definition refCostsSorted :: costParameters where
  "refCostsSorted =
     \<lparr> ptSlabCosts =
         [\<lparr> thickness = 5, costPerSf = 11.5 \<rparr>, \<lparr> thickness = 10, costPerSf = 17 \<rparr>],
       ptFormworkCostPerSf = 4.5,
       beamFormingCostPerCf = 22,
       beamPouringCostPerCf = 22,
       ptStrandCostPerLb = 1.15,
       mildSteelCostPerLb = Some 0 \<rparr>"

text \<open>Where the design a flat-plate search returns comes from.\<close>

definition fp_produced :: "real \<Rightarrow> real \<Rightarrow> costParameters \<Rightarrow> designResult \<Rightarrow> bool" where
  "fp_produced L W cp d =
     (\<exists>tr b. tr \<in> set (fp_grid L) \<and> fp_checks tr = None
        \<and> interpolateBaseCost 20 (tr_thickness tr) (ptSlabCosts (sortCosts cp)) = Inr (Num b)
        \<and> d = fp_design tr W (sortCosts cp) b)"

text \<open>Two states that differ only in a zero against an absent steel unit cost.\<close>

definition zeroVsAbsent :: "searchState \<Rightarrow> searchState \<Rightarrow> bool" where
  "zeroVsAbsent s1 s2 =
     (bestDesign s1 = bestDesign s2 \<and> minCost s1 = minCost s2
      \<and> costParams s1 = (costParams s2)\<lparr> mildSteelCostPerLb := Some 0 \<rparr>
      \<and> mildSteelCostPerLb (costParams s2) = None)"

definition ow_produced :: "real \<Rightarrow> real \<Rightarrow> costParameters \<Rightarrow> designResult \<Rightarrow> bool" where
  "ow_produced L W cp d =
     (\<exists>c sp bp b. c \<in> set (ow_grid L W) \<and> \<not> bc_emax_slab c < 0.5
        \<and> ow_slabPrestress c = Some sp \<and> ow_beamPrestress c = Some bp
        \<and> interpolateBaseCost 15 (bc_slabThickness c) (ptSlabCosts (sortCosts cp)) = Inr (Num b)
        \<and> d = ow_design c sp bp (sortCosts cp) b)"

definition tw_produced :: "real \<Rightarrow> real \<Rightarrow> costParameters \<Rightarrow> designResult \<Rightarrow> bool" where
  "tw_produced L W cp d =
     (\<exists>c sp bp b. c \<in> set (tw_grid L W) \<and> \<not> bc_emax_slab c < 0.5
        \<and> tw_slabPrestress c = Some sp \<and> tw_beamPrestress c = Some bp
        \<and> interpolateBaseCost 12 (bc_slabThickness c) (ptSlabCosts (sortCosts cp)) = Inr (Num b)
        \<and> d = tw_design c sp bp (sortCosts cp) b)"

text \<open>Cost parameters without a negative unit cost.\<close>

definition nonnegCosts :: "costParameters \<Rightarrow> bool" where
  "nonnegCosts cp =
     (0 \<le> ptFormworkCostPerSf cp \<and> 0 \<le> beamFormingCostPerCf cp
      \<and> 0 \<le> beamPouringCostPerCf cp \<and> 0 \<le> ptStrandCostPerLb cp
      \<and> list_all (\<lambda>p. 0 \<le> costPerSf p) (ptSlabCosts cp)
      \<and> (case mildSteelCostPerLb cp of None \<Rightarrow> True | Some v \<Rightarrow> 0 \<le> v))"

text \<open>A grid point of the flat-plate search for an 18 ft span.\<close>

definition tr18 :: trial where
  "tr18 = \<lparr> tr_bayLength = 18, tr_fc = 5000, tr_thickness = 8.5, tr_balanceRatio = 0.65,
            tr_eRatio = 0.6 \<rparr>"

text \<open>A table entry that is a number and not negative.\<close>

definition finiteNonneg :: "jsnum \<Rightarrow> bool" where
  "finiteNonneg x =
     (case x of Num u \<Rightarrow> 0 \<le> u | PosInf \<Rightarrow> False | NegInf \<Rightarrow> False | NaN \<Rightarrow> False)"

definition numericRow :: "comparison \<Rightarrow> bool" where
  "numericRow row =
     (finiteNonneg (flatPlateCost row) \<and> finiteNonneg (oneWayBeamCost row)
      \<and> finiteNonneg (twoWayBeamCost row))"

text \<open>
  The table as the specification describes it. An entry is the total cost over the plan area
  of span times bay width for a feasible system and the sentinel 999 for an infeasible one; a
  row holds the entries of the three searches run for its span on the caller's cost record.
\<close>

definition entryOf :: "designResult option \<Rightarrow> real \<Rightarrow> real \<Rightarrow> jsnum" where
  "entryOf r spn bayWidth =
     (case r of None \<Rightarrow> Num 999 | Some d \<Rightarrow> Num (totalCost d / (spn * bayWidth)))"

definition searchResult ::
  "jsError + (designResult option \<times> costParameters) \<Rightarrow> designResult option" where
  "searchResult r = (case r of Inl err \<Rightarrow> None | Inr (d, cp) \<Rightarrow> d)"

definition specRow :: "real \<Rightarrow> costParameters \<Rightarrow> real \<Rightarrow> comparison" where
  "specRow bayWidth cp spn =
     \<lparr> cmp_span = spn,
       flatPlateCost = entryOf (searchResult (optimizeFlatPlate spn bayWidth cp)) spn bayWidth,
       oneWayBeamCost = entryOf (searchResult (optimizeOneWayBeam spn bayWidth cp)) spn bayWidth,
       twoWayBeamCost = entryOf (searchResult (optimizeTwoWayBeam spn bayWidth cp)) spn bayWidth \<rparr>"

text \<open>Two states that differ at most in the order of the cost table.\<close>

definition sameSorted :: "searchState \<Rightarrow> searchState \<Rightarrow> bool" where
  "sameSorted s1 s2 =
     (bestDesign s1 = bestDesign s2 \<and> minCost s1 = minCost s2
      \<and> sortCosts (costParams s1) = sortCosts (costParams s2))"

section \<open>Auxiliary facts\<close>

lemma first_reject_None: "(first_reject rs = None) = (\<forall>r\<in>set rs. r = None)"
  by (induction rs rule: first_reject.induct) auto

lemma sqrt5000: "70 < sqrt 5000" "sqrt 5000 < 71"
  by (rule real_less_rsqrt, simp) (rule real_less_lsqrt, simp_all)

lemma neg_le_mult_sqrt: "x \<le> 0 \<Longrightarrow> 0 \<le> k \<Longrightarrow> 0 \<le> y \<Longrightarrow> x \<le> k * sqrt y"
  by (meson mult_nonneg_nonneg order_trans real_sqrt_ge_zero)

subsection \<open>The reference grid points, evaluated\<close>

lemma props0: "fp_props tr0 = \<lparr> sec_A = 66, sec_I = 166.375, sec_St = 60.5, sec_Sb = 60.5, sec_r2 = 166.375 / 66 \<rparr>"
  by (simp add: fp_props_def tr0_def getSectionProperties_def Let_def power3_eq_cube)

lemma vals0: "fp_Md tr0 = 11880" "fp_Ml tr0 = 6912" "fp_e tr0 = 0.6" "fp_Pe tr0 = 11880" "fp_Pi tr0 = 14850"
  by (simp_all add: fp_Md_def fp_Ml_def fp_e_def fp_emax_def fp_Pe_def fp_Pi_def fp_P_balance_def fp_M_balance_def
     tr0_def loads_dead_def loads_live_def getCoverRequirement_def lossRatio_def Let_def)

lemma stress0: "fp_fti_top tr0 = - 3015 / 11" "fp_fti_bot tr0 = - 1935 / 11" "fp_fs_top tr0 = - 177156 / 605" "fp_fs_bot tr0 = - 40644 / 605"
  by (simp_all add: fp_fti_top_def fp_fti_bot_def fp_fs_top_def fp_fs_bot_def fp_Mt_service_def props0 vals0 search_top_def search_bot_def)

lemma limits0: "fp_limits tr0 = \<lparr> fci_comp = 2100, fci_tens = 3 * sqrt 3500, fc_comp_sust = 2250,
       fc_comp_total = 3000, fc_tens = 6 * sqrt 5000 \<rparr>"
  by (simp add: fp_limits_def fp_fci_def getStressLimits_def tr0_def)

lemma transfer0: "fp_transfer_check tr0 = None"
  by (simp add: fp_transfer_check_def stress0 limits0 not_less neg_le_mult_sqrt)

lemma service0: "fp_service_check tr0 = None"
  by (simp add: fp_service_check_def stress0 limits0 not_less neg_le_mult_sqrt)

lemma prestress0: "fp_avgPrestress tr0 = 180" "fp_prestress_check tr0 = None"
  by (simp_all add: fp_prestress_check_def fp_avgPrestress_def props0 vals0)

lemma mom0a: "fp_d tr0 = 4" "fp_fpe tr0 = 159840" "fp_beta1 tr0 = 4 / 5" "fp_Mt tr0 = 18792"
  by (simp_all add: fp_d_def fp_fpe_def fp_beta1_def lossRatio_def fp_Mt_def vals0) (simp_all add: tr0_def)

lemma mom0b: "fp_Aps tr0 = 11 / 148"
  by (simp add: fp_Aps_def mom0a vals0)

lemma mom0c: "fp_fps tr0 = 199840"
  by (simp add: fp_fps_def calculateTendonStress_def Let_def mom0a mom0b) (simp add: tr0_def)

lemma mom0d: "fp_a tr0 = 13739 / 47175"
  by (simp add: fp_a_def mom0b mom0c) (simp add: tr0_def)

lemma mom0e: "fp_epsilon_t tr0 = 411663 / 13739000" "fp_Mn tr0 = 19985353916 / 349095"
  by (simp_all add: fp_epsilon_t_def fp_c_def fp_Mn_def mom0a mom0b mom0c mom0d)

lemma moment0: "fp_phi tr0 = Some 0.9" "fp_moment_check tr0 = None"
  by (simp_all add: fp_moment_check_def fp_phi_def mom0a mom0e)

lemma defl0a: "fp_Ec tr0 = 57000 * sqrt 5000" "fp_M_service tr0 = 6912" "fp_Mcr tr0 = 453.75 * sqrt 5000"
  by (simp_all add: fp_Ec_def getConcreteModulus_def fp_M_service_def loads_live_def fp_Mcr_def props0 Let_def)
     (simp_all add: tr0_def)

lemma defl0b: "fp_Ie tr0 = 166.375"
  using sqrt5000 by (simp add: fp_Ie_def defl0a props0)

lemma defl0c: "fp_delta_L tr0 = 85996339.2 / (3641616 * sqrt 5000)"
  by (simp add: fp_delta_L_def defl0a defl0b loads_live_def Let_def) (simp add: tr0_def)

lemma defl0d: "fp_camber tr0 = 147806208 / (75867 * sqrt 5000)"
  by (simp add: fp_camber_def defl0a defl0b vals0) (simp add: tr0_def)

lemma delta0_bounds: "0 < fp_delta_L tr0" "fp_delta_L tr0 < 0.34"
proof -
  have s: "70 < sqrt 5000" by (rule sqrt5000)
  show "0 < fp_delta_L tr0" using s by (simp add: defl0c)
  have "85996339.2 < 0.34 * (3641616 * sqrt 5000)" using s by simp
  then show "fp_delta_L tr0 < 0.34" using s by (simp add: defl0c pos_divide_less_eq)
qed

lemma camber0_bound: "27 < fp_camber tr0"
proof -
  have s: "0 < sqrt 5000" "sqrt 5000 < 71" using sqrt5000 by simp_all
  have "27 * (75867 * sqrt 5000) < 147806208" using s by simp
  then show ?thesis using s by (simp add: defl0d pos_less_divide_eq)
qed

lemma deflection0: "fp_deflection_check tr0 = None"
proof -
  have "tr_bayLength tr0 * 12 / 480 = 0.3" by (simp add: tr0_def)
  moreover have "fp_delta_L tr0 - 0.8 * fp_camber tr0 \<le> 0.3"
    using delta0_bounds camber0_bound by simp
  ultimately show ?thesis by (simp add: fp_deflection_check_def Let_def)
qed

lemma frequency_ok: "0 < delta \<Longrightarrow> delta \<le> 0.49 \<Longrightarrow> \<not> frequency_below 1 delta 5"
proof -
  assume d: "0 < delta" "delta \<le> 0.49"
  have "784 * delta \<le> 386.4" using d by simp
  then have "784 \<le> 386.4 / delta" using d by (simp add: pos_le_divide_eq)
  then have "28\<^sup>2 \<le> 386.4 / delta" by simp
  then have "28 \<le> sqrt (386.4 / delta)" by (rule real_le_rsqrt)
  then show ?thesis by (simp add: frequency_below_def)
qed

lemma vibration0: "fp_vibration_check tr0 = None"
  using frequency_ok[of "fp_delta_L tr0"] delta0_bounds by (simp add: fp_vibration_check_def)

lemma punch0a: "fp_bo tr0 = 34" by (simp add: fp_bo_def mom0a)

lemma lambda0: "min (sqrt (2 / (1 + 0.004 * (4::real)))) 1.0 = 1"
proof -
  have "1\<^sup>2 \<le> (2 / (1 + 0.004 * (4::real)))" by simp
  then have "1 \<le> sqrt (2 / (1 + 0.004 * (4::real)))" by (rule real_le_rsqrt)
  then show ?thesis by simp
qed

lemma punch0b: "fp_vcNominal tr0 = 4 * sqrt 5000 + 54"
proof -
  have s: "0 < sqrt 5000" using sqrt5000 by simp
  have fc: "tr_fc tr0 = 5000" by (simp add: tr0_def)
  show ?thesis
    unfolding fp_vcNominal_def Let_def mom0a punch0a prestress0 fc lambda0
    using s by (simp add: min_def)
qed

lemma punching0: "fp_punching_check tr0 = None"
proof -
  have s: "0 < sqrt 5000" using sqrt5000 by simp
  have "(0::real) \<le> 3 * sqrt 5000" by simp
  then have "3000 / (34 * 4) \<le> 3 * sqrt 5000 + 40.5" by linarith
  also have "3 * sqrt 5000 + 40.5 = 0.75 * (4 * sqrt 5000 + 54)" by (simp add: algebra_simps)
  finally have "\<not> 3000 / (34 * 4) > 0.75 * (4 * sqrt 5000 + 54)" by (simp only: not_less)
  then show ?thesis
    unfolding fp_punching_check_def Let_def mom0a punch0a prestress0 punch0b
    by simp
qed

lemma checks0: "fp_checks tr0 = None"
  by (simp add: fp_checks_def transfer0 service0 prestress0 moment0 deflection0 vibration0 punching0)

lemma mom4a: "fp_d tr4 = 4" "fp_fpe tr4 = 159840" "fp_beta1 tr4 = 4 / 5" "fp_Mt tr4 = 18792" "fp_Pe tr4 = 79200"
  by (simp_all add: fp_d_def fp_fpe_def fp_beta1_def lossRatio_def fp_Mt_def fp_Md_def fp_Ml_def
        fp_Pe_def fp_P_balance_def fp_M_balance_def fp_e_def fp_emax_def getCoverRequirement_def
        loads_dead_def loads_live_def tr4_def Let_def)

lemma mom4b: "fp_Aps tr4 = 55 / 111"
  by (simp add: fp_Aps_def mom4a)

lemma mom4c: "fp_fps tr4 = 1921520 / 11"
  by (simp add: fp_fps_def calculateTendonStress_def Let_def mom4a mom4b) (simp add: tr4_def)

lemma mom4d: "fp_a tr4 = 48038 / 28305"
  by (simp add: fp_a_def mom4b mom4c) (simp add: tr4_def)

lemma mom4e: "fp_epsilon_t tr4 = 63807 / 24019000" "fp_Mn tr4 = 171401505520 / 628371"
  by (simp_all add: fp_epsilon_t_def fp_c_def fp_Mn_def mom4a mom4b mom4c mom4d)

lemma mom6a: "fp_d tr6 = 4" "fp_fpe tr6 = 159840" "fp_beta1 tr6 = 4 / 5" "fp_Pe tr6 = 118800"
  by (simp_all add: fp_d_def fp_fpe_def fp_beta1_def lossRatio_def fp_Md_def
        fp_Pe_def fp_P_balance_def fp_M_balance_def fp_e_def fp_emax_def getCoverRequirement_def
        loads_dead_def tr6_def Let_def)

lemma mom6b: "fp_Aps tr6 = 55 / 74"
  by (simp add: fp_Aps_def mom6a)

lemma mom6c: "fp_fps tr6 = 1903760 / 11"
  by (simp add: fp_fps_def calculateTendonStress_def Let_def mom6a mom6b) (simp add: tr6_def)

lemma mom6d: "fp_a tr6 = 23797 / 9435"
  by (simp add: fp_a_def mom6b mom6c) (simp add: tr6_def)

lemma mom6e: "fp_epsilon_t tr6 = 3837 / 4759400"
  by (simp add: fp_epsilon_t_def fp_c_def mom6a mom6d)

subsection \<open>The interpolation on an ascending table\<close>

lemma curve_at_head: "x \<le> thickness p \<Longrightarrow> slabCostCurve (p # rest) x = costPerSf p"
  by (cases rest) simp_all

lemma curve_above_last:
  "ascendingThickness s \<Longrightarrow> s \<noteq> [] \<Longrightarrow> thickness (last s) \<le> x
   \<Longrightarrow> slabCostCurve s x = costPerSf (last s)"
proof (induction s x rule: slabCostCurve.induct)
  case (1 p q rest x)
  have pq: "thickness p < thickness q" using "1.prems"(1) by (simp add: ascendingThickness_def)
  have asc: "ascendingThickness (q # rest)" using "1.prems"(1) by (simp add: ascendingThickness_def)
  have ql: "thickness q \<le> thickness (last (q # rest))"
    using asc by (cases rest) (auto simp: ascendingThickness_def less_imp_le)
  show ?case
  proof (cases "x \<le> thickness q")
    case True
    then have xq: "x = thickness q" and lq: "thickness (last (q # rest)) = thickness q"
      using ql "1.prems"(3) by simp_all
    have "rest = []"
    proof (rule ccontr)
      assume "rest \<noteq> []"
      then have "last (q # rest) \<in> set rest" by simp
      then have "thickness q < thickness (last (q # rest))"
        using asc by (simp add: ascendingThickness_def)
      then show False using lq by simp
    qed
    then show ?thesis using xq pq by simp
  next
    case False
    then have "slabCostCurve (p # q # rest) x = slabCostCurve (q # rest) x"
      using pq by simp
    also have "\<dots> = costPerSf (last (q # rest))"
      using "1.IH" False pq asc "1.prems"(3) by simp
    finally show ?thesis by simp
  qed
qed simp_all

lemma bracket_curve:
  "ascendingThickness s \<Longrightarrow> s \<noteq> [] \<Longrightarrow> thickness (hd s) < x \<Longrightarrow> x \<le> thickness (last s)
   \<Longrightarrow> bracketCost x s = Some (Num (slabCostCurve s x))"
proof (induction x s rule: bracketCost.induct)
  case (1 x p q rest)
  have pq: "thickness p < thickness q" using "1.prems"(1) by (simp add: ascendingThickness_def)
  have asc: "ascendingThickness (q # rest)" using "1.prems"(1) by (simp add: ascendingThickness_def)
  show ?case
  proof (cases "x \<le> thickness q")
    case True
    then show ?thesis using "1.prems"(3) pq by (simp add: Let_def)
  next
    case False
    then have "bracketCost x (q # rest) = Some (Num (slabCostCurve (q # rest) x))"
      using "1.IH" asc "1.prems"(4) by simp
    then show ?thesis using False "1.prems"(3) by simp
  qed
qed simp_all

lemma interpolate_curve:
  assumes "ascendingThickness s" "s \<noteq> []"
  shows "interpolateBaseCost dflt x s = Inr (Num (slabCostCurve s x))"
proof -
  obtain p rest where s: "s = p # rest" using assms(2) by (cases s) auto
  show ?thesis
  proof (cases "x \<le> thickness p")
    case True
    then show ?thesis by (simp add: interpolateBaseCost_def s curve_at_head)
  next
    case False
    show ?thesis
    proof (cases "thickness (last s) \<le> x")
      case True
      then show ?thesis
        using False curve_above_last[OF assms True]
        by (simp add: interpolateBaseCost_def s)
    next
      case lastF: False
      have "bracketCost x s = Some (Num (slabCostCurve s x))"
        using bracket_curve[OF assms, of x] False lastF s by simp
      then show ?thesis using False lastF by (simp add: interpolateBaseCost_def s)
    qed
  qed
qed

lemma curve_lower:
  "ascendingThickness s \<Longrightarrow> nondecreasingCost s \<Longrightarrow> s \<noteq> []
   \<Longrightarrow> costPerSf (hd s) \<le> slabCostCurve s x"
proof (induction s x rule: slabCostCurve.induct)
  case (1 p q rest x)
  have pq: "thickness p < thickness q" using "1.prems"(1) by (simp add: ascendingThickness_def)
  have cpq: "costPerSf p \<le> costPerSf q" using "1.prems"(2) by (simp add: nondecreasingCost_def)
  have asc: "ascendingThickness (q # rest)" "nondecreasingCost (q # rest)"
    using "1.prems" by (simp_all add: ascendingThickness_def nondecreasingCost_def)
  show ?case
  proof (cases "x \<le> thickness p")
    case True then show ?thesis by simp
  next
    case False
    show ?thesis
    proof (cases "x \<le> thickness q")
      case True
      have "0 \<le> (costPerSf q - costPerSf p) * (x - thickness p) / (thickness q - thickness p)"
        using cpq pq False by (intro divide_nonneg_nonneg mult_nonneg_nonneg) simp_all
      then show ?thesis using True False by simp
    next
      case xq: False
      have "costPerSf q \<le> slabCostCurve (q # rest) x" using "1.IH" False xq asc by simp
      then show ?thesis using False xq cpq by simp
    qed
  qed
qed simp_all

lemma segment_le_right:
  fixes c1 c2 t1 t2 x :: real
  assumes "t1 < t2" "c1 \<le> c2" "x \<le> t2"
  shows "c1 + (c2 - c1) * (x - t1) / (t2 - t1) \<le> c2"
proof -
  have "(c2 - c1) * (x - t1) \<le> (c2 - c1) * (t2 - t1)"
    using assms by (intro mult_left_mono) simp_all
  then have "(c2 - c1) * (x - t1) / (t2 - t1) \<le> c2 - c1"
    using assms(1) by (simp add: pos_divide_le_eq)
  then show ?thesis by simp
qed

lemma segment_mono:
  fixes c1 c2 t1 t2 x y :: real
  assumes "t1 < t2" "c1 \<le> c2" "x \<le> y"
  shows "c1 + (c2 - c1) * (x - t1) / (t2 - t1) \<le> c1 + (c2 - c1) * (y - t1) / (t2 - t1)"
proof -
  have "(c2 - c1) * (x - t1) \<le> (c2 - c1) * (y - t1)"
    using assms by (intro mult_left_mono) simp_all
  then show ?thesis using assms(1) by (simp add: divide_right_mono)
qed

lemma curve_mono:
  "ascendingThickness s \<Longrightarrow> nondecreasingCost s \<Longrightarrow> x \<le> y
   \<Longrightarrow> slabCostCurve s x \<le> slabCostCurve s y"
proof (induction s x arbitrary: y rule: slabCostCurve.induct)
  case (1 p q rest x)
  have pq: "thickness p < thickness q" using "1.prems"(1) by (simp add: ascendingThickness_def)
  have cpq: "costPerSf p \<le> costPerSf q" using "1.prems"(2) by (simp add: nondecreasingCost_def)
  have asc: "ascendingThickness (q # rest)" "nondecreasingCost (q # rest)"
    using "1.prems" by (simp_all add: ascendingThickness_def nondecreasingCost_def)
  have low: "costPerSf p \<le> slabCostCurve (p # q # rest) y"
    using curve_lower[OF "1.prems"(1,2), of y] by simp
  have lowq: "costPerSf q \<le> slabCostCurve (q # rest) y"
    using curve_lower[OF asc, of y] by simp
  show ?case
  proof (cases "x \<le> thickness p")
    case True then show ?thesis using low by simp
  next
    case xp: False
    show ?thesis
    proof (cases "x \<le> thickness q")
      case xq: True
      show ?thesis
      proof (cases "y \<le> thickness q")
        case True
        then show ?thesis using xp xq "1.prems"(3) segment_mono[OF pq cpq "1.prems"(3)] by simp
      next
        case False
        then show ?thesis
          using xp xq lowq segment_le_right[OF pq cpq xq] by simp
      qed
    next
      case xq: False
      then have "slabCostCurve (q # rest) x \<le> slabCostCurve (q # rest) y"
        using "1.IH" xp asc "1.prems"(3) by simp
      then show ?thesis using xp xq "1.prems"(3) by simp
    qed
  qed
qed simp_all

lemma curve_continuous:
  "ascendingThickness s \<Longrightarrow> continuous_on UNIV (slabCostCurve s)"
proof (induction s rule: induct_list012)
  case 1
  have "slabCostCurve [] = (\<lambda>x. 0)" by (rule ext) simp
  then show ?case by simp
next
  case (2 p)
  have "slabCostCurve [p] = (\<lambda>x. costPerSf p)" by (rule ext) simp
  then show ?case by simp
next
  case (3 p q rest)
  have pq: "thickness p < thickness q" using "3.prems" by (simp add: ascendingThickness_def)
  have asc: "ascendingThickness (q # rest)" using "3.prems" by (simp add: ascendingThickness_def)
  let ?seg = "\<lambda>x. costPerSf p + (costPerSf q - costPerSf p) * (x - thickness p) / (thickness q - thickness p)"
  have tail: "continuous_on {thickness q..} (slabCostCurve (q # rest))"
    using "3.IH"(2)[OF asc] continuous_on_subset by blast
  have seg: "continuous_on {..thickness q} ?seg"
    using pq by (intro continuous_intros) simp
  have inner: "continuous_on ({..thickness q} \<union> {thickness q..})
      (\<lambda>x. if x \<le> thickness q then ?seg x else slabCostCurve (q # rest) x)"
    using pq by (intro continuous_on_If closed_atMost closed_atLeast seg tail)
       (auto simp: curve_at_head)
  have u1: "{..thickness q} \<union> {thickness q..} = (UNIV :: real set)" by auto
  have inner': "continuous_on {thickness p..}
      (\<lambda>x. if x \<le> thickness q then ?seg x else slabCostCurve (q # rest) x)"
    using inner unfolding u1 using continuous_on_subset by blast
  have outer: "continuous_on ({..thickness p} \<union> {thickness p..})
      (\<lambda>x. if x \<le> thickness p then costPerSf p
           else if x \<le> thickness q then ?seg x else slabCostCurve (q # rest) x)"
    using pq by (intro continuous_on_If closed_atMost closed_atLeast inner') (auto intro: continuous_intros)
  have u2: "{..thickness p} \<union> {thickness p..} = (UNIV :: real set)" by auto
  have "slabCostCurve (p # q # rest) = (\<lambda>x. if x \<le> thickness p then costPerSf p
           else if x \<le> thickness q then ?seg x else slabCostCurve (q # rest) x)"
    by (rule ext) simp
  then show ?case using outer unfolding u2 by simp
qed

subsection \<open>Loops and the search state\<close>

lemma frange_head: "0 < d \<Longrightarrow> x \<le> hi \<Longrightarrow> x \<in> set (frange x hi d)"
  by (subst frange.simps) simp

lemma frange_step:
  "0 < d \<Longrightarrow> x \<le> hi \<Longrightarrow> y \<in> set (frange (x + d) hi d) \<Longrightarrow> y \<in> set (frange x hi d)"
  by (subst frange.simps) simp

lemma frange_bounds: "y \<in> set (frange x hi d) \<Longrightarrow> x \<le> y \<and> y \<le> hi"
proof (induction x hi d rule: frange.induct)
  case (1 x hi d)
  show ?case
  proof (cases "0 < d \<and> x \<le> hi")
    case True
    then have "y = x \<or> y \<in> set (frange (x + d) hi d)"
      using "1.prems" by (subst (asm) frange.simps) simp
    then show ?thesis using "1.IH"[OF True] True by auto
  next
    case False
    then have "frange x hi d = []" by (subst frange.simps) simp
    then show ?thesis using "1.prems" by simp
  qed
qed

lemma run_trials_invariant:
  assumes "\<And>s x s'. I s \<Longrightarrow> x \<in> set xs \<Longrightarrow> step s x = Inr s' \<Longrightarrow> I s'"
    and "I st" and "run_trials step st xs = Inr st'"
  shows "I st'"
  using assms
proof (induction xs arbitrary: st)
  case Nil
  then show ?case by simp
next
  case (Cons x xs)
  from Cons.prems(3) obtain s1 where s1: "step st x = Inr s1" "run_trials step s1 xs = Inr st'"
    by (cases "step st x") simp_all
  have "I s1" using Cons.prems(1)[OF Cons.prems(2) _ s1(1)] by simp
  moreover have "\<And>s y s'. I s \<Longrightarrow> y \<in> set xs \<Longrightarrow> step s y = Inr s' \<Longrightarrow> I s'"
    using Cons.prems(1) by (meson list.set_intros(2))
  ultimately show ?case using Cons.IH s1(2) by blast
qed

lemma run_trials_total:
  assumes "\<And>s x. I s \<Longrightarrow> x \<in> set xs \<Longrightarrow> \<exists>s'. step s x = Inr s' \<and> I s'"
    and "I st"
  shows "\<exists>st'. run_trials step st xs = Inr st' \<and> I st'"
  using assms
proof (induction xs arbitrary: st)
  case Nil
  then show ?case by simp
next
  case (Cons x xs)
  have "\<exists>s'. step st x = Inr s' \<and> I s'" using Cons.prems(1)[OF Cons.prems(2)] by simp
  then obtain s1 where s1: "step st x = Inr s1" "I s1" by blast
  have "\<And>s y. I s \<Longrightarrow> y \<in> set xs \<Longrightarrow> \<exists>s'. step s y = Inr s' \<and> I s'"
    using Cons.prems(1) by (meson list.set_intros(2))
  then have "\<exists>st'. run_trials step s1 xs = Inr st' \<and> I st'"
    using Cons.IH s1(2) by blast
  then show ?case using s1(1) by simp
qed

lemma run_trials_reaches:
  assumes tot: "\<And>s x. I s \<Longrightarrow> x \<in> set xs \<Longrightarrow> \<exists>s'. step s x = Inr s' \<and> I s'"
    and hit: "\<And>s s'. I s \<Longrightarrow> step s target = Inr s' \<Longrightarrow> Q s'"
    and keep: "\<And>s x s'. I s \<Longrightarrow> Q s \<Longrightarrow> step s x = Inr s' \<Longrightarrow> Q s'"
    and "I st" and "target \<in> set xs"
  shows "\<exists>st'. run_trials step st xs = Inr st' \<and> I st' \<and> Q st'"
  using assms(4,5) tot
proof (induction xs arbitrary: st)
  case Nil
  then show ?case by simp
next
  case (Cons x xs)
  have "\<exists>s'. step st x = Inr s' \<and> I s'" using Cons.prems(3)[OF Cons.prems(1)] by simp
  then obtain s1 where s1: "step st x = Inr s1" "I s1" by blast
  have tot': "\<And>s y. I s \<Longrightarrow> y \<in> set xs \<Longrightarrow> \<exists>s'. step s y = Inr s' \<and> I s'"
    using Cons.prems(3) by (meson list.set_intros(2))
  show ?case
  proof (cases "x = target")
    case True
    then have q1: "Q s1" using hit[OF Cons.prems(1)] s1(1) by simp
    have "\<exists>st'. run_trials step s1 xs = Inr st' \<and> (I st' \<and> Q st')"
    proof (rule run_trials_total)
      show "I s1 \<and> Q s1" using s1(2) q1 by simp
    next
      fix s y assume a: "I s \<and> Q s" "y \<in> set xs"
      then have "\<exists>s'. step s y = Inr s' \<and> I s'" using tot' by blast
      then obtain s' where s': "step s y = Inr s'" "I s'" by blast
      have "Q s'" using keep a(1) s'(1) by blast
      then show "\<exists>s'. step s y = Inr s' \<and> (I s' \<and> Q s')" using s' by blast
    qed
    then show ?thesis using s1(1) by simp
  next
    case False
    then have "target \<in> set xs" using Cons.prems(2) by simp
    then have "\<exists>st'. run_trials step s1 xs = Inr st' \<and> I st' \<and> Q st'"
      using Cons.IH[OF s1(2) _ tot'] by blast
    then show ?thesis using s1(1) by simp
  qed
qed

subsection \<open>The cost step\<close>

lemma sortCosts_idem: "sortCosts (sortCosts cp) = sortCosts cp"
  by (simp add: sortCosts_def sort_key_id_if_sorted)

lemma sortCosts_sorted: "sorted (map thickness (ptSlabCosts cp)) \<Longrightarrow> sortCosts cp = cp"
  by (simp add: sortCosts_def sort_key_id_if_sorted)

lemma sortCosts_fields:
  "ptFormworkCostPerSf (sortCosts cp) = ptFormworkCostPerSf cp"
  "beamFormingCostPerCf (sortCosts cp) = beamFormingCostPerCf cp"
  "beamPouringCostPerCf (sortCosts cp) = beamPouringCostPerCf cp"
  "ptStrandCostPerLb (sortCosts cp) = ptStrandCostPerLb cp"
  "mildSteelCostPerLb (sortCosts cp) = mildSteelCostPerLb cp"
  "mset (ptSlabCosts (sortCosts cp)) = mset (ptSlabCosts cp)"
  by (simp_all add: sortCosts_def)

lemma sortCosts_empty: "(ptSlabCosts (sortCosts cp) = []) = (ptSlabCosts cp = [])"
proof -
  have "length (ptSlabCosts (sortCosts cp)) = length (ptSlabCosts cp)"
    by (simp add: sortCosts_def)
  then show ?thesis by (metis length_0_conv)
qed

lemma interpolate_nonempty:
  "tbl \<noteq> [] \<Longrightarrow> \<exists>v. interpolateBaseCost dflt x tbl = Inr v"
  by (cases tbl) (simp_all add: interpolateBaseCost_def Let_def)


lemma costStep_cases:
  assumes "costStep dflt thk totalOf designOf st = Inr st'"
  shows "costParams st' = sortCosts (costParams st)
    \<and> ((bestDesign st' = bestDesign st \<and> minCost st' = minCost st)
        \<or> (\<exists>b. interpolateBaseCost dflt thk (ptSlabCosts (sortCosts (costParams st))) = Inr (Num b)
              \<and> belowMinCost (totalOf (sortCosts (costParams st)) b) (minCost st)
              \<and> bestDesign st' = Some (designOf (sortCosts (costParams st)) b)
              \<and> minCost st' = Some (totalOf (sortCosts (costParams st)) b)))"
  using assms
  by (auto simp: costStep_def Let_def split: sum.splits jsnum.splits if_splits)

lemma costStep_total:
  assumes "ptSlabCosts (costParams st) \<noteq> []"
  shows "\<exists>st'. costStep dflt thk totalOf designOf st = Inr st'"
proof -
  have "ptSlabCosts (sortCosts (costParams st)) \<noteq> []" using assms by (simp add: sortCosts_empty)
  then obtain v where "interpolateBaseCost dflt thk (ptSlabCosts (sortCosts (costParams st))) = Inr v"
    using interpolate_nonempty by blast
  then show ?thesis by (cases v) (simp_all add: costStep_def Let_def)
qed

lemma costStep_found:
  assumes "costStep dflt thk totalOf designOf st = Inr st'"
    and "interpolateBaseCost dflt thk (ptSlabCosts (sortCosts (costParams st))) = Inr (Num b)"
    and "(bestDesign st = None) = (minCost st = None)"
  shows "bestDesign st' \<noteq> None"
  using assms
  by (auto simp: costStep_def Let_def belowMinCost_def split: if_splits option.splits)

lemma searchInv_initial: "searchInv cp (initialState cp)"
  by (simp add: searchInv_def initialState_def)

lemma costStep_searchInv:
  assumes "costStep dflt thk totalOf designOf st = Inr st'" and "searchInv cp st"
    and "\<And>c b. checks (designOf c b) = allChecksTrue"
  shows "searchInv cp st'"
proof -
  note c = costStep_cases[OF assms(1)]
  have p: "costParams st' = cp \<or> costParams st' = sortCosts cp"
    using c assms(2) by (auto simp: searchInv_def sortCosts_idem)
  show ?thesis
    using c assms(2,3) p by (auto simp: searchInv_def split: option.splits)
qed

lemma fp_design_checks: "checks (fp_design tr W c b) = allChecksTrue"
  by (simp add: fp_design_def Let_def)

lemma ow_design_checks: "checks (ow_design c sp bp cp b) = allChecksTrue"
  by (simp add: ow_design_def Let_def)

lemma tw_design_checks: "checks (tw_design c sp bp cp b) = allChecksTrue"
  by (simp add: tw_design_def Let_def)

lemma fp_step_searchInv:
  assumes "fp_step W st tr = Inr st'" and "searchInv cp st"
  shows "searchInv cp st'"
proof (cases "fp_checks tr")
  case None
  then have "costStep 20 (tr_thickness tr) (fp_totalCost tr W) (fp_design tr W) st = Inr st'"
    using assms(1) by (simp add: fp_step_def)
  then show ?thesis using assms(2) fp_design_checks by (rule costStep_searchInv)
next
  case (Some r)
  then show ?thesis using assms by (simp add: fp_step_def)
qed

lemma ow_step_cases:
  assumes "ow_step st c = Inr st'"
  shows "st' = st \<or> (\<exists>sp bp. ow_slabPrestress c = Some sp \<and> ow_beamPrestress c = Some bp
     \<and> costStep 15 (bc_slabThickness c) (ow_totalCost c sp bp) (ow_design c sp bp) st = Inr st')"
  using assms by (auto simp: ow_step_def split: option.splits if_splits)

lemma tw_step_cases:
  assumes "tw_step st c = Inr st'"
  shows "st' = st \<or> (\<exists>sp bp. tw_slabPrestress c = Some sp \<and> tw_beamPrestress c = Some bp
     \<and> costStep 12 (bc_slabThickness c) (tw_totalCost c sp bp) (tw_design c sp bp) st = Inr st')"
  using assms by (auto simp: tw_step_def split: option.splits if_splits)

lemma ow_step_searchInv:
  assumes "ow_step st c = Inr st'" and "searchInv cp st"
  shows "searchInv cp st'"
proof -
  from ow_step_cases[OF assms(1)] show ?thesis
  proof
    assume "st' = st"
    then show ?thesis using assms(2) by simp
  next
    assume "\<exists>sp bp. ow_slabPrestress c = Some sp \<and> ow_beamPrestress c = Some bp
     \<and> costStep 15 (bc_slabThickness c) (ow_totalCost c sp bp) (ow_design c sp bp) st = Inr st'"
    then obtain sp bp where
      "costStep 15 (bc_slabThickness c) (ow_totalCost c sp bp) (ow_design c sp bp) st = Inr st'"
      by blast
    then show ?thesis using assms(2) ow_design_checks by (rule costStep_searchInv)
  qed
qed

lemma tw_step_searchInv:
  assumes "tw_step st c = Inr st'" and "searchInv cp st"
  shows "searchInv cp st'"
proof -
  from tw_step_cases[OF assms(1)] show ?thesis
  proof
    assume "st' = st"
    then show ?thesis using assms(2) by simp
  next
    assume "\<exists>sp bp. tw_slabPrestress c = Some sp \<and> tw_beamPrestress c = Some bp
     \<and> costStep 12 (bc_slabThickness c) (tw_totalCost c sp bp) (tw_design c sp bp) st = Inr st'"
    then obtain sp bp where
      "costStep 12 (bc_slabThickness c) (tw_totalCost c sp bp) (tw_design c sp bp) st = Inr st'"
      by blast
    then show ?thesis using assms(2) tw_design_checks by (rule costStep_searchInv)
  qed
qed

lemma optimizeFlatPlate_inv:
  assumes "optimizeFlatPlate L W cp = Inr (r, cp')"
  shows "\<exists>st. searchInv cp st \<and> bestDesign st = r \<and> costParams st = cp'"
proof -
  obtain st where st: "run_trials (fp_step W) (initialState cp) (fp_grid L) = Inr st"
      "bestDesign st = r" "costParams st = cp'"
    using assms by (auto simp: optimizeFlatPlate_def split: sum.splits)
  have "searchInv cp st"
    using fp_step_searchInv searchInv_initial st(1)
    by (rule run_trials_invariant[where I = "searchInv cp"])
  then show ?thesis using st by blast
qed

lemma optimizeOneWayBeam_inv:
  assumes "optimizeOneWayBeam L W cp = Inr (r, cp')"
  shows "\<exists>st. searchInv cp st \<and> bestDesign st = r \<and> costParams st = cp'"
proof -
  obtain st where st: "run_trials ow_step (initialState cp) (ow_grid L W) = Inr st"
      "bestDesign st = r" "costParams st = cp'"
    using assms by (auto simp: optimizeOneWayBeam_def split: sum.splits)
  have "searchInv cp st"
    using ow_step_searchInv searchInv_initial st(1)
    by (rule run_trials_invariant[where I = "searchInv cp"])
  then show ?thesis using st by blast
qed

lemma optimizeTwoWayBeam_inv:
  assumes "optimizeTwoWayBeam L W cp = Inr (r, cp')"
  shows "\<exists>st. searchInv cp st \<and> bestDesign st = r \<and> costParams st = cp'"
proof -
  obtain st where st: "run_trials tw_step (initialState cp) (tw_grid L W) = Inr st"
      "bestDesign st = r" "costParams st = cp'"
    using assms by (auto simp: optimizeTwoWayBeam_def split: sum.splits)
  have "searchInv cp st"
    using tw_step_searchInv searchInv_initial st(1)
    by (rule run_trials_invariant[where I = "searchInv cp"])
  then show ?thesis using st by blast
qed

subsection \<open>A feasible flat plate\<close>

lemma fp_grid_member:
  assumes "fc \<in> set concreteStrengths" and "\<not> strengthSkipped fc L"
    and "thk \<in> set (frange (fp_minThickness L) 16 0.5)"
    and "\<not> (thk / 2 - getCoverRequirement fc - 0.5 / 2 < 1.0)"
    and "br \<in> set (frange 0.6 1.1 0.05)" and "er \<in> set (frange 0.6 0.95 0.05)"
  shows "\<lparr> tr_bayLength = L, tr_fc = fc, tr_thickness = thk, tr_balanceRatio = br,
           tr_eRatio = er \<rparr> \<in> set (fp_grid L)"
  using assms unfolding fp_grid_def by auto

lemma tr0_in_grid: "tr0 \<in> set (fp_grid 12)"
proof -
  have m: "fp_minThickness 12 = 5" by (simp add: fp_minThickness_def)
  have t: "(5.5::real) \<in> set (frange (fp_minThickness 12) 16 0.5)"
    unfolding m using frange_step[of "0.5" 5 16 "5.5"] frange_head[of "0.5" "5.5" 16] by simp
  have "\<lparr> tr_bayLength = 12, tr_fc = 5000, tr_thickness = 5.5, tr_balanceRatio = 0.6,
           tr_eRatio = 0.6 \<rparr> \<in> set (fp_grid 12)"
    using t by (intro fp_grid_member)
      (simp_all add: concreteStrengths_def strengthSkipped_def getCoverRequirement_def frange_head)
  then show ?thesis by (simp add: tr0_def)
qed

text \<open>
  A flat-plate search whose grid holds a point that passes every check returns a design and
  leaves the cost table sorted, provided the table is not empty and the interpolation at the
  thickness of that point is a number.
\<close>

lemma fp_step_total:
  assumes "searchInv cp s" and "ptSlabCosts cp \<noteq> []"
  shows "\<exists>s'. fp_step W s tr = Inr s' \<and> searchInv cp s'"
proof -
  have "ptSlabCosts (costParams s) \<noteq> []"
    using assms by (auto simp: searchInv_def sortCosts_empty)
  then have "\<exists>s'. fp_step W s tr = Inr s'"
    using costStep_total by (cases "fp_checks tr") (simp_all add: fp_step_def)
  then show ?thesis using fp_step_searchInv assms(1) by blast
qed

lemma searchInv_sorted: "searchInv cp s \<Longrightarrow> sortCosts (costParams s) = sortCosts cp"
  by (auto simp: searchInv_def sortCosts_idem)

lemma optimizeFlatPlate_feasible:
  assumes grid: "tr \<in> set (fp_grid L)" and pass: "fp_checks tr = None"
    and ne: "ptSlabCosts cp \<noteq> []"
    and num: "interpolateBaseCost 20 (tr_thickness tr) (ptSlabCosts (sortCosts cp)) = Inr (Num b)"
  shows "\<exists>d. optimizeFlatPlate L W cp = Inr (Some d, sortCosts cp)"
proof -
  let ?I = "\<lambda>s. searchInv cp s"
  let ?Q = "\<lambda>s. bestDesign s \<noteq> None \<and> costParams s = sortCosts cp"
  have "\<exists>st'. run_trials (fp_step W) (initialState cp) (fp_grid L) = Inr st' \<and> ?I st' \<and> ?Q st'"
  proof (rule run_trials_reaches[where target = tr])
    show "?I (initialState cp)" by (rule searchInv_initial)
    show "tr \<in> set (fp_grid L)" by (rule grid)
  next
    fix s x assume "?I s"
    then show "\<exists>s'. fp_step W s x = Inr s' \<and> ?I s'" using fp_step_total ne by blast
  next
    fix s s' assume s: "?I s" "fp_step W s tr = Inr s'"
    then have c: "costStep 20 (tr_thickness tr) (fp_totalCost tr W) (fp_design tr W) s = Inr s'"
      using pass by (simp add: fp_step_def)
    have n: "interpolateBaseCost 20 (tr_thickness tr) (ptSlabCosts (sortCosts (costParams s)))
        = Inr (Num b)"
      using num searchInv_sorted[OF s(1)] by simp
    have "(bestDesign s = None) = (minCost s = None)" using s(1) by (simp add: searchInv_def)
    then have "bestDesign s' \<noteq> None" by (rule costStep_found[OF c n])
    moreover have "costParams s' = sortCosts cp"
      using costStep_cases[OF c] searchInv_sorted[OF s(1)] by simp
    ultimately show "?Q s'" by simp
  next
    fix s x s' assume s: "?I s" "?Q s" "fp_step W s x = Inr s'"
    show "?Q s'"
    proof (cases "fp_checks x")
      case (Some r)
      then show ?thesis using s by (simp add: fp_step_def)
    next
      case None
      then have c: "costStep 20 (tr_thickness x) (fp_totalCost x W) (fp_design x W) s = Inr s'"
        using s(3) by (simp add: fp_step_def)
      show ?thesis using costStep_cases[OF c] s(2) searchInv_sorted[OF s(1)] by auto
    qed
  qed
  then obtain st' where "run_trials (fp_step W) (initialState cp) (fp_grid L) = Inr st'"
      "bestDesign st' \<noteq> None" "costParams st' = sortCosts cp" by blast
  then show ?thesis by (auto simp: optimizeFlatPlate_def)
qed

subsection \<open>The reference cost record\<close>

lemma refCosts_sorted: "sortCosts refCosts = refCostsSorted"
  by (simp add: sortCosts_def refCosts_def refCostsSorted_def)

lemma refCosts_interp:
  "interpolateBaseCost 20 (tr_thickness tr0) (ptSlabCosts (sortCosts refCosts)) = Inr (Num 12.05)"
  unfolding refCosts_sorted
  by (simp add: refCostsSorted_def interpolateBaseCost_def tr0_def Let_def)

lemma refCosts_flat_plate:
  "\<exists>d. optimizeFlatPlate 12 W refCosts = Inr (Some d, refCostsSorted)"
  using optimizeFlatPlate_feasible[OF tr0_in_grid checks0 _ refCosts_interp, of W]
  by (simp add: refCosts_sorted) (simp add: refCosts_def)

subsection \<open>Provenance of the returned design\<close>

lemma fp_grid_facts:
  assumes "tr \<in> set (fp_grid L)"
  shows "tr_bayLength tr = L" "tr_fc tr \<in> set concreteStrengths"
    "5 \<le> tr_thickness tr" "tr_thickness tr \<le> 16"
    "0.6 \<le> tr_balanceRatio tr" "tr_balanceRatio tr \<le> 1.1"
    "0.6 \<le> tr_eRatio tr" "tr_eRatio tr \<le> 0.95" "1 \<le> fp_emax tr"
proof -
  obtain fc thk br er where tr: "tr = \<lparr> tr_bayLength = L, tr_fc = fc, tr_thickness = thk,
        tr_balanceRatio = br, tr_eRatio = er \<rparr>"
    and fc: "fc \<in> set concreteStrengths"
    and thk: "thk \<in> set (frange (fp_minThickness L) 16 0.5)"
    and em: "\<not> (thk / 2 - getCoverRequirement fc - 0.5 / 2 < 1.0)"
    and br: "br \<in> set (frange 0.6 1.1 0.05)" and er: "er \<in> set (frange 0.6 0.95 0.05)"
    using assms unfolding fp_grid_def by (auto split: if_splits)
  have m: "5 \<le> fp_minThickness L" by (simp add: fp_minThickness_def)
  show "tr_bayLength tr = L" "tr_fc tr \<in> set concreteStrengths" using tr fc by simp_all
  show "5 \<le> tr_thickness tr" "tr_thickness tr \<le> 16"
    using frange_bounds[OF thk] m tr by simp_all
  show "0.6 \<le> tr_balanceRatio tr" "tr_balanceRatio tr \<le> 1.1"
    using frange_bounds[OF br] tr by simp_all
  show "0.6 \<le> tr_eRatio tr" "tr_eRatio tr \<le> 0.95"
    using frange_bounds[OF er] tr by simp_all
  show "1 \<le> fp_emax tr" using em tr by (simp add: fp_emax_def Let_def)
qed

lemma optimizeFlatPlate_produced:
  assumes "optimizeFlatPlate L W cp = Inr (Some d, cp')"
  shows "fp_produced L W cp d"
proof -
  let ?I = "\<lambda>s. searchInv cp s \<and> (\<forall>d. bestDesign s = Some d \<longrightarrow> fp_produced L W cp d)"
  obtain st where st: "run_trials (fp_step W) (initialState cp) (fp_grid L) = Inr st"
      "bestDesign st = Some d"
    using assms by (auto simp: optimizeFlatPlate_def split: sum.splits)
  have "?I st"
  proof (rule run_trials_invariant[where I = ?I, OF _ _ st(1)])
    show "?I (initialState cp)" by (simp add: searchInv_initial) (simp add: initialState_def)
  next
    fix s x s' assume a: "?I s" "x \<in> set (fp_grid L)" "fp_step W s x = Inr s'"
    have inv: "searchInv cp s'" using fp_step_searchInv a by blast
    show "?I s'"
    proof (cases "fp_checks x")
      case (Some r)
      then show ?thesis using a by (simp add: fp_step_def)
    next
      case None
      then have c: "costStep 20 (tr_thickness x) (fp_totalCost x W) (fp_design x W) s = Inr s'"
        using a(3) by (simp add: fp_step_def)
      have srt: "sortCosts (costParams s) = sortCosts cp" using a(1) searchInv_sorted by blast
      show ?thesis
        using costStep_cases[OF c] a(1,2) None inv unfolding srt fp_produced_def by auto
    qed
  qed
  then show ?thesis using st(2) by blast
qed

lemma concreteStrengths_ge: "fc \<in> set concreteStrengths \<Longrightarrow> 5000 \<le> fc \<and> fc \<le> 15000"
  by (auto simp: concreteStrengths_def)

lemma ow_grid_facts:
  assumes "c \<in> set (ow_grid L W)"
  shows "bc_bayLength c = L" "bc_bayWidth c = W" "bc_fc c \<in> set concreteStrengths"
    "12 \<le> bc_beamDepth c" "12 \<le> bc_beamWidth c" "bc_beamWidth c \<le> 24"
    "4 \<le> bc_slabThickness c" "bc_slabThickness c \<le> 8"
proof -
  obtain fc depth bw thk where c: "c = \<lparr> bc_bayLength = L, bc_bayWidth = W, bc_fc = fc,
        bc_beamDepth = depth, bc_beamWidth = bw, bc_slabThickness = thk \<rparr>"
    and fc: "fc \<in> set concreteStrengths"
    and depth: "depth \<in> set (frange (bc_minBeamDepth L) (bc_maxBeamDepth L) 2)"
    and bw: "bw \<in> set (frange 12 24 2)"
    and thk: "thk \<in> set (frange (ow_minSlabThickness W bw) 8 0.5)"
    using assms unfolding ow_grid_def by (auto split: if_splits)
  have m: "12 \<le> bc_minBeamDepth L" "4 \<le> ow_minSlabThickness W bw"
    by (simp_all add: bc_minBeamDepth_def ow_minSlabThickness_def Let_def)
  show "bc_bayLength c = L" "bc_bayWidth c = W" "bc_fc c \<in> set concreteStrengths"
    using c fc by simp_all
  show "12 \<le> bc_beamDepth c" using frange_bounds[OF depth] m c by simp
  show "12 \<le> bc_beamWidth c" "bc_beamWidth c \<le> 24" using frange_bounds[OF bw] c by simp_all
  show "4 \<le> bc_slabThickness c" "bc_slabThickness c \<le> 8"
    using frange_bounds[OF thk] m c by simp_all
qed

lemma tw_grid_facts:
  assumes "c \<in> set (tw_grid L W)"
  shows "bc_bayLength c = L" "bc_bayWidth c = W" "bc_fc c \<in> set concreteStrengths"
    "12 \<le> bc_beamDepth c" "bc_beamDepth c \<le> bc_maxBeamDepth (max L W)"
    "12 \<le> bc_beamWidth c" "bc_beamWidth c \<le> 20"
    "3 \<le> bc_slabThickness c" "bc_slabThickness c \<le> 6"
proof -
  obtain fc depth bw thk where c: "c = \<lparr> bc_bayLength = L, bc_bayWidth = W, bc_fc = fc,
        bc_beamDepth = depth, bc_beamWidth = bw, bc_slabThickness = thk \<rparr>"
    and fc: "fc \<in> set concreteStrengths"
    and depth: "depth \<in> set (frange (bc_minBeamDepth (max L W)) (bc_maxBeamDepth (max L W)) 2)"
    and bw: "bw \<in> set (frange 12 20 2)"
    and thk: "thk \<in> set (frange (tw_minSlabThickness L W bw) 6 0.5)"
    using assms unfolding tw_grid_def Let_def by (auto split: if_splits)
  have m: "12 \<le> bc_minBeamDepth (max L W)" "3 \<le> tw_minSlabThickness L W bw"
    by (simp_all add: bc_minBeamDepth_def tw_minSlabThickness_def Let_def)
  show "bc_bayLength c = L" "bc_bayWidth c = W" "bc_fc c \<in> set concreteStrengths"
    using c fc by simp_all
  show "12 \<le> bc_beamDepth c" "bc_beamDepth c \<le> bc_maxBeamDepth (max L W)"
    using frange_bounds[OF depth] m c by simp_all
  show "12 \<le> bc_beamWidth c" "bc_beamWidth c \<le> 20" using frange_bounds[OF bw] c by simp_all
  show "3 \<le> bc_slabThickness c" "bc_slabThickness c \<le> 6"
    using frange_bounds[OF thk] m c by simp_all
qed

text \<open>
  A grid of the two-way search is empty unless the larger bay dimension exceeds 11 ft, so the
  long clear span of a grid point is positive and its aspect ratio is never \<open>NaN\<close>.
\<close>

lemma tw_grid_aspect:
  assumes "c \<in> set (tw_grid L W)"
  shows "0 < tw_longSpan c" and "tw_aspectRatio c \<noteq> NaN"
proof -
  note f = tw_grid_facts[OF assms]
  have "12 \<le> bc_maxBeamDepth (max L W)" using f(4,5) by simp
  then have "12 \<le> real_of_int \<lceil>max L W * 12 / 12\<rceil>" by (simp add: bc_maxBeamDepth_def)
  then have "12 \<le> \<lceil>max L W\<rceil>" by simp
  then have "11 < max L W" by linarith
  moreover have "tw_longSpan c = max L W - bc_beamWidth c / 12"
    using f(1,2) by (simp add: tw_longSpan_def tw_clearSpanL_def tw_clearSpanW_def max_def)
  ultimately show "0 < tw_longSpan c" using f(7) by simp
  then show "tw_aspectRatio c \<noteq> NaN" by (simp add: tw_aspectRatio_def js_div_def)
qed

lemma first_some_member: "first_some f xs = Some y \<Longrightarrow> \<exists>x\<in>set xs. f x = Some y"
  by (induction xs) (auto split: option.splits)

lemma ratioPairs_bounds:
  "p \<in> set (ratioPairs b0 b1 bd e0 e1 ed) \<Longrightarrow> b0 \<le> fst p \<and> fst p \<le> b1 \<and> e0 \<le> snd p \<and> snd p \<le> e1"
  unfolding ratioPairs_def using frange_bounds by auto

lemma slab_try_Some:
  assumes "slab_try c Md Ms p = Some sp"
  shows "sp_Pe sp = fst p * Md / (snd p * bc_emax_slab c)"
    and "sp_e sp = snd p * bc_emax_slab c"
    and "\<not> sp_Pe sp / sec_A (bc_slabProps c) < 175"
    and "sp_avgPrestress sp = sp_Pe sp / sec_A (bc_slabProps c)"
  using assms by (auto simp: slab_try_def Let_def split: if_splits)

lemma beam_try_Some:
  assumes "beam_try c Md Ms p = Some bp"
  shows "bp_Pe bp = fst p * Md / (snd p * bc_emax_beam c)"
    and "bp_e bp = snd p * bc_emax_beam c"
  using assms by (auto simp: beam_try_def Let_def split: if_splits)

lemma ow_step_cases2:
  assumes "ow_step st c = Inr st'"
  shows "st' = st \<or> (\<exists>sp bp. \<not> bc_emax_slab c < 0.5 \<and> ow_slabPrestress c = Some sp
     \<and> ow_beamPrestress c = Some bp
     \<and> costStep 15 (bc_slabThickness c) (ow_totalCost c sp bp) (ow_design c sp bp) st = Inr st')"
  using assms by (auto simp: ow_step_def split: option.splits if_splits)

lemma tw_step_cases2:
  assumes "tw_step st c = Inr st'"
  shows "st' = st \<or> (\<exists>sp bp. \<not> bc_emax_slab c < 0.5 \<and> tw_slabPrestress c = Some sp
     \<and> tw_beamPrestress c = Some bp
     \<and> costStep 12 (bc_slabThickness c) (tw_totalCost c sp bp) (tw_design c sp bp) st = Inr st')"
  using assms by (auto simp: tw_step_def split: option.splits if_splits)

lemma optimizeOneWayBeam_produced:
  assumes "optimizeOneWayBeam L W cp = Inr (Some d, cp')"
  shows "ow_produced L W cp d"
proof -
  let ?I = "\<lambda>s. searchInv cp s \<and> (\<forall>d. bestDesign s = Some d \<longrightarrow> ow_produced L W cp d)"
  obtain st where st: "run_trials ow_step (initialState cp) (ow_grid L W) = Inr st"
      "bestDesign st = Some d"
    using assms by (auto simp: optimizeOneWayBeam_def split: sum.splits)
  have "?I st"
  proof (rule run_trials_invariant[where I = ?I, OF _ _ st(1)])
    show "?I (initialState cp)" by (simp add: searchInv_initial) (simp add: initialState_def)
  next
    fix s x s' assume a: "?I s" "x \<in> set (ow_grid L W)" "ow_step s x = Inr s'"
    have inv: "searchInv cp s'" using ow_step_searchInv a by blast
    have srt: "sortCosts (costParams s) = sortCosts cp" using a(1) searchInv_sorted by blast
    from ow_step_cases2[OF a(3)] show "?I s'"
    proof
      assume "s' = s" then show ?thesis using a(1) by simp
    next
      assume "\<exists>sp bp. \<not> bc_emax_slab x < 0.5 \<and> ow_slabPrestress x = Some sp
        \<and> ow_beamPrestress x = Some bp
        \<and> costStep 15 (bc_slabThickness x) (ow_totalCost x sp bp) (ow_design x sp bp) s = Inr s'"
      then obtain sp bp where h: "\<not> bc_emax_slab x < 0.5" "ow_slabPrestress x = Some sp"
        "ow_beamPrestress x = Some bp"
        and c: "costStep 15 (bc_slabThickness x) (ow_totalCost x sp bp) (ow_design x sp bp) s = Inr s'"
        by blast
      show ?thesis
        using costStep_cases[OF c] a(1,2) h inv unfolding srt ow_produced_def by auto
    qed
  qed
  then show ?thesis using st(2) by blast
qed

lemma optimizeTwoWayBeam_produced:
  assumes "optimizeTwoWayBeam L W cp = Inr (Some d, cp')"
  shows "tw_produced L W cp d"
proof -
  let ?I = "\<lambda>s. searchInv cp s \<and> (\<forall>d. bestDesign s = Some d \<longrightarrow> tw_produced L W cp d)"
  obtain st where st: "run_trials tw_step (initialState cp) (tw_grid L W) = Inr st"
      "bestDesign st = Some d"
    using assms by (auto simp: optimizeTwoWayBeam_def split: sum.splits)
  have "?I st"
  proof (rule run_trials_invariant[where I = ?I, OF _ _ st(1)])
    show "?I (initialState cp)" by (simp add: searchInv_initial) (simp add: initialState_def)
  next
    fix s x s' assume a: "?I s" "x \<in> set (tw_grid L W)" "tw_step s x = Inr s'"
    have inv: "searchInv cp s'" using tw_step_searchInv a by blast
    have srt: "sortCosts (costParams s) = sortCosts cp" using a(1) searchInv_sorted by blast
    from tw_step_cases2[OF a(3)] show "?I s'"
    proof
      assume "s' = s" then show ?thesis using a(1) by simp
    next
      assume "\<exists>sp bp. \<not> bc_emax_slab x < 0.5 \<and> tw_slabPrestress x = Some sp
        \<and> tw_beamPrestress x = Some bp
        \<and> costStep 12 (bc_slabThickness x) (tw_totalCost x sp bp) (tw_design x sp bp) s = Inr s'"
      then obtain sp bp where h: "\<not> bc_emax_slab x < 0.5" "tw_slabPrestress x = Some sp"
        "tw_beamPrestress x = Some bp"
        and c: "costStep 12 (bc_slabThickness x) (tw_totalCost x sp bp) (tw_design x sp bp) s = Inr s'"
        by blast
      show ?thesis
        using costStep_cases[OF c] a(1,2) h inv unfolding srt tw_produced_def by auto
    qed
  qed
  then show ?thesis using st(2) by blast
qed

lemma ow_step_total:
  assumes "searchInv cp s" and "ptSlabCosts cp \<noteq> []"
  shows "\<exists>s'. ow_step s c = Inr s' \<and> searchInv cp s'"
proof -
  have ne: "ptSlabCosts (costParams s) \<noteq> []"
    using assms by (auto simp: searchInv_def sortCosts_empty)
  have "\<exists>s'. ow_step s c = Inr s'"
    using costStep_total[OF ne]
    by (cases "ow_slabPrestress c"; cases "ow_beamPrestress c") (simp_all add: ow_step_def)
  then show ?thesis using ow_step_searchInv assms(1) by blast
qed

lemma tw_step_total:
  assumes "searchInv cp s" and "ptSlabCosts cp \<noteq> []"
  shows "\<exists>s'. tw_step s c = Inr s' \<and> searchInv cp s'"
proof -
  have ne: "ptSlabCosts (costParams s) \<noteq> []"
    using assms by (auto simp: searchInv_def sortCosts_empty)
  have "\<exists>s'. tw_step s c = Inr s'"
    using costStep_total[OF ne]
    by (cases "tw_slabPrestress c"; cases "tw_beamPrestress c") (simp_all add: tw_step_def)
  then show ?thesis using tw_step_searchInv assms(1) by blast
qed

text \<open>With a non-empty table no search raises.\<close>

lemma optimize_total:
  assumes "ptSlabCosts cp \<noteq> []"
  shows "\<exists>r cp'. optimizeFlatPlate L W cp = Inr (r, cp') \<and> (cp' = cp \<or> cp' = sortCosts cp)"
    and "\<exists>r cp'. optimizeOneWayBeam L W cp = Inr (r, cp') \<and> (cp' = cp \<or> cp' = sortCosts cp)"
    and "\<exists>r cp'. optimizeTwoWayBeam L W cp = Inr (r, cp') \<and> (cp' = cp \<or> cp' = sortCosts cp)"
proof -
  have "\<exists>st'. run_trials (fp_step W) (initialState cp) (fp_grid L) = Inr st' \<and> searchInv cp st'"
    using fp_step_total[OF _ assms] searchInv_initial
    by (intro run_trials_total[where I = "searchInv cp"]) blast+
  then show "\<exists>r cp'. optimizeFlatPlate L W cp = Inr (r, cp') \<and> (cp' = cp \<or> cp' = sortCosts cp)"
    by (auto simp: optimizeFlatPlate_def searchInv_def)
  have "\<exists>st'. run_trials ow_step (initialState cp) (ow_grid L W) = Inr st' \<and> searchInv cp st'"
    using ow_step_total[OF _ assms] searchInv_initial
    by (intro run_trials_total[where I = "searchInv cp"]) blast+
  then show "\<exists>r cp'. optimizeOneWayBeam L W cp = Inr (r, cp') \<and> (cp' = cp \<or> cp' = sortCosts cp)"
    by (auto simp: optimizeOneWayBeam_def searchInv_def)
  have "\<exists>st'. run_trials tw_step (initialState cp) (tw_grid L W) = Inr st' \<and> searchInv cp st'"
    using tw_step_total[OF _ assms] searchInv_initial
    by (intro run_trials_total[where I = "searchInv cp"]) blast+
  then show "\<exists>r cp'. optimizeTwoWayBeam L W cp = Inr (r, cp') \<and> (cp' = cp \<or> cp' = sortCosts cp)"
    by (auto simp: optimizeTwoWayBeam_def searchInv_def)
qed

subsection \<open>The steel unit cost\<close>

lemma governing_ge_temp:
  "0.0018 * thk * 12 \<le> governing (calculateTotalMildSteel thk spn fc fy s Mcr d)"
  unfolding calculateTotalMildSteel_def Let_def mildSteelReq.select_convs
  by (rule max.coboundedI1, rule max.cobounded1)

lemma fp_design_mildSteel_positive:
  assumes "tr \<in> set (fp_grid L)" and "0 < L * W" and "0 < js_or (mildSteelCostPerLb cp) 1.20"
  shows "0 < mildSteel (costBreakdown (fp_design tr W cp b))"
proof -
  have thk: "5 \<le> tr_thickness tr" and L: "tr_bayLength tr = L"
    using fp_grid_facts[OF assms(1)] by simp_all
  have "0.0018 * tr_thickness tr * 12 \<le> governing (fp_steel tr)"
    unfolding fp_steel_def Let_def by (rule governing_ge_temp)
  then have "0 < governing (fp_steel tr)" using thk by simp
  then have "0 < fp_rebarWeightPerSf tr" by (simp add: fp_rebarWeightPerSf_def Let_def)
  then have "0 < fp_rebarCostPerSf tr cp" using assms(3) by (simp add: fp_rebarCostPerSf_def)
  then show ?thesis using assms(2) L by (simp add: fp_design_def Let_def)
qed

lemma run_trials_rel:
  assumes "\<And>s1 s2 x. R s1 s2 \<Longrightarrow> rel_sum (=) R (step s1 x) (step s2 x)" and "R s1 s2"
  shows "rel_sum (=) R (run_trials step s1 xs) (run_trials step s2 xs)"
  using assms(2)
proof (induction xs arbitrary: s1 s2)
  case Nil
  then show ?case by simp
next
  case (Cons x xs)
  have r: "rel_sum (=) R (step s1 x) (step s2 x)" using assms(1) Cons.prems by blast
  show ?case
  proof (cases "step s1 x")
    case (Inl e)
    then show ?thesis using r by (cases "step s2 x") simp_all
  next
    case (Inr t1)
    then obtain t2 where t2: "step s2 x = Inr t2" "R t1 t2"
      using r by (cases "step s2 x") simp_all
    then show ?thesis using Inr Cons.IH[OF t2(2)] by simp
  qed
qed

lemma costStep_zeroVsAbsent:
  assumes "zeroVsAbsent s1 s2"
    and "\<And>cp b. mildSteelCostPerLb cp = None \<Longrightarrow>
           totalOf (cp\<lparr> mildSteelCostPerLb := Some 0 \<rparr>) b = totalOf cp b
           \<and> designOf (cp\<lparr> mildSteelCostPerLb := Some 0 \<rparr>) b = designOf cp b"
  shows "rel_sum (=) zeroVsAbsent (costStep dflt thk totalOf designOf s1)
           (costStep dflt thk totalOf designOf s2)"
proof -
  let ?c2 = "sortCosts (costParams s2)"
  have c1: "sortCosts (costParams s1) = ?c2\<lparr> mildSteelCostPerLb := Some 0 \<rparr>"
    using assms(1) by (simp add: zeroVsAbsent_def sortCosts_def)
  have n2: "mildSteelCostPerLb ?c2 = None"
    using assms(1) by (simp add: zeroVsAbsent_def sortCosts_def)
  have tbl: "ptSlabCosts (sortCosts (costParams s1)) = ptSlabCosts ?c2" unfolding c1 by simp
  have eq: "totalOf (?c2\<lparr> mildSteelCostPerLb := Some 0 \<rparr>) b = totalOf ?c2 b"
       "designOf (?c2\<lparr> mildSteelCostPerLb := Some 0 \<rparr>) b = designOf ?c2 b" for b
    using assms(2)[OF n2] by simp_all
  have m: "minCost s1 = minCost s2" "bestDesign s1 = bestDesign s2"
    using assms(1) by (simp_all add: zeroVsAbsent_def)
  show ?thesis
  proof (cases "interpolateBaseCost dflt thk (ptSlabCosts ?c2)")
    case (Inl e)
    then show ?thesis by (simp add: costStep_def Let_def tbl)
  next
    case (Inr v)
    then show ?thesis
      by (cases v) (simp_all add: costStep_def Let_def tbl eq m zeroVsAbsent_def c1 n2)
  qed
qed

lemma fp_cost_zeroVsAbsent:
  assumes "mildSteelCostPerLb cp = None"
  shows "fp_totalCost tr W (cp\<lparr> mildSteelCostPerLb := Some 0 \<rparr>) b = fp_totalCost tr W cp b
     \<and> fp_design tr W (cp\<lparr> mildSteelCostPerLb := Some 0 \<rparr>) b = fp_design tr W cp b"
  using assms by (simp add: fp_totalCost_def fp_design_def fp_rebarCostPerSf_def js_or_def Let_def)

lemma ow_cost_zeroVsAbsent:
  assumes "mildSteelCostPerLb cp = None"
  shows "ow_totalCost c sp bp (cp\<lparr> mildSteelCostPerLb := Some 0 \<rparr>) b = ow_totalCost c sp bp cp b
     \<and> ow_design c sp bp (cp\<lparr> mildSteelCostPerLb := Some 0 \<rparr>) b = ow_design c sp bp cp b"
  using assms by (simp add: ow_totalCost_def ow_design_def ow_rebarCost_def js_or_def Let_def)

lemma tw_cost_zeroVsAbsent:
  assumes "mildSteelCostPerLb cp = None"
  shows "tw_totalCost c sp bp (cp\<lparr> mildSteelCostPerLb := Some 0 \<rparr>) b = tw_totalCost c sp bp cp b
     \<and> tw_design c sp bp (cp\<lparr> mildSteelCostPerLb := Some 0 \<rparr>) b = tw_design c sp bp cp b"
  using assms by (simp add: tw_totalCost_def tw_design_def tw_rebarCost_def js_or_def Let_def)

lemma rel_sum_refl_zeroVsAbsent: "zeroVsAbsent s1 s2 \<Longrightarrow> rel_sum (=) zeroVsAbsent (Inr s1) (Inr s2)"
  by simp

lemma fp_step_zeroVsAbsent:
  "zeroVsAbsent s1 s2 \<Longrightarrow> rel_sum (=) zeroVsAbsent (fp_step W s1 tr) (fp_step W s2 tr)"
  by (cases "fp_checks tr") (simp_all add: fp_step_def costStep_zeroVsAbsent fp_cost_zeroVsAbsent)

lemma ow_step_zeroVsAbsent:
  "zeroVsAbsent s1 s2 \<Longrightarrow> rel_sum (=) zeroVsAbsent (ow_step s1 c) (ow_step s2 c)"
  by (cases "ow_slabPrestress c"; cases "ow_beamPrestress c")
     (simp_all add: ow_step_def costStep_zeroVsAbsent ow_cost_zeroVsAbsent)

lemma tw_step_zeroVsAbsent:
  "zeroVsAbsent s1 s2 \<Longrightarrow> rel_sum (=) zeroVsAbsent (tw_step s1 c) (tw_step s2 c)"
  by (cases "tw_slabPrestress c"; cases "tw_beamPrestress c")
     (simp_all add: tw_step_def costStep_zeroVsAbsent tw_cost_zeroVsAbsent)

lemma initial_zeroVsAbsent:
  "zeroVsAbsent (initialState (cp\<lparr> mildSteelCostPerLb := Some 0 \<rparr>))
     (initialState (cp\<lparr> mildSteelCostPerLb := None \<rparr>))"
  by (simp add: zeroVsAbsent_def initialState_def)

lemma result_zeroVsAbsent:
  assumes "rel_sum (=) zeroVsAbsent r1 r2"
  shows "map_sum id fst (case r1 of Inl err \<Rightarrow> Inl err | Inr st \<Rightarrow> Inr (bestDesign st, costParams st))
       = map_sum id fst (case r2 of Inl err \<Rightarrow> Inl err | Inr st \<Rightarrow> Inr (bestDesign st, costParams st))"
  using assms by (cases r1; cases r2) (simp_all add: zeroVsAbsent_def)

subsection \<open>Costs are not negative\<close>

lemma nonnegCosts_sortCosts: "nonnegCosts cp \<Longrightarrow> nonnegCosts (sortCosts cp)"
  by (simp add: nonnegCosts_def sortCosts_def list_all_iff)

lemma js_or_nonneg: "nonnegCosts cp \<Longrightarrow> 0 \<le> js_or (mildSteelCostPerLb cp) 1.20"
  by (auto simp: nonnegCosts_def js_or_def split: option.splits)

lemma getConcreteBaseCost_ge: "220 \<le> getConcreteBaseCost fc"
  by (simp add: getConcreteBaseCost_def Let_def)

lemma adjustSlabCost_nonneg:
  assumes "0 \<le> b" and "0 \<le> thk"
  shows "0 \<le> adjustSlabCostForStrength b thk fc"
proof -
  have "getConcreteBaseCost 5000 = 220" by (simp add: getConcreteBaseCost_def)
  then have "0 \<le> getConcreteBaseCost fc - getConcreteBaseCost 5000"
    using getConcreteBaseCost_ge[of fc] by simp
  then have "0 \<le> (thk / 12 / 27) * (getConcreteBaseCost fc - getConcreteBaseCost 5000)"
    using assms(2) by (intro mult_nonneg_nonneg) simp_all
  then show ?thesis using assms(1) by (simp add: adjustSlabCostForStrength_def Let_def)
qed

lemma segment_nonneg:
  fixes c1 c2 t1 t2 x :: real
  assumes "0 \<le> c1" "0 \<le> c2" "t1 \<le> x" "x \<le> t2" "t2 - t1 \<noteq> 0"
  shows "0 \<le> c1 + (c2 - c1) * (x - t1) / (t2 - t1)"
proof -
  have lt: "0 < t2 - t1" using assms(3,4,5) by simp
  define l where "l = (x - t1) / (t2 - t1)"
  have l: "0 \<le> l" "l \<le> 1" using assms(3,4) lt by (simp_all add: l_def)
  have "(c2 - c1) * (x - t1) / (t2 - t1) = (c2 - c1) * l" by (simp add: l_def)
  then have "c1 + (c2 - c1) * (x - t1) / (t2 - t1) = c1 * (1 - l) + c2 * l"
    by (simp only: algebra_simps)
  also have "0 \<le> c1 * (1 - l) + c2 * l"
    using assms(1,2) l by (intro add_nonneg_nonneg mult_nonneg_nonneg) simp_all
  finally show ?thesis by simp
qed

lemma bracketCost_nonneg:
  "list_all (\<lambda>p. 0 \<le> costPerSf p) tbl \<Longrightarrow> bracketCost x tbl = Some (Num b) \<Longrightarrow> 0 \<le> b"
proof (induction x tbl rule: bracketCost.induct)
  case (1 x p q rest)
  show ?case
  proof (cases "x \<ge> thickness p \<and> x \<le> thickness q")
    case True
    then have "thickness q - thickness p \<noteq> 0"
      and "b = costPerSf p + (costPerSf q - costPerSf p) * (x - thickness p) / (thickness q - thickness p)"
      using "1.prems"(2) by (auto simp: Let_def split: if_splits)
    then show ?thesis using True "1.prems"(1) by (simp add: segment_nonneg)
  next
    case False
    then have "bracketCost x (q # rest) = Some (Num b)" using "1.prems"(2) by auto
    moreover have "list_all (\<lambda>p. 0 \<le> costPerSf p) (q # rest)" using "1.prems"(1) by simp
    ultimately show ?thesis using "1.IH" False by blast
  qed
qed simp_all

lemma interpolate_nonneg:
  assumes "list_all (\<lambda>p. 0 \<le> costPerSf p) tbl" and "0 \<le> dflt"
    and "interpolateBaseCost dflt x tbl = Inr (Num b)"
  shows "0 \<le> b"
proof (cases tbl)
  case Nil
  then show ?thesis using assms(3) by (simp add: interpolateBaseCost_def)
next
  case (Cons p rest)
  have l: "0 \<le> costPerSf (last tbl)" "0 \<le> costPerSf p"
    using assms(1) Cons by (auto simp: list_all_iff)
  show ?thesis
  proof (cases "bracketCost x tbl")
    case None
    then show ?thesis using assms(2,3) l Cons
      by (auto simp: interpolateBaseCost_def Let_def split: if_splits)
  next
    case (Some v)
    then have "v = Num b \<Longrightarrow> 0 \<le> b" using bracketCost_nonneg[OF assms(1)] by simp
    then show ?thesis using assms(3) l Cons Some
      by (auto simp: interpolateBaseCost_def Let_def split: if_splits)
  qed
qed

lemma governing_nonneg:
  assumes "0 \<le> thk"
  shows "0 \<le> governing (calculateTotalMildSteel thk spn fc fy s Mcr d)"
proof -
  have "0 \<le> 0.0018 * thk * 12" using assms by simp
  then show ?thesis using governing_ge_temp[of thk spn fc fy s Mcr d] by (rule order_trans)
qed

lemma strands_nonneg: "0 \<le> force \<Longrightarrow> 0 \<le> real_of_int \<lceil>force / beam_forcePerStrand\<rceil>"
proof -
  assume "0 \<le> force"
  moreover have "0 < beam_forcePerStrand" by (simp add: beam_forcePerStrand_def Let_def)
  ultimately have "0 \<le> force / beam_forcePerStrand" by simp
  then have "0 \<le> \<lceil>force / beam_forcePerStrand\<rceil>" by (simp add: ceiling_le_iff[symmetric])
  then show ?thesis by simp
qed

lemma lossRatio_pos: "0 < lossRatio fc"
  by (simp add: lossRatio_def)

lemma fp_totalCost_nonneg:
  assumes grid: "tr \<in> set (fp_grid L)" and L: "0 \<le> L" and W: "0 \<le> W"
    and cp: "nonnegCosts cp" and b: "0 \<le> b"
  shows "0 \<le> fp_totalCost tr W cp b"
proof -
  note f = fp_grid_facts[OF grid]
  have area: "0 \<le> tr_bayLength tr * W" using f(1) L W by simp
  have slab: "0 \<le> adjustSlabCostForStrength b (tr_thickness tr) (tr_fc tr)"
    using b f(3) by (intro adjustSlabCost_nonneg) simp_all
  have "0 \<le> tr_thickness tr * (tr_bayLength tr * tr_bayLength tr)"
    using f(3) by (intro mult_nonneg_nonneg zero_le_square) simp
  then have Md: "0 \<le> fp_Md tr" by (simp add: fp_Md_def loads_dead_def mult_ac)
  have e: "0 < fp_e tr" using f(7,9) by (simp add: fp_e_def)
  have Pe: "0 \<le> fp_Pe tr"
    using Md e f(5) by (simp add: fp_Pe_def fp_P_balance_def fp_M_balance_def)
  have fpe: "0 < fp_fpe tr" using lossRatio_pos[of "tr_fc tr"] by (simp add: fp_fpe_def)
  have "0 \<le> fp_Pe tr * W / (fp_fpe tr * 0.153)" using Pe W fpe by simp
  then have "0 \<le> \<lceil>fp_Pe tr * W / (fp_fpe tr * 0.153)\<rceil>" by (simp add: ceiling_le_iff[symmetric])
  then have n: "0 \<le> real_of_int (fp_numStrands tr W)" by (simp add: fp_numStrands_def Let_def)
  have sw: "0 \<le> fp_strandWeight tr W"
    unfolding fp_strandWeight_def Let_def using n by (intro mult_nonneg_nonneg) simp_all
  have "0 \<le> governing (fp_steel tr)"
    unfolding fp_steel_def Let_def using f(3) by (intro governing_nonneg) simp
  then have "0 \<le> fp_rebarWeightPerSf tr" by (simp add: fp_rebarWeightPerSf_def Let_def)
  then have rc: "0 \<le> fp_rebarCostPerSf tr cp"
    using js_or_nonneg[OF cp] by (simp add: fp_rebarCostPerSf_def)
  have c: "0 \<le> ptFormworkCostPerSf cp" "0 \<le> ptStrandCostPerLb cp"
    using cp by (simp_all add: nonnegCosts_def)
  have "0 \<le> tr_bayLength tr * W * adjustSlabCostForStrength b (tr_thickness tr) (tr_fc tr)"
       "0 \<le> tr_bayLength tr * W * ptFormworkCostPerSf cp"
       "0 \<le> fp_strandWeight tr W * ptStrandCostPerLb cp"
       "0 \<le> tr_bayLength tr * W * fp_rebarCostPerSf tr cp"
    using area slab sw rc c by (simp_all only: mult_nonneg_nonneg)
  then show ?thesis unfolding fp_totalCost_def Let_def by linarith
qed

lemma cover_le: "getCoverRequirement fc \<le> 2"
  by (simp add: getCoverRequirement_def)

lemma slabProps_A: "sec_A (bc_slabProps c) = bc_slabThickness c * 12"
  by (simp add: bc_slabProps_def getSectionProperties_def Let_def)

lemma slab_found_Pe_nonneg:
  assumes "first_some (slab_try c Md Ms) ps = Some sp" and "0 \<le> bc_slabThickness c"
  shows "0 \<le> sp_Pe sp"
proof -
  obtain p where "slab_try c Md Ms p = Some sp" using first_some_member[OF assms(1)] by blast
  then have a: "\<not> sp_Pe sp / sec_A (bc_slabProps c) < 175" by (rule slab_try_Some(3))
  show ?thesis
  proof (rule ccontr)
    assume "\<not> 0 \<le> sp_Pe sp"
    then have "sp_Pe sp / (bc_slabThickness c * 12) \<le> 0"
      using assms(2) by (simp add: divide_nonpos_nonneg)
    then show False using a by (simp add: slabProps_A)
  qed
qed

lemma beam_found_Pe_nonneg:
  assumes "first_some (beam_try c Md Ms) (ratioPairs b0 b1 bd e0 e1 ed) = Some bp"
    and "0 \<le> b0" and "0 \<le> e0" and "0 \<le> Md" and "0 \<le> bc_emax_beam c"
  shows "0 \<le> bp_Pe bp"
proof -
  obtain p where p: "p \<in> set (ratioPairs b0 b1 bd e0 e1 ed)" "beam_try c Md Ms p = Some bp"
    using first_some_member[OF assms(1)] by blast
  have "0 \<le> fst p" "0 \<le> snd p" using ratioPairs_bounds[OF p(1)] assms(2,3) by simp_all
  then have "0 \<le> fst p * Md / (snd p * bc_emax_beam c)"
    using assms(4,5) by (intro divide_nonneg_nonneg mult_nonneg_nonneg)
  then show ?thesis using beam_try_Some(1)[OF p(2)] by simp
qed

lemma emax_beam_pos:
  assumes "12 \<le> bc_beamDepth c" and "3 \<le> bc_slabThickness c"
  shows "0 \<le> bc_emax_beam c"
proof -
  have "bc_emax_beam c
      = bc_beamDepth c / 2 + bc_slabThickness c / 2 - getCoverRequirement (bc_fc c) - 1.5"
    by (simp add: bc_emax_beam_def bc_totalDepth_def Let_def add_divide_distrib)
  then show ?thesis using assms cover_le[of "bc_fc c"] by linarith
qed

lemma beamWeight_nonneg:
  assumes "12 \<le> bc_beamDepth c" and "3 \<le> bc_slabThickness c" and "12 \<le> bc_beamWidth c"
  shows "0 \<le> bc_beamWeight c" "0 \<le> bc_beamA c" "0 \<le> bc_beamWidth c * bc_totalDepth c"
proof -
  show p: "0 \<le> bc_beamWidth c * bc_totalDepth c"
    using assms by (intro mult_nonneg_nonneg) (simp_all add: bc_totalDepth_def)
  then show "0 \<le> bc_beamWeight c" "0 \<le> bc_beamA c"
    by (simp_all add: bc_beamWeight_def bc_beamA_def mult_ac)
qed

lemma moment_nonneg:
  fixes w l :: real
  assumes "0 \<le> w"
  shows "0 \<le> w * l * l * 12 / 10"
proof -
  have "0 \<le> w * (l * l)" using assms by (intro mult_nonneg_nonneg zero_le_square)
  then show ?thesis by (simp add: mult_ac)
qed

lemma ow_totalCost_nonneg:
  assumes grid: "c \<in> set (ow_grid L W)" and L: "0 \<le> L" and W: "2 < W"
    and sp: "ow_slabPrestress c = Some sp" and bp: "ow_beamPrestress c = Some bp"
    and cp: "nonnegCosts cp" and b: "0 \<le> b"
  shows "0 \<le> ow_totalCost c sp bp cp b"
proof -
  note f = ow_grid_facts[OF grid]
  have thk: "0 \<le> bc_slabThickness c" "3 \<le> bc_slabThickness c" using f(7) by simp_all
  have cs: "0 < ow_clearSpan c" using f(2,6) W by (simp add: ow_clearSpan_def)
  have area: "0 \<le> ow_slabArea c" using f(1,2) L W by (simp add: ow_slabArea_def)
  have bwd: "0 \<le> bc_beamWidth c * bc_totalDepth c" and bA: "0 \<le> bc_beamA c"
    and bwt: "0 \<le> bc_beamWeight c"
    using beamWeight_nonneg[OF f(4) thk(2) f(5)] by simp_all
  have "0 \<le> bc_bayLength c" using f(1) L by simp
  then have "0 \<le> bc_bayLength c * (bc_beamWidth c * bc_totalDepth c)"
    using bwd by (rule mult_nonneg_nonneg)
  then have vol: "0 \<le> ow_beamVolume c" by (simp add: ow_beamVolume_def mult_ac)
  have slab: "0 \<le> adjustSlabCostForStrength b (bc_slabThickness c) (bc_fc c)"
    using b thk(1) by (rule adjustSlabCost_nonneg)
  have Pes: "0 \<le> sp_Pe sp"
    using sp thk(1) unfolding ow_slabPrestress_def by (rule slab_found_Pe_nonneg)
  have "0 \<le> loads_dead (bc_slabThickness c) * bc_bayWidth c + bc_beamWeight c"
    using thk(1) f(2) W bwt by (simp add: loads_dead_def)
  then have Mdb: "0 \<le> ow_Md_beam c"
    unfolding ow_Md_beam_def Let_def by (rule moment_nonneg)
  have Peb: "0 \<le> bp_Pe bp"
    using bp Mdb emax_beam_pos[OF f(4) thk(2)] unfolding ow_beamPrestress_def
    by (intro beam_found_Pe_nonneg[where ?b0.0 = "0.7" and ?e0.0 = "0.7"]) simp_all
  have s1: "0 \<le> real_of_int \<lceil>sp_Pe sp * bc_bayLength c / beam_forcePerStrand\<rceil>"
    using Pes f(1) L by (intro strands_nonneg mult_nonneg_nonneg) simp_all
  have s2: "0 \<le> real_of_int \<lceil>bp_Pe bp / beam_forcePerStrand\<rceil>"
    using Peb by (rule strands_nonneg)
  have ratio: "0 \<le> bc_bayLength c / ow_clearSpan c" using f(1) L cs by simp
  have w1: "0 \<le> real_of_int \<lceil>sp_Pe sp * bc_bayLength c / beam_forcePerStrand\<rceil> * 0.52
        * (sqrt (ow_clearSpan c * ow_clearSpan c + (2 * sp_e sp / 12) ^ 2) * 1.02)
        * (bc_bayLength c / ow_clearSpan c)"
    using s1 ratio by (intro mult_nonneg_nonneg) simp_all
  have w2: "0 \<le> real_of_int \<lceil>bp_Pe bp / beam_forcePerStrand\<rceil> * 0.52
        * (sqrt (bc_bayLength c * bc_bayLength c + (2 * bp_e bp / 12) ^ 2) * 1.02)"
    using s2 by (intro mult_nonneg_nonneg) simp_all
  have sw: "0 \<le> ow_totalStrandWeight c sp bp"
    unfolding ow_totalStrandWeight_def Let_def using w1 w2 by simp
  have gov: "0 \<le> governing (ow_slabSteel c sp)"
    unfolding ow_slabSteel_def Let_def using thk(1) by (rule governing_nonneg)
  have r1: "0 \<le> governing (ow_slabSteel c sp) * 0.668 / 0.20 * ow_slabArea c"
    using gov area by (intro mult_nonneg_nonneg) simp_all
  have r2: "0 \<le> 0.0018 * bc_beamA c / 144 * 490 * ow_beamVolume c"
    using bA vol by (intro mult_nonneg_nonneg) simp_all
  have rw: "0 \<le> ow_totalRebarWeight c sp"
    unfolding ow_totalRebarWeight_def Let_def using r1 r2 by simp
  have rc: "0 \<le> ow_rebarCost c sp cp"
    unfolding ow_rebarCost_def using rw js_or_nonneg[OF cp] by (rule mult_nonneg_nonneg)
  have k: "0 \<le> ptFormworkCostPerSf cp" "0 \<le> ptStrandCostPerLb cp"
    "0 \<le> beamFormingCostPerCf cp" "0 \<le> beamPouringCostPerCf cp"
    using cp by (simp_all add: nonnegCosts_def)
  have "0 \<le> ow_slabArea c * adjustSlabCostForStrength b (bc_slabThickness c) (bc_fc c)"
       "0 \<le> ow_slabArea c * ptFormworkCostPerSf cp"
       "0 \<le> ow_beamVolume c * beamFormingCostPerCf cp"
       "0 \<le> ow_beamVolume c * beamPouringCostPerCf cp"
       "0 \<le> ow_totalStrandWeight c sp bp * ptStrandCostPerLb cp"
    using area slab vol sw k by (simp_all only: mult_nonneg_nonneg)
  then show ?thesis unfolding ow_totalCost_def Let_def using rc by linarith
qed

lemma tw_totalCost_nonneg:
  assumes grid: "c \<in> set (tw_grid L W)" and L: "2 < L" and W: "2 < W"
    and sp: "tw_slabPrestress c = Some sp" and bp: "tw_beamPrestress c = Some bp"
    and cp: "nonnegCosts cp" and b: "0 \<le> b"
  shows "0 \<le> tw_totalCost c sp bp cp b"
proof -
  note f = tw_grid_facts[OF grid]
  have thk: "0 \<le> bc_slabThickness c" using f(8) by simp
  have cL: "0 \<le> tw_clearSpanL c" and cW: "0 \<le> tw_clearSpanW c"
    using f(1,2,7) L W by (simp_all add: tw_clearSpanL_def tw_clearSpanW_def)
  have sh: "0 \<le> tw_shortSpan c" and lg: "0 \<le> tw_longSpan c"
    using cL cW by (simp_all add: tw_shortSpan_def tw_longSpan_def)
  have bl: "0 \<le> bc_bayLength c" and bw': "0 \<le> bc_bayWidth c" using f(1,2) L W by simp_all
  have area: "0 \<le> tw_slabArea c" using bl bw' by (simp add: tw_slabArea_def)
  have bwd: "0 \<le> bc_beamWidth c * bc_totalDepth c" and bA: "0 \<le> bc_beamA c"
    and bwt: "0 \<le> bc_beamWeight c"
    using beamWeight_nonneg[OF f(4) f(8) f(6)] by simp_all
  have "0 \<le> bc_bayLength c * (bc_beamWidth c * bc_totalDepth c)"
       "0 \<le> bc_bayWidth c * (bc_beamWidth c * bc_totalDepth c)"
    using bl bw' bwd by (simp_all only: mult_nonneg_nonneg)
  then have vol: "0 \<le> tw_totalBeamVolume c"
    by (simp add: tw_totalBeamVolume_def Let_def mult_ac)
  have slab: "0 \<le> adjustSlabCostForStrength b (bc_slabThickness c) (bc_fc c)"
    using b thk by (rule adjustSlabCost_nonneg)
  have Pes: "0 \<le> sp_Pe sp"
    using sp thk unfolding tw_slabPrestress_def by (rule slab_found_Pe_nonneg)
  have "0 \<le> loads_dead (bc_slabThickness c) * tw_clearSpanW c / 2 + bc_beamWeight c"
    using thk cW bwt by (simp add: loads_dead_def)
  then have MdL: "0 \<le> tw_Md_beamL c" unfolding tw_Md_beamL_def Let_def by (rule moment_nonneg)
  have "0 \<le> loads_dead (bc_slabThickness c) * tw_clearSpanL c / 2 + bc_beamWeight c"
    using thk cL bwt by (simp add: loads_dead_def)
  then have MdW: "0 \<le> tw_Md_beamW c" unfolding tw_Md_beamW_def Let_def by (rule moment_nonneg)
  have Mdb: "0 \<le> tw_Md_beam c" using MdL MdW by (simp add: tw_Md_beam_def)
  have Peb: "0 \<le> bp_Pe bp"
    using bp Mdb emax_beam_pos[OF f(4) f(8)] unfolding tw_beamPrestress_def
    by (intro beam_found_Pe_nonneg[where ?b0.0 = "0.8" and ?e0.0 = "0.7"]) simp_all
  have q1: "0 \<le> real_of_int \<lceil>sp_Pe sp * tw_longSpan c / beam_forcePerStrand\<rceil>"
    using Pes lg by (intro strands_nonneg mult_nonneg_nonneg)
  have q2: "0 \<le> real_of_int \<lceil>sp_Pe sp * tw_shortSpan c * 0.8 / beam_forcePerStrand\<rceil>"
    using Pes sh by (intro strands_nonneg mult_nonneg_nonneg) simp_all
  have q3: "0 \<le> real_of_int \<lceil>(if tw_Mt_beamL c > tw_Mt_beamW c then bp_Pe bp else bp_Pe bp * 0.8)
        / beam_forcePerStrand\<rceil>"
    using Peb by (intro strands_nonneg) simp
  have q4: "0 \<le> real_of_int \<lceil>(if tw_Mt_beamW c > tw_Mt_beamL c then bp_Pe bp else bp_Pe bp * 0.8)
        / beam_forcePerStrand\<rceil>"
    using Peb by (intro strands_nonneg) simp
  have w1: "0 \<le> real_of_int \<lceil>sp_Pe sp * tw_longSpan c / beam_forcePerStrand\<rceil>
        * 0.52 * tw_shortSpan c * 1.02"
    using q1 sh by (intro mult_nonneg_nonneg) simp_all
  have w2: "0 \<le> real_of_int \<lceil>sp_Pe sp * tw_shortSpan c * 0.8 / beam_forcePerStrand\<rceil>
        * 0.52 * tw_longSpan c * 1.02"
    using q2 lg by (intro mult_nonneg_nonneg) simp_all
  have w3: "0 \<le> real_of_int \<lceil>(if tw_Mt_beamL c > tw_Mt_beamW c then bp_Pe bp else bp_Pe bp * 0.8)
        / beam_forcePerStrand\<rceil> * 0.52 * bc_bayLength c * 1.02"
    using q3 bl by (intro mult_nonneg_nonneg) simp_all
  have w4: "0 \<le> real_of_int \<lceil>(if tw_Mt_beamW c > tw_Mt_beamL c then bp_Pe bp else bp_Pe bp * 0.8)
        / beam_forcePerStrand\<rceil> * 0.52 * bc_bayWidth c * 1.02"
    using q4 bw' by (intro mult_nonneg_nonneg) simp_all
  have sw: "0 \<le> tw_totalStrandWeight c sp bp"
    unfolding tw_totalStrandWeight_def Let_def using w1 w2 w3 w4 by linarith
  have gov: "0 \<le> governing (tw_slabSteel c sp)"
    unfolding tw_slabSteel_def Let_def using thk by (rule governing_nonneg)
  have r1: "0 \<le> governing (tw_slabSteel c sp) * 0.668 / 0.20 * tw_slabArea c * 1.2"
    using gov area by (intro mult_nonneg_nonneg) simp_all
  have r2: "0 \<le> 0.0020 * bc_beamA c / 144 * 490 * tw_totalBeamVolume c"
    using bA vol by (intro mult_nonneg_nonneg) simp_all
  have rw: "0 \<le> tw_totalRebarWeight c sp"
    unfolding tw_totalRebarWeight_def Let_def using r1 r2 by simp
  have rc: "0 \<le> tw_rebarCost c sp cp"
    unfolding tw_rebarCost_def using rw js_or_nonneg[OF cp] by (rule mult_nonneg_nonneg)
  have k: "0 \<le> ptFormworkCostPerSf cp" "0 \<le> ptStrandCostPerLb cp"
    "0 \<le> beamFormingCostPerCf cp" "0 \<le> beamPouringCostPerCf cp"
    using cp by (simp_all add: nonnegCosts_def)
  have "0 \<le> tw_slabArea c * adjustSlabCostForStrength b (bc_slabThickness c) (bc_fc c)"
       "0 \<le> tw_slabArea c * ptFormworkCostPerSf cp"
       "0 \<le> tw_totalBeamVolume c * beamFormingCostPerCf cp"
       "0 \<le> tw_totalBeamVolume c * beamPouringCostPerCf cp"
       "0 \<le> tw_totalStrandWeight c sp bp * ptStrandCostPerLb cp"
    using area slab vol sw k by (simp_all only: mult_nonneg_nonneg)
  then show ?thesis unfolding tw_totalCost_def Let_def using rc by linarith
qed

lemma fp_result_nonneg:
  assumes "optimizeFlatPlate L W cp = Inr (Some d, cp')" and "nonnegCosts cp"
    and "0 \<le> L" and "0 \<le> W"
  shows "0 \<le> totalCost d"
proof -
  obtain tr b where t: "tr \<in> set (fp_grid L)"
      "interpolateBaseCost 20 (tr_thickness tr) (ptSlabCosts (sortCosts cp)) = Inr (Num b)"
      "d = fp_design tr W (sortCosts cp) b"
    using optimizeFlatPlate_produced[OF assms(1)] unfolding fp_produced_def by blast
  have n: "nonnegCosts (sortCosts cp)" using assms(2) by (rule nonnegCosts_sortCosts)
  then have "0 \<le> b"
    using interpolate_nonneg[OF _ _ t(2)] by (simp add: nonnegCosts_def)
  then have "0 \<le> fp_totalCost tr W (sortCosts cp) b"
    using t(1) assms(3,4) n by (intro fp_totalCost_nonneg)
  then show ?thesis by (simp add: t(3) fp_design_def Let_def)
qed

lemma ow_result_nonneg:
  assumes "optimizeOneWayBeam L W cp = Inr (Some d, cp')" and "nonnegCosts cp"
    and "0 \<le> L" and "2 < W"
  shows "0 \<le> totalCost d"
proof -
  obtain c sp bp b where t: "c \<in> set (ow_grid L W)"
      "ow_slabPrestress c = Some sp" "ow_beamPrestress c = Some bp"
      "interpolateBaseCost 15 (bc_slabThickness c) (ptSlabCosts (sortCosts cp)) = Inr (Num b)"
      "d = ow_design c sp bp (sortCosts cp) b"
    using optimizeOneWayBeam_produced[OF assms(1)] unfolding ow_produced_def by blast
  have n: "nonnegCosts (sortCosts cp)" using assms(2) by (rule nonnegCosts_sortCosts)
  then have "0 \<le> b"
    using interpolate_nonneg[OF _ _ t(4)] by (simp add: nonnegCosts_def)
  then have "0 \<le> ow_totalCost c sp bp (sortCosts cp) b"
    using t(1,2,3) assms(3,4) n by (intro ow_totalCost_nonneg)
  then show ?thesis by (simp add: t(5) ow_design_def Let_def)
qed

lemma tw_result_nonneg:
  assumes "optimizeTwoWayBeam L W cp = Inr (Some d, cp')" and "nonnegCosts cp"
    and "2 < L" and "2 < W"
  shows "0 \<le> totalCost d"
proof -
  obtain c sp bp b where t: "c \<in> set (tw_grid L W)"
      "tw_slabPrestress c = Some sp" "tw_beamPrestress c = Some bp"
      "interpolateBaseCost 12 (bc_slabThickness c) (ptSlabCosts (sortCosts cp)) = Inr (Num b)"
      "d = tw_design c sp bp (sortCosts cp) b"
    using optimizeTwoWayBeam_produced[OF assms(1)] unfolding tw_produced_def by blast
  have n: "nonnegCosts (sortCosts cp)" using assms(2) by (rule nonnegCosts_sortCosts)
  then have "0 \<le> b"
    using interpolate_nonneg[OF _ _ t(4)] by (simp add: nonnegCosts_def)
  then have "0 \<le> tw_totalCost c sp bp (sortCosts cp) b"
    using t(1,2,3) assms(3,4) n by (intro tw_totalCost_nonneg)
  then show ?thesis by (simp add: t(5) tw_design_def Let_def)
qed

subsection \<open>A feasible flat plate at the first reference span\<close>

lemma props18: "fp_props tr18 = \<lparr> sec_A = 102, sec_I = 614.125, sec_St = 144.5, sec_Sb = 144.5, sec_r2 = 614.125 / 102 \<rparr>"
  by (simp add: fp_props_def tr18_def getSectionProperties_def Let_def power3_eq_cube)

lemma vals18: "fp_Md tr18 = 41310" "fp_Ml tr18 = 15552" "fp_e tr18 = 1.5" "fp_Pe tr18 = 17901" "fp_Pi tr18 = 22376.25"
  by (simp_all add: fp_Md_def fp_Ml_def fp_e_def fp_emax_def fp_Pe_def fp_Pi_def fp_P_balance_def fp_M_balance_def
     tr18_def loads_dead_def loads_live_def getCoverRequirement_def lossRatio_def Let_def)

lemma stress18: "fp_fti_top tr18 = - 37125 / 136" "fp_fti_bot tr18 = - 22545 / 136" "fp_fs_top tr18 = - 889677 / 2890" "fp_fs_bot tr18 = - 124713 / 2890"
  by (simp_all add: fp_fti_top_def fp_fti_bot_def fp_fs_top_def fp_fs_bot_def fp_Mt_service_def props18 vals18 search_top_def search_bot_def)

lemma limits18: "fp_limits tr18 = \<lparr> fci_comp = 2100, fci_tens = 3 * sqrt 3500, fc_comp_sust = 2250,
       fc_comp_total = 3000, fc_tens = 6 * sqrt 5000 \<rparr>"
  by (simp add: fp_limits_def fp_fci_def getStressLimits_def tr18_def)

lemma transfer18: "fp_transfer_check tr18 = None"
  by (simp add: fp_transfer_check_def stress18 limits18 not_less neg_le_mult_sqrt)

lemma service18: "fp_service_check tr18 = None"
  by (simp add: fp_service_check_def stress18 limits18 not_less neg_le_mult_sqrt)

lemma prestress18: "fp_avgPrestress tr18 = 175.5" "fp_prestress_check tr18 = None"
  by (simp_all add: fp_prestress_check_def fp_avgPrestress_def props18 vals18)

lemma mom18a: "fp_d tr18 = 7" "fp_fpe tr18 = 159840" "fp_beta1 tr18 = 4 / 5" "fp_Mt tr18 = 56862"
  by (simp_all add: fp_d_def fp_fpe_def fp_beta1_def lossRatio_def fp_Mt_def vals18) (simp_all add: tr18_def)

lemma mom18b: "fp_Aps tr18 = 663 / 5920"
  by (simp add: fp_Aps_def mom18a vals18)

lemma mom18c: "fp_fps tr18 = 199840"
  by (simp add: fp_fps_def calculateTendonStress_def Let_def mom18a mom18b) (simp add: tr18_def)

lemma mom18d: "fp_a tr18 = 16237 / 37000"
  by (simp add: fp_a_def mom18b mom18c) (simp add: tr18_def)

lemma mom18e: "fp_epsilon_t tr18 = 572889 / 16237000" "fp_Mn tr18 = 415503417381 / 2738000"
  by (simp_all add: fp_epsilon_t_def fp_c_def fp_Mn_def mom18a mom18b mom18c mom18d)

lemma moment18: "fp_phi tr18 = Some 0.9" "fp_moment_check tr18 = None"
  by (simp_all add: fp_moment_check_def fp_phi_def mom18a mom18e)

lemma defl18a: "fp_Ec tr18 = 57000 * sqrt 5000" "fp_M_service tr18 = 15552" "fp_Mcr tr18 = 1083.75 * sqrt 5000"
  by (simp_all add: fp_Ec_def getConcreteModulus_def fp_M_service_def loads_live_def fp_Mcr_def props18 Let_def)
     (simp_all add: tr18_def)

lemma defl18b: "fp_Ie tr18 = 614.125"
  using sqrt5000 by (simp add: fp_Ie_def defl18a props18)

lemma defl18c: "fp_delta_L tr18 = 435356467.2 / (13441968 * sqrt 5000)"
  by (simp add: fp_delta_L_def defl18a defl18b loads_live_def Let_def) (simp add: tr18_def)

lemma defl18d: "fp_camber tr18 = 1252783584 / (280041 * sqrt 5000)"
  by (simp add: fp_camber_def defl18a defl18b vals18) (simp add: tr18_def)

lemma delta18_bounds: "0 < fp_delta_L tr18" "fp_delta_L tr18 < 0.49"
proof -
  have s: "70 < sqrt 5000" by (rule sqrt5000)
  show "0 < fp_delta_L tr18" using s by (simp add: defl18c)
  have "435356467.2 < 0.49 * (13441968 * sqrt 5000)" using s by simp
  then show "fp_delta_L tr18 < 0.49" using s by (simp add: defl18c pos_divide_less_eq)
qed

lemma camber18_bound: "60 < fp_camber tr18"
proof -
  have s: "0 < sqrt 5000" "sqrt 5000 < 71" using sqrt5000 by simp_all
  have "60 * (280041 * sqrt 5000) < 1252783584" using s by simp
  then show ?thesis using s by (simp add: defl18d pos_less_divide_eq)
qed

lemma deflection18: "fp_deflection_check tr18 = None"
proof -
  have "tr_bayLength tr18 * 12 / 480 = 0.45" by (simp add: tr18_def)
  moreover have "fp_delta_L tr18 - 0.8 * fp_camber tr18 \<le> 0.45"
    using delta18_bounds camber18_bound by simp
  ultimately show ?thesis by (simp add: fp_deflection_check_def Let_def)
qed

lemma vibration18: "fp_vibration_check tr18 = None"
  using frequency_ok[of "fp_delta_L tr18"] delta18_bounds by (simp add: fp_vibration_check_def)

lemma punch18a: "fp_bo tr18 = 46" by (simp add: fp_bo_def mom18a)

lemma lambda18: "min (sqrt (2 / (1 + 0.004 * (7::real)))) 1.0 = 1"
proof -
  have "1\<^sup>2 \<le> (2 / (1 + 0.004 * (7::real)))" by simp
  then have "1 \<le> sqrt (2 / (1 + 0.004 * (7::real)))" by (rule real_le_rsqrt)
  then show ?thesis by simp
qed

lemma punch18b: "fp_vcNominal tr18 = 4 * sqrt 5000 + 52.65"
proof -
  have s: "0 < sqrt 5000" using sqrt5000 by simp
  have fc: "tr_fc tr18 = 5000" by (simp add: tr18_def)
  show ?thesis
    unfolding fp_vcNominal_def Let_def mom18a punch18a prestress18 fc lambda18
    using s by (simp add: min_def)
qed

lemma punching18: "fp_punching_check tr18 = None"
proof -
  have s: "0 < sqrt 5000" using sqrt5000 by simp
  have "(0::real) \<le> 3 * sqrt 5000" by simp
  then have "3000 / (46 * 7) \<le> 3 * sqrt 5000 + 3159 / 80" by linarith
  also have "3 * sqrt 5000 + 3159 / 80 = 0.75 * (4 * sqrt 5000 + 52.65)" by (simp add: algebra_simps)
  finally have "\<not> 3000 / (46 * 7) > 0.75 * (4 * sqrt 5000 + 52.65)" by (simp only: not_less)
  then show ?thesis
    unfolding fp_punching_check_def Let_def mom18a punch18a prestress18 punch18b
    by simp
qed

lemma checks18: "fp_checks tr18 = None"
  by (simp add: fp_checks_def transfer18 service18 prestress18 moment18 deflection18 vibration18 punching18)

lemma minThickness18: "fp_minThickness 18 = 5"
proof -
  have "\<lceil>(18 * 12 / 50 :: real)\<rceil> = 5" by (simp add: ceiling_eq_iff)
  then show ?thesis by (simp add: fp_minThickness_def)
qed

lemma thickness18: "(8.5::real) \<in> set (frange 5 16 0.5)"
proof -
  have "(8.5::real) \<in> set (frange 8.5 16 0.5)" by (rule frange_head) simp_all
  then have "(8.5::real) \<in> set (frange 8 16 0.5)" using frange_step[of "0.5" 8 16 "8.5"] by simp
  then have "(8.5::real) \<in> set (frange 7.5 16 0.5)" using frange_step[of "0.5" "7.5" 16 "8.5"] by simp
  then have "(8.5::real) \<in> set (frange 7 16 0.5)" using frange_step[of "0.5" 7 16 "8.5"] by simp
  then have "(8.5::real) \<in> set (frange 6.5 16 0.5)" using frange_step[of "0.5" "6.5" 16 "8.5"] by simp
  then have "(8.5::real) \<in> set (frange 6 16 0.5)" using frange_step[of "0.5" 6 16 "8.5"] by simp
  then have "(8.5::real) \<in> set (frange 5.5 16 0.5)" using frange_step[of "0.5" "5.5" 16 "8.5"] by simp
  then show ?thesis using frange_step[of "0.5" 5 16 "8.5"] by simp
qed

lemma ratio18: "(0.65::real) \<in> set (frange 0.6 1.1 0.05)"
  using frange_step[of "0.05" "0.6" "1.1" "0.65"] frange_head[of "0.05" "0.65" "1.1"] by simp

lemma tr18_in_grid: "tr18 \<in> set (fp_grid 18)"
proof -
  have "\<lparr> tr_bayLength = 18, tr_fc = 5000, tr_thickness = 8.5, tr_balanceRatio = 0.65,
           tr_eRatio = 0.6 \<rparr> \<in> set (fp_grid 18)"
    using thickness18 ratio18
    by (intro fp_grid_member)
      (simp_all add: minThickness18 concreteStrengths_def strengthSkipped_def
         getCoverRequirement_def frange_head)
  then show ?thesis by (simp add: tr18_def)
qed

subsection \<open>The searches do not depend on the order of the table\<close>

lemma sameSorted_refl: "rel_sum (=) sameSorted r r"
  by (cases r) (simp_all add: sameSorted_def)

lemma costStep_sameSorted:
  assumes "sameSorted s1 s2"
  shows "rel_sum (=) sameSorted (costStep dflt thk totalOf designOf s1)
           (costStep dflt thk totalOf designOf s2)"
proof -
  have "costStep dflt thk totalOf designOf s1 = costStep dflt thk totalOf designOf s2"
    using assms by (cases s1; cases s2) (simp add: costStep_def Let_def sameSorted_def)
  then show ?thesis by (simp add: sameSorted_refl)
qed

lemma fp_step_sameSorted:
  "sameSorted s1 s2 \<Longrightarrow> rel_sum (=) sameSorted (fp_step W s1 tr) (fp_step W s2 tr)"
  by (cases "fp_checks tr") (simp_all add: fp_step_def costStep_sameSorted)

lemma ow_step_sameSorted:
  "sameSorted s1 s2 \<Longrightarrow> rel_sum (=) sameSorted (ow_step s1 c) (ow_step s2 c)"
  by (cases "ow_slabPrestress c"; cases "ow_beamPrestress c")
     (simp_all add: ow_step_def costStep_sameSorted)

lemma tw_step_sameSorted:
  "sameSorted s1 s2 \<Longrightarrow> rel_sum (=) sameSorted (tw_step s1 c) (tw_step s2 c)"
  by (cases "tw_slabPrestress c"; cases "tw_beamPrestress c")
     (simp_all add: tw_step_def costStep_sameSorted)

lemma initial_sameSorted: "sameSorted (initialState (sortCosts cp)) (initialState cp)"
  by (simp add: sameSorted_def initialState_def sortCosts_idem)

lemma result_sameSorted:
  assumes "rel_sum (=) sameSorted r1 r2"
  shows "searchResult (case r1 of Inl err \<Rightarrow> Inl err | Inr st \<Rightarrow> Inr (bestDesign st, costParams st))
       = searchResult (case r2 of Inl err \<Rightarrow> Inl err | Inr st \<Rightarrow> Inr (bestDesign st, costParams st))"
  using assms by (cases r1; cases r2) (simp_all add: sameSorted_def searchResult_def)

lemma searchResult_sorted:
  "searchResult (optimizeFlatPlate L W (sortCosts cp)) = searchResult (optimizeFlatPlate L W cp)"
  "searchResult (optimizeOneWayBeam L W (sortCosts cp)) = searchResult (optimizeOneWayBeam L W cp)"
  "searchResult (optimizeTwoWayBeam L W (sortCosts cp)) = searchResult (optimizeTwoWayBeam L W cp)"
  unfolding optimizeFlatPlate_def optimizeOneWayBeam_def optimizeTwoWayBeam_def
  by (intro result_sameSorted run_trials_rel fp_step_sameSorted ow_step_sameSorted
        tw_step_sameSorted initial_sameSorted; assumption)+

subsection \<open>The rows of the comparison table\<close>

lemma unitCost_entryOf: "spn * W \<noteq> 0 \<Longrightarrow> unitCost r spn W = entryOf r spn W"
  by (simp add: unitCost_def entryOf_def js_div_def split: option.splits)

lemma entry_nonneg:
  assumes "0 < spn * W" and "\<And>d. r = Some d \<Longrightarrow> 0 \<le> totalCost d"
  shows "finiteNonneg (entryOf r spn W)"
  using assms by (cases r) (simp_all add: entryOf_def finiteNonneg_def)

lemma compareAt_row:
  assumes c: "compareAt W cp0 spn = Inr (row, cp3)"
    and k: "cp0 = cp \<or> cp0 = sortCosts cp"
    and n: "nonnegCosts cp" and W: "2 < W" and L: "2 < spn"
  shows "row = specRow W cp spn" and "numericRow row" and "cp3 = cp \<or> cp3 = sortCosts cp"
proof -
  obtain fp cp1 ow cp2 tw where r:
      "optimizeFlatPlate spn W cp0 = Inr (fp, cp1)"
      "optimizeOneWayBeam spn W cp1 = Inr (ow, cp2)"
      "optimizeTwoWayBeam spn W cp2 = Inr (tw, cp3)"
      "row = \<lparr> cmp_span = spn, flatPlateCost = unitCost fp spn W,
               oneWayBeamCost = unitCost ow spn W, twoWayBeamCost = unitCost tw spn W \<rparr>"
    using c by (auto simp: compareAt_def split: sum.splits prod.splits)
  have step: "\<And>a b. a = cp \<or> a = sortCosts cp \<Longrightarrow> b = a \<or> b = sortCosts a
      \<Longrightarrow> b = cp \<or> b = sortCosts cp"
    by (auto simp: sortCosts_idem)
  have nn: "\<And>a. a = cp \<or> a = sortCosts cp \<Longrightarrow> nonnegCosts a"
    using n nonnegCosts_sortCosts by blast
  have k1: "cp1 = cp \<or> cp1 = sortCosts cp"
    using optimizeFlatPlate_inv[OF r(1)] step[OF k] by (auto simp: searchInv_def)
  have k2: "cp2 = cp \<or> cp2 = sortCosts cp"
    using optimizeOneWayBeam_inv[OF r(2)] step[OF k1] by (auto simp: searchInv_def)
  have k3: "cp3 = cp \<or> cp3 = sortCosts cp"
    using optimizeTwoWayBeam_inv[OF r(3)] step[OF k2] by (auto simp: searchInv_def)
  have area: "0 < spn * W" "spn * W \<noteq> 0" using W L by simp_all
  have f1: "searchResult (optimizeFlatPlate spn W cp) = fp"
    using k r(1) searchResult_sorted(1)[of spn W cp] by (auto simp: searchResult_def)
  have f2: "searchResult (optimizeOneWayBeam spn W cp) = ow"
    using k1 r(2) searchResult_sorted(2)[of spn W cp] by (auto simp: searchResult_def)
  have f3: "searchResult (optimizeTwoWayBeam spn W cp) = tw"
    using k2 r(3) searchResult_sorted(3)[of spn W cp] by (auto simp: searchResult_def)
  show "row = specRow W cp spn"
    by (simp add: r(4) specRow_def f1 f2 f3 unitCost_entryOf[OF area(2)])
  have e1: "finiteNonneg (entryOf fp spn W)"
  proof (rule entry_nonneg[OF area(1)])
    fix d assume "fp = Some d"
    then show "0 \<le> totalCost d"
      using fp_result_nonneg[of spn W cp0 d cp1] r(1) nn[OF k] W L by simp
  qed
  have e2: "finiteNonneg (entryOf ow spn W)"
  proof (rule entry_nonneg[OF area(1)])
    fix d assume "ow = Some d"
    then show "0 \<le> totalCost d"
      using ow_result_nonneg[of spn W cp1 d cp2] r(2) nn[OF k1] W L by simp
  qed
  have e3: "finiteNonneg (entryOf tw spn W)"
  proof (rule entry_nonneg[OF area(1)])
    fix d assume "tw = Some d"
    then show "0 \<le> totalCost d"
      using tw_result_nonneg[of spn W cp2 d cp3] r(3) nn[OF k2] W L by simp
  qed
  show "numericRow row"
    by (simp add: numericRow_def r(4) unitCost_entryOf[OF area(2)] e1 e2 e3)
  show "cp3 = cp \<or> cp3 = sortCosts cp" by (rule k3)
qed

lemma comparisons_rows:
  assumes n: "nonnegCosts cp" and W: "2 < W"
  shows "comparisons W cp0 spans = Inr (rows, cp') \<Longrightarrow> cp0 = cp \<or> cp0 = sortCosts cp
    \<Longrightarrow> list_all (\<lambda>spn. 2 < spn) spans
    \<Longrightarrow> rows = map (specRow W cp) spans \<and> list_all numericRow rows"
proof (induction spans arbitrary: cp0 rows)
  case Nil
  then show ?case by simp
next
  case (Cons spn spans)
  obtain row cp1 rest where r: "compareAt W cp0 spn = Inr (row, cp1)"
      "comparisons W cp1 spans = Inr (rest, cp')" "rows = row # rest"
    using Cons.prems(1) by (auto split: sum.splits prod.splits)
  have L: "2 < spn" and Ls: "list_all (\<lambda>spn. 2 < spn) spans" using Cons.prems(3) by simp_all
  note h = compareAt_row[OF r(1) Cons.prems(2) n W L]
  have t: "rest = map (specRow W cp) spans" "list_all numericRow rest"
    using Cons.IH[OF r(2) h(3) Ls] by blast+
  have "rows = map (specRow W cp) (spn # spans)" using h(1) t(1) r(3) by simp
  moreover have "list_all numericRow rows" using h(2) t(2) r(3) by simp
  ultimately show ?case by blast
qed

lemma comparisons_total:
  "ptSlabCosts cp \<noteq> [] \<Longrightarrow> \<exists>rows cp'. comparisons W cp spans = Inr (rows, cp')"
proof (induction spans arbitrary: cp)
  case Nil
  then show ?case by simp
next
  case (Cons spn spans)
  have ne: "\<And>a b. ptSlabCosts a \<noteq> [] \<Longrightarrow> b = a \<or> b = sortCosts a \<Longrightarrow> ptSlabCosts b \<noteq> []"
    using sortCosts_empty by blast
  obtain fp cp1 where a: "optimizeFlatPlate spn W cp = Inr (fp, cp1)" "ptSlabCosts cp1 \<noteq> []"
    using optimize_total(1)[OF Cons.prems, of spn W] ne[OF Cons.prems] by blast
  obtain ow cp2 where b: "optimizeOneWayBeam spn W cp1 = Inr (ow, cp2)" "ptSlabCosts cp2 \<noteq> []"
    using optimize_total(2)[OF a(2), of spn W] ne[OF a(2)] by blast
  obtain tw cp3 where c: "optimizeTwoWayBeam spn W cp2 = Inr (tw, cp3)" "ptSlabCosts cp3 \<noteq> []"
    using optimize_total(3)[OF b(2), of spn W] ne[OF b(2)] by blast
  obtain rest cp' where d: "comparisons W cp3 spans = Inr (rest, cp')"
    using Cons.IH[OF c(2)] by blast
  show ?case by (simp add: compareAt_def a b c d)
qed

lemma fp_zero_width: "fp_totalCost tr 0 cp b = 0"
  by (simp add: fp_totalCost_def fp_strandWeight_def fp_numStrands_def Let_def)

lemma refCosts_interp18:
  "interpolateBaseCost 20 (tr_thickness tr18) (ptSlabCosts (sortCosts refCosts)) = Inr (Num 15.35)"
  unfolding refCosts_sorted
  by (simp add: refCostsSorted_def interpolateBaseCost_def tr18_def Let_def)

lemma refCosts_flat_plate18:
  "\<exists>d. optimizeFlatPlate 18 W refCosts = Inr (Some d, refCostsSorted)"
  using optimizeFlatPlate_feasible[OF tr18_in_grid checks18 _ refCosts_interp18, of W]
  by (simp add: refCosts_sorted) (simp add: refCosts_def)

lemma zero_width_entry:
  assumes "optimizeFlatPlate L 0 cp = Inr (Some d, cp')"
  shows "unitCost (Some d) L 0 = NaN"
proof -
  obtain tr b where "d = fp_design tr 0 (sortCosts cp) b"
    using optimizeFlatPlate_produced[OF assms] unfolding fp_produced_def by blast
  then have "totalCost d = 0" by (simp add: fp_design_def Let_def fp_zero_width)
  then show ?thesis by (simp add: unitCost_def js_div_def)
qed

lemma nonneg_refCosts: "nonnegCosts refCosts"
  by (simp add: nonnegCosts_def refCosts_def)

text \<open>
  Claim C1. The search's top-fiber formula and the analysis script's top-fiber formula differ
  exactly where the eccentric-prestress bending term \<open>P*e/St\<close> differs from the load bending
  term \<open>M/St\<close>: the two terms enter with opposite signs (the difference of the two results
  is twice the difference of the terms), and they do differ at a concrete trial.
\<close>

theorem C1_formula_sets_disagree:
  "(search_top P A e St M \<noteq> f_top P A e St M) = (P * e / St \<noteq> M / St)
   \<and> search_top P A e St M - f_top P A e St M = 2 * (P * e / St - M / St)
   \<and> search_top P A e St M = - P / A + (P * e / St) - (M / St)
   \<and> f_top P A e St M = - P / A - (P * e / St) + (M / St)
   \<and> search_top 56250 120 2.4 200 100000 = - 293.75
   \<and> f_top 56250 120 2.4 200 100000 = - 643.75"
  by (simp add: search_top_def f_top_def)

text \<open>
  Claim C2. A grid point of the flat-plate search passes the stress screening exactly when
  each of the four fiber stresses lies in \<open>[-compressionLimit, +tensionLimit]\<close> of its
  load stage: top and bottom at transfer from the initial force \<open>Pi\<close> and the dead-load
  moment, top and bottom at service from the effective force \<open>Pe\<close> and the service moment,
  which is the dead-load moment plus 0.3 times the live-load moment. The search rejects a grid
  point for a stress reason exactly when the screening fails.
\<close>

theorem C2_stress_screening:
  "(fp_stress_screen tr = None) =
     ((- fci_comp (fp_limits tr) \<le> fp_fti_top tr \<and> fp_fti_top tr \<le> fci_tens (fp_limits tr))
      \<and> (- fci_comp (fp_limits tr) \<le> fp_fti_bot tr \<and> fp_fti_bot tr \<le> fci_tens (fp_limits tr))
      \<and> (- fc_comp_total (fp_limits tr) \<le> fp_fs_top tr \<and> fp_fs_top tr \<le> fc_tens (fp_limits tr))
      \<and> (- fc_comp_total (fp_limits tr) \<le> fp_fs_bot tr \<and> fp_fs_bot tr \<le> fc_tens (fp_limits tr)))
   \<and> (fp_checks tr = Some StressTransferFailed \<or> fp_checks tr = Some StressServiceFailed)
       = (fp_stress_screen tr \<noteq> None)
   \<and> fp_fti_top tr = search_top (fp_Pi tr) (sec_A (fp_props tr)) (fp_e tr) (sec_St (fp_props tr)) (fp_Md tr)
   \<and> fp_fti_bot tr = search_bot (fp_Pi tr) (sec_A (fp_props tr)) (fp_e tr) (sec_Sb (fp_props tr)) (fp_Md tr)
   \<and> fp_fs_top tr = search_top (fp_Pe tr) (sec_A (fp_props tr)) (fp_e tr) (sec_St (fp_props tr)) (fp_Mt_service tr)
   \<and> fp_fs_bot tr = search_bot (fp_Pe tr) (sec_A (fp_props tr)) (fp_e tr) (sec_Sb (fp_props tr)) (fp_Mt_service tr)
   \<and> fp_Mt_service tr = fp_Md tr + 0.3 * fp_Ml tr"
proof -
  have screen: "(fp_stress_screen tr = None) =
     ((- fci_comp (fp_limits tr) \<le> fp_fti_top tr \<and> fp_fti_top tr \<le> fci_tens (fp_limits tr))
      \<and> (- fci_comp (fp_limits tr) \<le> fp_fti_bot tr \<and> fp_fti_bot tr \<le> fci_tens (fp_limits tr))
      \<and> (- fc_comp_total (fp_limits tr) \<le> fp_fs_top tr \<and> fp_fs_top tr \<le> fc_tens (fp_limits tr))
      \<and> (- fc_comp_total (fp_limits tr) \<le> fp_fs_bot tr \<and> fp_fs_bot tr \<le> fc_tens (fp_limits tr)))"
    unfolding fp_stress_screen_def fp_transfer_check_def fp_service_check_def
    by (auto simp: not_less split: if_splits)
  have reason: "(fp_checks tr = Some StressTransferFailed \<or> fp_checks tr = Some StressServiceFailed)
       = (fp_stress_screen tr \<noteq> None)"
    unfolding fp_checks_def fp_stress_screen_def
    by (cases "fp_transfer_check tr"; cases "fp_service_check tr";
        auto simp: fp_transfer_check_def fp_service_check_def fp_prestress_check_def
          fp_moment_check_def fp_deflection_check_def fp_vibration_check_def
          fp_punching_check_def Let_def first_reject_None
          split: if_splits option.splits)
  show ?thesis
    using screen reason
    by (simp add: fp_fti_top_def fp_fti_bot_def fp_fs_top_def fp_fs_bot_def fp_Mt_service_def)
qed

text \<open>
  Claim C3. Whenever one of the three searches returns a design, every flag of its
  \<open>checks\<close> record (moment, deflection, vibration, punchingShear, camber) is true.
\<close>

theorem C3_returned_design_passes_every_check:
  assumes "optimizeFlatPlate bayLength bayWidth cp = Inr (Some d, cp')
     \<or> optimizeOneWayBeam bayLength bayWidth cp = Inr (Some d, cp')
     \<or> optimizeTwoWayBeam bayLength bayWidth cp = Inr (Some d, cp')"
  shows "moment (checks d) \<and> deflection (checks d) \<and> vibration (checks d)
     \<and> punchingShear (checks d) \<and> camber (checks d)"
proof -
  have "\<exists>st. searchInv cp st \<and> bestDesign st = Some d \<and> costParams st = cp'"
    using assms optimizeFlatPlate_inv optimizeOneWayBeam_inv optimizeTwoWayBeam_inv by blast
  then have "checks d = allChecksTrue" by (auto simp: searchInv_def)
  then show ?thesis by (simp add: allChecksTrue_def)
qed

theorem C3_returned_design_passes_every_check_witness:
  "\<exists>d. optimizeFlatPlate 12 30 refCosts = Inr (Some d, refCostsSorted)
      \<and> moment (checks d) \<and> deflection (checks d) \<and> vibration (checks d)
      \<and> punchingShear (checks d) \<and> camber (checks d)"
proof -
  obtain d where d: "optimizeFlatPlate 12 30 refCosts = Inr (Some d, refCostsSorted)"
    using refCosts_flat_plate by blast
  then show ?thesis
    using C3_returned_design_passes_every_check[of 12 30 refCosts d refCostsSorted] by blast
qed

text \<open>
  Claim C4. In the flat-plate moment check the resistance factor is 0.9 when the computed
  tension-face strain is at least 0.005, is interpolated linearly between 0.65 and 0.9 for a
  strain from 0.002 up to 0.005, and a strain below 0.002 rejects the grid point; a grid point
  that has a resistance factor passes the check exactly when the factor times the nominal
  capacity is at least the total factored moment.
\<close>

theorem C4_moment_capacity_check:
  "(fp_epsilon_t tr \<ge> 0.005 \<longrightarrow> fp_phi tr = Some 0.9)
   \<and> (0.002 \<le> fp_epsilon_t tr \<and> fp_epsilon_t tr < 0.005 \<longrightarrow>
        (\<exists>phi. fp_phi tr = Some phi
           \<and> phi = 0.65 + (fp_epsilon_t tr - 0.002) * (0.9 - 0.65) / (0.005 - 0.002)
           \<and> 0.65 \<le> phi \<and> phi < 0.9))
   \<and> (fp_epsilon_t tr < 0.002 \<longrightarrow>
        fp_phi tr = None \<and> fp_moment_check tr = Some TensionControlFailed
        \<and> fp_checks tr \<noteq> None)
   \<and> (\<forall>phi. fp_phi tr = Some phi \<longrightarrow>
        (fp_moment_check tr = None) = (phi * fp_Mn tr \<ge> fp_Mt tr))"
proof (intro conjI impI allI)
  assume "fp_epsilon_t tr \<ge> 0.005"
  then show "fp_phi tr = Some 0.9" by (simp add: fp_phi_def)
next
  assume band: "0.002 \<le> fp_epsilon_t tr \<and> fp_epsilon_t tr < 0.005"
  let ?phi = "0.65 + (fp_epsilon_t tr - 0.002) * (0.9 - 0.65) / (0.005 - 0.002)"
  have "fp_phi tr = Some ?phi" using band by (simp add: fp_phi_def)
  moreover have "0.65 \<le> ?phi" "?phi < 0.9" using band by (simp_all add: field_simps)
  ultimately show "\<exists>phi. fp_phi tr = Some phi
           \<and> phi = 0.65 + (fp_epsilon_t tr - 0.002) * (0.9 - 0.65) / (0.005 - 0.002)
           \<and> 0.65 \<le> phi \<and> phi < 0.9" by blast
next
  assume low: "fp_epsilon_t tr < 0.002"
  then show "fp_phi tr = None" by (simp add: fp_phi_def)
  then show m: "fp_moment_check tr = Some TensionControlFailed"
    by (simp add: fp_moment_check_def)
  show "fp_checks tr \<noteq> None"
    using m by (simp add: fp_checks_def first_reject_None)
next
  fix phi assume "fp_phi tr = Some phi"
  then show "(fp_moment_check tr = None) = (phi * fp_Mn tr \<ge> fp_Mt tr)"
    by (auto simp: fp_moment_check_def Let_def)
qed

theorem C4_moment_capacity_check_witness:
  "fp_epsilon_t tr0 \<ge> 0.005 \<and> fp_phi tr0 = Some 0.9 \<and> fp_moment_check tr0 = None
   \<and> 0.9 * fp_Mn tr0 \<ge> fp_Mt tr0
   \<and> 0.002 \<le> fp_epsilon_t tr4 \<and> fp_epsilon_t tr4 < 0.005
   \<and> fp_phi tr4 = Some (507793 / 720570) \<and> fp_moment_check tr4 = None
   \<and> fp_epsilon_t tr6 < 0.002 \<and> fp_moment_check tr6 = Some TensionControlFailed"
proof -
  have e0: "fp_epsilon_t tr0 \<ge> 0.005" by (simp add: mom0e)
  have e4: "0.002 \<le> fp_epsilon_t tr4 \<and> fp_epsilon_t tr4 < 0.005" by (simp add: mom4e)
  have e6: "fp_epsilon_t tr6 < 0.002" by (simp add: mom6e)
  have p0: "fp_phi tr0 = Some 0.9" using C4_moment_capacity_check[of tr0] e0 by blast
  have m0: "0.9 * fp_Mn tr0 \<ge> fp_Mt tr0" by (simp add: mom0a mom0e)
  have c0: "fp_moment_check tr0 = None" using C4_moment_capacity_check[of tr0] p0 m0 by blast
  obtain phi where phi: "fp_phi tr4 = Some phi"
      "phi = 0.65 + (fp_epsilon_t tr4 - 0.002) * (0.9 - 0.65) / (0.005 - 0.002)"
    using C4_moment_capacity_check[of tr4] e4 by blast
  have phiv: "phi = 507793 / 720570" using phi(2) by (simp add: mom4e)
  have m4: "phi * fp_Mn tr4 \<ge> fp_Mt tr4" by (simp add: phiv mom4a mom4e)
  have c4: "fp_moment_check tr4 = None" using C4_moment_capacity_check[of tr4] phi(1) m4 by blast
  have c6: "fp_moment_check tr6 = Some TensionControlFailed"
    using C4_moment_capacity_check[of tr6] e6 by blast
  show ?thesis using e0 p0 c0 m0 e4 phi(1) phiv c4 e6 c6 by simp
qed

text \<open>
  Claim C5, as the code has it. A search that returns leaves every field of the caller's cost
  record as it was, except the order of \<open>ptSlabCosts\<close>: each cost evaluation sorts that
  array in place by thickness, so the array is returned either untouched or stably sorted, with
  the same elements; a table already in ascending order is returned unchanged.
\<close>

theorem C5_only_the_table_order_changes:
  assumes "optimizeFlatPlate bayLength bayWidth cp = Inr (r, cp')
     \<or> optimizeOneWayBeam bayLength bayWidth cp = Inr (r, cp')
     \<or> optimizeTwoWayBeam bayLength bayWidth cp = Inr (r, cp')"
  shows "(cp' = cp \<or> cp' = cp\<lparr> ptSlabCosts := sort_key thickness (ptSlabCosts cp) \<rparr>)
     \<and> mset (ptSlabCosts cp') = mset (ptSlabCosts cp)
     \<and> ptFormworkCostPerSf cp' = ptFormworkCostPerSf cp
     \<and> beamFormingCostPerCf cp' = beamFormingCostPerCf cp
     \<and> beamPouringCostPerCf cp' = beamPouringCostPerCf cp
     \<and> ptStrandCostPerLb cp' = ptStrandCostPerLb cp
     \<and> mildSteelCostPerLb cp' = mildSteelCostPerLb cp
     \<and> (sorted (map thickness (ptSlabCosts cp)) \<longrightarrow> cp' = cp)"
proof -
  have "\<exists>st. searchInv cp st \<and> bestDesign st = r \<and> costParams st = cp'"
    using assms optimizeFlatPlate_inv optimizeOneWayBeam_inv optimizeTwoWayBeam_inv by blast
  then have c: "cp' = cp \<or> cp' = sortCosts cp" by (auto simp: searchInv_def)
  then show ?thesis
    using sortCosts_fields[of cp] sortCosts_sorted[of cp]
    by (auto simp: sortCosts_def)
qed

theorem C5_only_the_table_order_changes_witness:
  "\<exists>r. optimizeFlatPlate 12 30 refCostsSorted = Inr (r, refCostsSorted)
     \<and> sorted (map thickness (ptSlabCosts refCostsSorted))"
proof -
  have s: "sortCosts refCostsSorted = refCostsSorted"
    using sortCosts_idem[of refCosts] by (simp add: refCosts_sorted)
  have i: "interpolateBaseCost 20 (tr_thickness tr0) (ptSlabCosts (sortCosts refCostsSorted))
      = Inr (Num 12.05)"
    using refCosts_interp by (simp add: s refCosts_sorted)
  have "\<exists>d. optimizeFlatPlate 12 30 refCostsSorted = Inr (Some d, sortCosts refCostsSorted)"
    by (rule optimizeFlatPlate_feasible[OF tr0_in_grid checks0 _ i]) (simp add: refCostsSorted_def)
  then obtain d cp' where d: "optimizeFlatPlate 12 30 refCostsSorted = Inr (Some d, cp')" by blast
  have srt: "sorted (map thickness (ptSlabCosts refCostsSorted))"
    by (simp add: refCostsSorted_def)
  have "cp' = refCostsSorted"
    using C5_only_the_table_order_changes[of 12 30 refCostsSorted "Some d" cp'] d srt by blast
  then show ?thesis using d srt by blast
qed

text \<open>
  The claim as stated fails for a 12 ft by 30 ft bay and a cost record whose table lists the
  10 in point before the 5 in point: the flat-plate search returns with the two points
  swapped.
\<close>

theorem C5_input_table_reordered_counterexample:
  "map_sum id snd (optimizeFlatPlate 12 30 refCosts) = Inr refCostsSorted
   \<and> ptSlabCosts refCosts
       = [\<lparr> thickness = 10, costPerSf = 17 \<rparr>, \<lparr> thickness = 5, costPerSf = 11.5 \<rparr>]
   \<and> ptSlabCosts refCostsSorted
       = [\<lparr> thickness = 5, costPerSf = 11.5 \<rparr>, \<lparr> thickness = 10, costPerSf = 17 \<rparr>]
   \<and> refCostsSorted \<noteq> refCosts"
proof -
  obtain d where "optimizeFlatPlate 12 30 refCosts = Inr (Some d, refCostsSorted)"
    using refCosts_flat_plate by blast
  then show ?thesis by (simp add: refCosts_def refCostsSorted_def)
qed

text \<open>
  Claim C6, as the code has it. The searches do not validate the cost table. A table of one
  point is accepted silently: every thickness gets that point's unit cost (one of the two
  clamps always applies). An empty table raises the \<open>TypeError\<close> of reading
  \<^verbatim>\<open>sortedCosts[0].thickness\<close>, with no message of the search's own.
\<close>

theorem C6_short_table_not_rejected:
  "interpolateBaseCost dflt x (sort_key thickness [p]) = Inr (Num (costPerSf p))
   \<and> interpolateBaseCost dflt x (sort_key thickness []) = Inl TypeError"
  by (simp add: interpolateBaseCost_def)

text \<open>
  The claim as stated fails for a table of the single point (5 in, 10 per square foot): the
  interpolation for a 7 in slab returns the clamped value 10 and no error.
\<close>

theorem C6_single_point_counterexample:
  "interpolateBaseCost 20 7 (sort_key thickness [\<lparr> thickness = 5, costPerSf = 10 \<rparr>])
     = Inr (Num 10)"
  by (simp add: interpolateBaseCost_def)

text \<open>
  Claim C7, as the code has it. For a cost table with at least two points, strictly ascending
  thicknesses and non-decreasing unit costs, the interpolated base cost is a finite number for
  every thickness; as a function of the thickness it is continuous, monotonically
  non-decreasing, equal to the first unit cost at and below the first thickness and equal to
  the last unit cost at and above the last thickness. (Without non-decreasing unit costs the
  cost is not monotone, see the counterexample.)
\<close>

theorem C7_interpolation_on_valid_table:
  assumes "2 \<le> length tbl" and "ascendingThickness tbl" and "nondecreasingCost tbl"
  shows "(\<forall>x. \<exists>v. interpolateBaseCost dflt x (sort_key thickness tbl) = Inr (Num v))
    \<and> continuous_on UNIV (\<lambda>x. numOf (interpolateBaseCost dflt x (sort_key thickness tbl)))
    \<and> (\<forall>x y. x \<le> y \<longrightarrow>
          numOf (interpolateBaseCost dflt x (sort_key thickness tbl))
            \<le> numOf (interpolateBaseCost dflt y (sort_key thickness tbl)))
    \<and> (\<forall>x. x \<le> thickness (hd tbl) \<longrightarrow>
          interpolateBaseCost dflt x (sort_key thickness tbl) = Inr (Num (costPerSf (hd tbl))))
    \<and> (\<forall>x. thickness (last tbl) \<le> x \<longrightarrow>
          interpolateBaseCost dflt x (sort_key thickness tbl) = Inr (Num (costPerSf (last tbl))))"
proof -
  have ne: "tbl \<noteq> []" using assms(1) by auto
  have "sorted (map thickness tbl)"
    using assms(2) unfolding ascendingThickness_def
    by (simp add: sorted_map sorted_wrt_mono_rel[of tbl "\<lambda>p q. thickness p < thickness q"])
  then have srt: "sort_key thickness tbl = tbl" by (rule sort_key_id_if_sorted)
  have eq: "interpolateBaseCost dflt x tbl = Inr (Num (slabCostCurve tbl x))" for x
    by (rule interpolate_curve[OF assms(2) ne])
  have num: "(\<lambda>x. numOf (interpolateBaseCost dflt x tbl)) = slabCostCurve tbl"
    by (rule ext) (simp add: eq numOf_def)
  have head: "slabCostCurve tbl x = costPerSf (hd tbl)" if "x \<le> thickness (hd tbl)" for x
    using that ne by (cases tbl) (simp_all add: curve_at_head)
  show ?thesis
    unfolding srt num
    using eq curve_continuous[OF assms(2)] curve_mono[OF assms(2,3)]
      curve_above_last[OF assms(2) ne] head
    by (simp add: numOf_def)
qed

theorem C7_interpolation_on_valid_table_witness:
  "2 \<le> length [\<lparr> thickness = 5, costPerSf = 10 \<rparr>, \<lparr> thickness = 10, costPerSf = 20 \<rparr>]
   \<and> ascendingThickness [\<lparr> thickness = 5, costPerSf = 10 \<rparr>, \<lparr> thickness = 10, costPerSf = 20 \<rparr>]
   \<and> nondecreasingCost [\<lparr> thickness = 5, costPerSf = 10 \<rparr>, \<lparr> thickness = 10, costPerSf = 20 \<rparr>]
   \<and> continuous_on UNIV (\<lambda>x. numOf (interpolateBaseCost 20 x
         (sort_key thickness
            [\<lparr> thickness = 5, costPerSf = 10 \<rparr>, \<lparr> thickness = 10, costPerSf = 20 \<rparr>])))
   \<and> interpolateBaseCost 20 3
         (sort_key thickness
            [\<lparr> thickness = 5, costPerSf = 10 \<rparr>, \<lparr> thickness = 10, costPerSf = 20 \<rparr>])
       = Inr (Num 10)
   \<and> interpolateBaseCost 20 7.5
         (sort_key thickness
            [\<lparr> thickness = 5, costPerSf = 10 \<rparr>, \<lparr> thickness = 10, costPerSf = 20 \<rparr>])
       = Inr (Num 15)
   \<and> interpolateBaseCost 20 12
         (sort_key thickness
            [\<lparr> thickness = 5, costPerSf = 10 \<rparr>, \<lparr> thickness = 10, costPerSf = 20 \<rparr>])
       = Inr (Num 20)"
proof -
  let ?tbl = "[\<lparr> thickness = 5, costPerSf = 10 \<rparr>, \<lparr> thickness = 10, costPerSf = 20 \<rparr>]"
  have h: "2 \<le> length ?tbl" "ascendingThickness ?tbl" "nondecreasingCost ?tbl"
    by (simp_all add: ascendingThickness_def nondecreasingCost_def)
  have mid: "interpolateBaseCost 20 7.5 (sort_key thickness ?tbl) = Inr (Num 15)"
    by (simp add: interpolateBaseCost_def Let_def)
  show ?thesis
    using h mid C7_interpolation_on_valid_table[OF h, of 20]
    by simp
qed

text \<open>
  The claim as stated fails for the table (5 in, 20), (10 in, 10), which has two points with
  ascending thicknesses and finite values: inside the range the cost falls from 20 at 5 in to
  10 at 10 in.
\<close>

theorem C7_decreasing_cost_counterexample:
  "interpolateBaseCost 20 5
     (sort_key thickness [\<lparr> thickness = 5, costPerSf = 20 \<rparr>, \<lparr> thickness = 10, costPerSf = 10 \<rparr>])
     = Inr (Num 20)
   \<and> interpolateBaseCost 20 10
     (sort_key thickness [\<lparr> thickness = 5, costPerSf = 20 \<rparr>, \<lparr> thickness = 10, costPerSf = 10 \<rparr>])
     = Inr (Num 10)
   \<and> ascendingThickness [\<lparr> thickness = 5, costPerSf = 20 \<rparr>, \<lparr> thickness = 10, costPerSf = 10 \<rparr>]"
  by (simp add: interpolateBaseCost_def ascendingThickness_def)

text \<open>
  Claim C8, as the code has it. For cost parameters without a negative unit cost and a bay
  width of more than 2 ft, a run of the comparison loop that returns gives ten rows, one per
  reference span, and every entry of every row is a finite number that is not negative: the
  total cost of the design the search returns for the caller's cost record divided by span
  times bay width, or 999 when the search returns no design. (The bound on the bay width is
  needed: with a bay width of zero the flat-plate entry of the first row is \<open>NaN\<close>, see
  the counterexample.)
\<close>

theorem C8_comparison_table_numeric:
  assumes "nonnegCosts cp" and "2 < bayWidth"
    and "comparisons bayWidth cp comparisonSpans = Inr (rows, cp')"
  shows "length rows = 10
     \<and> rows = map (specRow bayWidth cp) comparisonSpans
     \<and> list_all numericRow rows"
proof -
  have "list_all (\<lambda>spn. 2 < spn) comparisonSpans" by (simp add: comparisonSpans_def)
  then have r: "rows = map (specRow bayWidth cp) comparisonSpans" "list_all numericRow rows"
    using comparisons_rows[OF assms(1,2) assms(3)] by blast+
  have "length rows = 10" unfolding r(1) by (simp add: comparisonSpans_def)
  then show ?thesis using r by blast
qed

text \<open>
  The hypotheses hold for a bay width of 30 ft and the reference cost record: the loop returns
  ten numeric rows, and the flat-plate entry of the first row is the total cost of the design
  found for an 18 ft span over 18 times 30 square feet.
\<close>

theorem C8_comparison_table_numeric_witness:
  "\<exists>rows cp' d. comparisons 30 refCosts comparisonSpans = Inr (rows, cp')
     \<and> length rows = 10 \<and> list_all numericRow rows
     \<and> optimizeFlatPlate 18 30 refCosts = Inr (Some d, refCostsSorted)
     \<and> flatPlateCost (hd rows) = Num (totalCost d / (18 * 30))"
proof -
  obtain rows cp' where r: "comparisons 30 refCosts comparisonSpans = Inr (rows, cp')"
    using comparisons_total[of refCosts 30 comparisonSpans] by (auto simp: refCosts_def)
  obtain d where d: "optimizeFlatPlate 18 30 refCosts = Inr (Some d, refCostsSorted)"
    using refCosts_flat_plate18 by blast
  have "(2::real) < 30" by simp
  note h = C8_comparison_table_numeric[OF nonneg_refCosts this r]
  then have "hd rows = specRow 30 refCosts 18" by (simp add: comparisonSpans_def)
  then have "flatPlateCost (hd rows) = Num (totalCost d / (18 * 30))"
    by (simp add: specRow_def d searchResult_def entryOf_def)
  then show ?thesis using r d h by blast
qed

text \<open>
  The claim as stated fails for a bay width of zero: the cost record is non-negative and the
  flat-plate search for the 18 ft span returns a design, whose total cost is zero, and the
  entry \<^verbatim>\<open>fpCost.totalCost / (span * bayWidth)\<close> is \<open>0 / 0\<close>.
\<close>

theorem C8_zero_bay_width_counterexample:
  "\<exists>rows cp'. comparisons 0 refCosts comparisonSpans = Inr (rows, cp')
     \<and> nonnegCosts refCosts \<and> cmp_span (hd rows) = 18 \<and> flatPlateCost (hd rows) = NaN"
proof -
  obtain d where d: "optimizeFlatPlate 18 0 refCosts = Inr (Some d, refCostsSorted)"
    using refCosts_flat_plate18 by blast
  have ne: "ptSlabCosts refCostsSorted \<noteq> []" by (simp add: refCostsSorted_def)
  obtain ow cp2 where b: "optimizeOneWayBeam 18 0 refCostsSorted = Inr (ow, cp2)"
      "cp2 = refCostsSorted \<or> cp2 = sortCosts refCostsSorted"
    using optimize_total(2)[OF ne, of 18 0] by blast
  have ne2: "ptSlabCosts cp2 \<noteq> []" using b(2) ne sortCosts_empty by auto
  obtain tw cp3 where c: "optimizeTwoWayBeam 18 0 cp2 = Inr (tw, cp3)"
      "cp3 = cp2 \<or> cp3 = sortCosts cp2"
    using optimize_total(3)[OF ne2, of 18 0] by blast
  have ne3: "ptSlabCosts cp3 \<noteq> []" using c(2) ne2 sortCosts_empty by auto
  define spans :: "real list" where "spans = [24, 27, 30, 36, 40, 45, 49, 54, 60]"
  have cs: "comparisonSpans = 18 # spans" by (simp add: comparisonSpans_def spans_def)
  obtain rest cp' where r: "comparisons 0 cp3 spans = Inr (rest, cp')"
    using comparisons_total[OF ne3] by blast
  have "comparisons 0 refCosts comparisonSpans
      = Inr (\<lparr> cmp_span = 18, flatPlateCost = unitCost (Some d) 18 0,
                oneWayBeamCost = unitCost ow 18 0, twoWayBeamCost = unitCost tw 18 0 \<rparr> # rest, cp')"
    by (simp add: cs compareAt_def d b c r)
  then show ?thesis using zero_width_entry[OF d] nonneg_refCosts by simp
qed

text \<open>
  Claim C9 does not hold of \<^verbatim>\<open>calculateTotalMildSteel\<close> in optimization.ts: the
  returned \<open>bonded\<close> is the quotient \<open>Mcr / (1.2 * fy * d)\<close> itself, without the floor at
  the temperature and shrinkage area that the implementation in ResultsDisplay.tsx applies.
  For a 5.5 in slab with effective depth 4 in and a cracking moment of 32000 in-lb the
  function returns \<open>bonded = 1/9\<close> below \<open>tempShrinkage = 0.1188\<close>; the same happens at
  the first grid point the flat-plate search accepts for a 12 ft bay.
\<close>

theorem C9_bonded_below_temperature_shrinkage:
  "bonded (calculateTotalMildSteel 5.5 12 5000 60000 0 32000 4) = 1 / 9
   \<and> tempShrinkage (calculateTotalMildSteel 5.5 12 5000 60000 0 32000 4) = 0.1188
   \<and> bonded (calculateTotalMildSteel 5.5 12 5000 60000 0 32000 4)
       < tempShrinkage (calculateTotalMildSteel 5.5 12 5000 60000 0 32000 4)
   \<and> bonded (fp_steel tr0) < tempShrinkage (fp_steel tr0)
   \<and> rd_calculateMinimumBondedReinforcement 32000 60000 4 = 0.1188"
proof -
  have b: "bonded (calculateTotalMildSteel thk spn fc fy s Mcr d) = Mcr / (1.2 * fy * d)"
    for thk spn fc fy s Mcr d
    by (simp add: calculateTotalMildSteel_def Let_def)
  have t: "tempShrinkage (calculateTotalMildSteel thk spn fc fy s Mcr d) = 0.0018 * thk * 12"
    for thk spn fc fy s Mcr d
    by (simp add: calculateTotalMildSteel_def Let_def)
  have "sqrt 5000 < 71" by (rule sqrt5000)
  then have "7.5 * sqrt 5000 * 166.375 / (5.5 / 2) / (1.2 * 60000 * 4) < 0.0018 * 5.5 * 12"
    by simp
  then have s0: "bonded (fp_steel tr0) < tempShrinkage (fp_steel tr0)"
    unfolding fp_steel_def Let_def b t props0 mom0a
    by (simp add: tr0_def)
  have rd: "rd_calculateMinimumBondedReinforcement 32000 60000 4 = 0.1188"
    by (simp add: rd_calculateMinimumBondedReinforcement_def rd_temperatureShrinkageArea_def
          Let_def)
  show ?thesis using s0 rd by (simp add: b t)
qed

text \<open>
  Claim C10. In all three searches a steel unit cost of exactly zero is treated as an absent
  one: the rebar cost term is the rebar weight times the fallback 1.20, and a search gives the
  same result for a record with the unit cost zero as for the record without it. So there is
  an input with a zero unit cost (the reference record, for a 12 ft by 30 ft bay) for which the
  returned candidate's mild-steel cost is strictly positive.
\<close>

theorem C10_zero_steel_cost_uses_fallback:
  "js_or (Some 0) 1.20 = 1.20 \<and> js_or None 1.20 = 1.20
   \<and> fp_rebarCostPerSf tr (cp\<lparr> mildSteelCostPerLb := Some 0 \<rparr>) = fp_rebarWeightPerSf tr * 1.20
   \<and> ow_rebarCost c sp (cp\<lparr> mildSteelCostPerLb := Some 0 \<rparr>) = ow_totalRebarWeight c sp * 1.20
   \<and> tw_rebarCost c sp (cp\<lparr> mildSteelCostPerLb := Some 0 \<rparr>) = tw_totalRebarWeight c sp * 1.20
   \<and> map_sum id fst (optimizeFlatPlate bayLength bayWidth (cp\<lparr> mildSteelCostPerLb := Some 0 \<rparr>))
       = map_sum id fst (optimizeFlatPlate bayLength bayWidth (cp\<lparr> mildSteelCostPerLb := None \<rparr>))
   \<and> map_sum id fst (optimizeOneWayBeam bayLength bayWidth (cp\<lparr> mildSteelCostPerLb := Some 0 \<rparr>))
       = map_sum id fst (optimizeOneWayBeam bayLength bayWidth (cp\<lparr> mildSteelCostPerLb := None \<rparr>))
   \<and> map_sum id fst (optimizeTwoWayBeam bayLength bayWidth (cp\<lparr> mildSteelCostPerLb := Some 0 \<rparr>))
       = map_sum id fst (optimizeTwoWayBeam bayLength bayWidth (cp\<lparr> mildSteelCostPerLb := None \<rparr>))
   \<and> mildSteelCostPerLb refCosts = Some 0
   \<and> (\<exists>d cp'. optimizeFlatPlate 12 30 refCosts = Inr (Some d, cp')
          \<and> 0 < mildSteel (costBreakdown d))"
proof -
  have terms: "js_or (Some 0) 1.20 = 1.20 \<and> js_or None 1.20 = 1.20
   \<and> fp_rebarCostPerSf tr (cp\<lparr> mildSteelCostPerLb := Some 0 \<rparr>) = fp_rebarWeightPerSf tr * 1.20
   \<and> ow_rebarCost c sp (cp\<lparr> mildSteelCostPerLb := Some 0 \<rparr>) = ow_totalRebarWeight c sp * 1.20
   \<and> tw_rebarCost c sp (cp\<lparr> mildSteelCostPerLb := Some 0 \<rparr>) = tw_totalRebarWeight c sp * 1.20"
    by (simp add: js_or_def fp_rebarCostPerSf_def ow_rebarCost_def tw_rebarCost_def)
  have fp: "map_sum id fst (optimizeFlatPlate bayLength bayWidth (cp\<lparr> mildSteelCostPerLb := Some 0 \<rparr>))
       = map_sum id fst (optimizeFlatPlate bayLength bayWidth (cp\<lparr> mildSteelCostPerLb := None \<rparr>))"
    unfolding optimizeFlatPlate_def
    by (intro result_zeroVsAbsent run_trials_rel fp_step_zeroVsAbsent initial_zeroVsAbsent)
  have ow: "map_sum id fst (optimizeOneWayBeam bayLength bayWidth (cp\<lparr> mildSteelCostPerLb := Some 0 \<rparr>))
       = map_sum id fst (optimizeOneWayBeam bayLength bayWidth (cp\<lparr> mildSteelCostPerLb := None \<rparr>))"
    unfolding optimizeOneWayBeam_def
    by (intro result_zeroVsAbsent run_trials_rel ow_step_zeroVsAbsent initial_zeroVsAbsent)
  have tw: "map_sum id fst (optimizeTwoWayBeam bayLength bayWidth (cp\<lparr> mildSteelCostPerLb := Some 0 \<rparr>))
       = map_sum id fst (optimizeTwoWayBeam bayLength bayWidth (cp\<lparr> mildSteelCostPerLb := None \<rparr>))"
    unfolding optimizeTwoWayBeam_def
    by (intro result_zeroVsAbsent run_trials_rel tw_step_zeroVsAbsent initial_zeroVsAbsent)
  have z: "mildSteelCostPerLb refCosts = Some 0" by (simp add: refCosts_def)
  obtain d where d: "optimizeFlatPlate 12 30 refCosts = Inr (Some d, refCostsSorted)"
    using refCosts_flat_plate by blast
  then have "fp_produced 12 30 refCosts d" by (rule optimizeFlatPlate_produced)
  then obtain t b where t: "t \<in> set (fp_grid 12)" "d = fp_design t 30 (sortCosts refCosts) b"
    unfolding fp_produced_def by blast
  have "0 < js_or (mildSteelCostPerLb (sortCosts refCosts)) 1.20"
    by (simp add: sortCosts_fields z js_or_def)
  then have "0 < mildSteel (costBreakdown d)"
    unfolding t(2) using t(1) by (intro fp_design_mildSteel_positive[where L = 12]) simp_all
  then have ex: "\<exists>d cp'. optimizeFlatPlate 12 30 refCosts = Inr (Some d, cp')
          \<and> 0 < mildSteel (costBreakdown d)"
    using d by blast
  show ?thesis using terms fp ow tw z ex by blast
qed

end
